theory Spec2Isabelle
  imports Main
begin

section \<open>Heights, times, errors\<close>

text \<open>
  Byte slices are lists of byte values. A \<open>time.Time\<close> is the instant it denotes, in
  nanoseconds, and a \<open>time.Duration\<close> a number of nanoseconds, so \<open>Before\<close>, \<open>After\<close>
  and \<open>Add\<close> are \<open><\<close>, \<open>>\<close> and \<open>+\<close> on integers.
\<close>

type_synonym bytes = "nat list"
type_synonym Time = int
type_synonym Duration = int

text \<open>
  \<open>clienttypes.Height\<close>: a revision number and a height within the revision, both
  \<open>uint64\<close>. No arithmetic is done on them in the code below, only comparisons.
\<close>

datatype Height = NewHeight (RevisionNumber: nat) (RevisionHeight: nat)

text \<open>
  Modelled from the spec: \<open>Height.LT\<close> of \<open>clienttypes\<close> is used by update.go and is
  not in the sources. Section 3: "total order: compare revisionNumber first, then
  revisionHeight".
\<close>

definition LT :: "Height \<Rightarrow> Height \<Rightarrow> bool" where
  "LT a b \<longleftrightarrow> RevisionNumber a < RevisionNumber b
     \<or> (RevisionNumber a = RevisionNumber b \<and> RevisionHeight a < RevisionHeight b)"

text \<open>
  Modelled from the spec: \<open>Height.LTE\<close>, not in the sources; less than or equal in the
  order of section 3.
\<close>

definition LTE :: "Height \<Rightarrow> Height \<Rightarrow> bool" where
  "LTE a b \<longleftrightarrow> LT a b \<or> a = b"

text \<open>
  Modelled from the spec: \<open>Height.GT\<close>, not in the sources; greater than in the order of
  section 3.
\<close>

definition GT :: "Height \<Rightarrow> Height \<Rightarrow> bool" where
  "GT a b \<longleftrightarrow> LT b a"

text \<open>
  Modelled from the spec: \<open>Height.IsZero\<close>, not in the sources. Section 3: a frozen height
  is "zero = not frozen; non-zero = permanently frozen"; the zero height has both parts
  zero.
\<close>

definition IsZero :: "Height \<Rightarrow> bool" where
  "IsZero a \<longleftrightarrow> RevisionNumber a = 0 \<and> RevisionHeight a = 0"

text \<open>
  The errors of update.go and of the helpers it calls. \<open>sdkerrors.Wrap\<close> and \<open>Wrapf\<close>
  only decorate the message, so a wrapped error is the error itself.
\<close>

datatype error =
    ErrInvalidHeader
  | ErrInvalidClientType
  | ErrInvalidValidatorSet
  | ErrInvalidHeaderHeight
  | ErrConsensusStateNotFound
  | ErrUnmarshalConsensusState
  | ErrValidatorSetFromProto
  | ErrSignedHeaderFromProto
  | ErrOldHeaderExpired
  | ErrHeaderTimeNotAfterTrusted
  | ErrHeaderFromFuture
  | ErrInvalidCommit

text \<open>
  A Go call either returns a value, returns an error, or panics. The three are kept
  apart: a panic is not an error value handed to the caller.
\<close>

datatype 'a outcome = Ok 'a | Err error | Panic error

section \<open>The Tendermint client: data\<close>

record ConsensusState =
  Timestamp :: Time
  Root :: bytes
  NextValidatorsHash :: bytes

record Fraction =
  Numerator :: nat
  Denominator :: nat

record ClientState =
  ChainId :: string
  TrustLevel :: Fraction
  TrustingPeriod :: Duration
  UnbondingPeriod :: Duration
  MaxClockDrift :: Duration
  FrozenHeight :: Height
  LatestHeight :: Height

text \<open>
  The Tendermint \<open>Header\<close> client message. \<open>GetHeight\<close>, \<open>GetTime\<close>, \<open>AppHash\<close> and
  \<open>HeaderNextValidatorsHash\<close> are what the accessors \<open>header.GetHeight()\<close>,
  \<open>header.GetTime()\<close>, \<open>header.Header.GetAppHash()\<close> and
  \<open>header.Header.NextValidatorsHash\<close> read from the signed header; \<open>SignedHeader\<close>,
  \<open>ValidatorSet\<close> and \<open>TrustedValidators\<close> are the protobuf values as received.
\<close>

record Header =
  GetHeight :: Height
  GetTime :: Time
  AppHash :: bytes
  HeaderNextValidatorsHash :: bytes
  SignedHeader :: bytes
  ValidatorSet :: bytes
  TrustedHeight :: Height
  TrustedValidators :: bytes

text \<open>
  \<open>exported.ClientMessage\<close> is an interface with two implementations in this client;
  the type assertion \<open>header.(*Header)\<close> is a case distinction.
\<close>

datatype ClientMessage = HeaderMsg Header | MisbehaviourMsg Header Header

text \<open>
  \<open>FrozenHeight\<close>, the constant: "Misbehaviour sets frozen height to {0, 1} since it is
  only used as a boolean value (zero or non-zero)" (update.go, line 38).
\<close>

definition FrozenHeightConst :: Height where
  "FrozenHeightConst = NewHeight 0 1"

text \<open>
  Modelled from the spec: the method \<open>Header.ConsensusState()\<close> is not in the sources.
  It is "the header's derived consensus state" of section 4.3, the same three fields
  that \<open>UpdateState\<close> builds at lines 237-241 (\<open>NewMerkleRoot\<close> wraps the application
  hash unchanged).
\<close>

definition HeaderConsensusState :: "Header \<Rightarrow> ConsensusState" where
  "HeaderConsensusState h =
     \<lparr>Timestamp = GetTime h, Root = AppHash h,
      NextValidatorsHash = HeaderNextValidatorsHash h\<rparr>"

text \<open>
  Modelled from the spec: \<open>ClientState.IsExpired\<close> is not in the sources. Section 4.3,
  step 5: a consensus state is expired when "timestamp + trusting period \<le> current
  time".
\<close>

definition IsExpired :: "ClientState \<Rightarrow> Time \<Rightarrow> Time \<Rightarrow> bool" where
  "IsExpired cs latestTimestamp now \<longleftrightarrow> latestTimestamp + TrustingPeriod cs \<le> now"

section \<open>The client store\<close>

text \<open>
  What the client store holds under a consensus-state key is bytes, which the codec
  either unmarshals to a consensus state or rejects.
\<close>

datatype StoredConsensusState = Marshalled ConsensusState | Undecodable

text \<open>
  The part of \<open>sdk.Context\<close> that update.go reads: the block time, and the block height
  that the consensus metadata records.
\<close>

record Context =
  BlockTime :: Time
  BlockHeight :: Height

text \<open>
  The client store, as far as update.go touches it: the consensus states by height, and
  the metadata of each (processed time and processed height).
\<close>

record ClientStore =
  consensusStates :: "(Height \<times> StoredConsensusState) list"
  consensusMetadata :: "(Height \<times> Time \<times> Height) list"

text \<open>
  The store helpers of the Tendermint client are called by update.go and are not in the
  sources. Each is modelled from section 4.2 of the spec: "get(height),
  getPrevious(height) (largest stored height strictly less than given), getNext(height)
  (smallest stored height strictly greater than given), set(height, state),
  delete(height), iterateAscending(callback)".
\<close>

text \<open>
  Modelled from the spec: \<open>GetConsensusState\<close>, not in the sources; \<open>get(height)\<close> of
  section 4.2. It returns the consensus state, or an error when nothing is stored at the
  height or the stored bytes do not unmarshal.
\<close>

definition GetConsensusState :: "ClientStore \<Rightarrow> Height \<Rightarrow> error + ConsensusState" where
  "GetConsensusState store height =
     (case map_of (consensusStates store) height of
        None \<Rightarrow> Inl ErrConsensusStateNotFound
      | Some Undecodable \<Rightarrow> Inl ErrUnmarshalConsensusState
      | Some (Marshalled c) \<Rightarrow> Inr c)"

text \<open>The heights that have an entry in the store, in the order of the entries.\<close>

definition storedHeights :: "ClientStore \<Rightarrow> Height list" where
  "storedHeights store = map fst (consensusStates store)"

text \<open>The largest and the smallest height of a non-empty list, given as head and tail.\<close>

fun largestHeight :: "Height \<Rightarrow> Height list \<Rightarrow> Height" where
  "largestHeight m [] = m"
| "largestHeight m (k # ks) = largestHeight (if GT k m then k else m) ks"

fun smallestHeight :: "Height \<Rightarrow> Height list \<Rightarrow> Height" where
  "smallestHeight m [] = m"
| "smallestHeight m (k # ks) = smallestHeight (if LT k m then k else m) ks"

text \<open>
  Modelled from the spec: \<open>GetPreviousConsensusState\<close>, not in the sources;
  \<open>getPrevious(height)\<close> of section 4.2, "largest stored height strictly less than
  given". The Go pair (state, ok) is an option; a neighbour that does not unmarshal is
  reported as absent.
\<close>

definition GetPreviousConsensusState :: "ClientStore \<Rightarrow> Height \<Rightarrow> ConsensusState option" where
  "GetPreviousConsensusState store height =
     (case filter (\<lambda>k. LT k height) (storedHeights store) of
        [] \<Rightarrow> None
      | k # ks \<Rightarrow>
          (case GetConsensusState store (largestHeight k ks) of
             Inl _ \<Rightarrow> None
           | Inr c \<Rightarrow> Some c))"

text \<open>
  Modelled from the spec: \<open>GetNextConsensusState\<close>, not in the sources;
  \<open>getNext(height)\<close> of section 4.2, "smallest stored height strictly greater than
  given".
\<close>

definition GetNextConsensusState :: "ClientStore \<Rightarrow> Height \<Rightarrow> ConsensusState option" where
  "GetNextConsensusState store height =
     (case filter (\<lambda>k. GT k height) (storedHeights store) of
        [] \<Rightarrow> None
      | k # ks \<Rightarrow>
          (case GetConsensusState store (smallestHeight k ks) of
             Inl _ \<Rightarrow> None
           | Inr c \<Rightarrow> Some c))"

text \<open>The stored heights in ascending order, by insertion sort.\<close>

fun insertHeight :: "Height \<Rightarrow> Height list \<Rightarrow> Height list" where
  "insertHeight h [] = [h]"
| "insertHeight h (k # ks) = (if LTE h k then h # k # ks else k # insertHeight h ks)"

fun ascendingHeights :: "Height list \<Rightarrow> Height list" where
  "ascendingHeights [] = []"
| "ascendingHeights (h # hs) = insertHeight h (ascendingHeights hs)"

text \<open>
  The callback of an iteration is a Go closure that writes to variables of the enclosing
  function and returns whether to stop; here it takes and returns those variables.
\<close>

fun iterateHeights :: "('s \<Rightarrow> Height \<Rightarrow> 's \<times> bool) \<Rightarrow> 's \<Rightarrow> Height list \<Rightarrow> 's" where
  "iterateHeights cb s [] = s"
| "iterateHeights cb s (h # hs) =
     (case cb s h of (s', stop) \<Rightarrow> if stop then s' else iterateHeights cb s' hs)"

text \<open>
  Modelled from the spec: \<open>IterateConsensusStateAscending\<close>, not in the sources;
  \<open>iterateAscending(callback)\<close> of section 4.2. The callback is given the stored heights
  from the smallest on, until it returns true.
\<close>

definition IterateConsensusStateAscending ::
    "ClientStore \<Rightarrow> ('s \<Rightarrow> Height \<Rightarrow> 's \<times> bool) \<Rightarrow> 's \<Rightarrow> 's" where
  "IterateConsensusStateAscending store cb s =
     iterateHeights cb s (ascendingHeights (storedHeights store))"

text \<open>
  Modelled from the spec: \<open>deleteConsensusState\<close>, not in the sources;
  \<open>delete(height)\<close> of section 4.2.
\<close>

definition deleteConsensusState :: "ClientStore \<Rightarrow> Height \<Rightarrow> ClientStore" where
  "deleteConsensusState store height =
     store\<lparr>consensusStates := filter (\<lambda>kv. fst kv \<noteq> height) (consensusStates store)\<rparr>"

text \<open>
  Modelled from the spec: \<open>deleteConsensusMetadata\<close>, not in the sources. The comment
  of \<open>pruneOldestConsensusState\<close> (update.go, line 250) has the consensus state "pruned
  from store along with all associated metadata": the metadata of the height is removed.
\<close>

definition deleteConsensusMetadata :: "ClientStore \<Rightarrow> Height \<Rightarrow> ClientStore" where
  "deleteConsensusMetadata store height =
     store\<lparr>consensusMetadata := filter (\<lambda>kv. fst kv \<noteq> height) (consensusMetadata store)\<rparr>"

text \<open>
  Modelled from the spec: \<open>setConsensusMetadata\<close>, not in the sources. It records, for
  the height, the block time and block height at which the update is processed (section
  6: "current block height and current wall-clock time of the local chain, supplied per
  call").
\<close>

definition setConsensusMetadata :: "Context \<Rightarrow> ClientStore \<Rightarrow> Height \<Rightarrow> ClientStore" where
  "setConsensusMetadata ctx store height =
     store\<lparr>consensusMetadata :=
       (height, BlockTime ctx, BlockHeight ctx)
         # filter (\<lambda>kv. fst kv \<noteq> height) (consensusMetadata store)\<rparr>"

section \<open>Header validity\<close>

text \<open>
  The functions of the Tendermint library that \<open>checkValidity\<close> calls are taken as
  parameters: parsing a validator set and a signed header from their protobuf form
  (\<open>None\<close> is the error return), the hash of a validator set, and the verification of
  the commit signatures against the trust level. So are the two chain-identifier helpers
  of \<open>clienttypes\<close>.
\<close>

text \<open>
  The fields of \<open>tmtypes.Header\<close> that \<open>checkValidity\<close> fills in for the trusted
  header (lines 184-189), and the library functions as a record of parameters.
\<close>

record TrustedHeader =
  thChainID :: string
  thHeight :: int
  thTime :: Time
  thNextValidatorsHash :: bytes

record TmLib =
  ValidatorSetFromProto :: "bytes \<Rightarrow> bytes option"
  ValidatorSetHash :: "bytes \<Rightarrow> bytes"
  SignedHeaderFromProto :: "bytes \<Rightarrow> bytes option"
  IsRevisionFormat :: "string \<Rightarrow> bool"
  SetRevisionNumber :: "string \<Rightarrow> nat \<Rightarrow> string"
  VerifyCommit :: "TrustedHeader \<Rightarrow> bytes \<Rightarrow> bytes \<Rightarrow> bytes \<Rightarrow> Fraction \<Rightarrow> bool"

text \<open>
  Modelled from the spec: \<open>light.Verify\<close> belongs to the Tendermint library and is not
  in the sources. Section 4.3, step 3c: "verify trusting-period has not elapsed and
  header timestamp is within max clock drift of current time", next to the signature
  check, which stays the parameter \<open>VerifyCommit\<close>; the comment at lines 194-198 of
  update.go adds "assert header timestamp is past latest stored consensus state
  timestamp". The untrusted header's time is what \<open>header.GetTime()\<close> reads.
\<close>

definition lightVerify ::
    "TmLib \<Rightarrow> TrustedHeader \<Rightarrow> bytes \<Rightarrow> Time \<Rightarrow> bytes \<Rightarrow> bytes
       \<Rightarrow> Duration \<Rightarrow> Time \<Rightarrow> Duration \<Rightarrow> Fraction \<Rightarrow> error option" where
  "lightVerify lib trustedHeader trustedVals untrustedTime untrustedHeader untrustedVals
       trustingPeriod now maxClockDrift trustLevel =
     (if thTime trustedHeader + trustingPeriod \<le> now then Some ErrOldHeaderExpired
      else if \<not> thTime trustedHeader < untrustedTime then Some ErrHeaderTimeNotAfterTrusted
      else if now + maxClockDrift < untrustedTime then Some ErrHeaderFromFuture
      else if \<not> VerifyCommit lib trustedHeader trustedVals untrustedHeader untrustedVals
                  trustLevel
      then Some ErrInvalidCommit
      else None)"

text \<open>\<open>checkTrustedHeader\<close>, update.go lines 109-126. \<open>None\<close> is the nil error.\<close>

definition checkTrustedHeader :: "TmLib \<Rightarrow> Header \<Rightarrow> ConsensusState \<Rightarrow> error option" where
  "checkTrustedHeader lib header consState =
     (case ValidatorSetFromProto lib (TrustedValidators header) of
        None \<Rightarrow> Some ErrValidatorSetFromProto
      | Some tmTrustedValidators \<Rightarrow>
          if NextValidatorsHash consState \<noteq> ValidatorSetHash lib tmTrustedValidators
          then Some ErrInvalidValidatorSet
          else None)"

text \<open>
  \<open>checkValidity\<close>, update.go lines 130-208, check by check in the order of the code.
  \<open>int64(header.TrustedHeight.RevisionHeight)\<close> reinterprets the 64 bits as signed.
\<close>

definition checkValidity ::
    "TmLib \<Rightarrow> ClientState \<Rightarrow> ConsensusState \<Rightarrow> Header \<Rightarrow> Time \<Rightarrow> error option" where
  "checkValidity lib clientState consState header currentTimestamp =
     (case checkTrustedHeader lib header consState of
        Some err \<Rightarrow> Some err
      | None \<Rightarrow>
     if RevisionNumber (GetHeight header) \<noteq> RevisionNumber (TrustedHeight header)
     then Some ErrInvalidHeaderHeight
     else
     (case ValidatorSetFromProto lib (TrustedValidators header) of
        None \<Rightarrow> Some ErrValidatorSetFromProto
      | Some tmTrustedValidators \<Rightarrow>
     (case SignedHeaderFromProto lib (SignedHeader header) of
        None \<Rightarrow> Some ErrSignedHeaderFromProto
      | Some tmSignedHeader \<Rightarrow>
     (case ValidatorSetFromProto lib (ValidatorSet header) of
        None \<Rightarrow> Some ErrValidatorSetFromProto
      | Some tmValidatorSet \<Rightarrow>
     if LTE (GetHeight header) (TrustedHeight header) then Some ErrInvalidHeader
     else
       let chainID = ChainId clientState;
           chainID = (if IsRevisionFormat lib chainID
                      then SetRevisionNumber lib chainID (RevisionNumber (GetHeight header))
                      else chainID);
           trustedHeader =
             \<lparr>thChainID = chainID,
              thHeight = signed_take_bit 63 (int (RevisionHeight (TrustedHeight header))),
              thTime = Timestamp consState,
              thNextValidatorsHash = NextValidatorsHash consState\<rparr>
       in lightVerify lib trustedHeader tmTrustedValidators (GetTime header) tmSignedHeader
            tmValidatorSet (TrustingPeriod clientState) currentTimestamp
            (MaxClockDrift clientState) (TrustLevel clientState)))))"

section \<open>Updating the client\<close>

text \<open>
  \<open>pruneOldestConsensusState\<close>, update.go lines 252-285. The callback stops the
  iteration at the first height it is given (it returns true on both paths), so only the
  earliest stored height is looked at. The function returns nothing in Go and panics on
  a read error: here \<open>Inl\<close> is the panic, with the store as it was, and \<open>Inr\<close> the store
  after the deletions.
\<close>

definition pruneCb ::
    "ClientState \<Rightarrow> Context \<Rightarrow> ClientStore \<Rightarrow> Height option \<times> error option \<Rightarrow> Height
       \<Rightarrow> (Height option \<times> error option) \<times> bool" where
  "pruneCb cs ctx clientStore vars height =
     (case GetConsensusState clientStore height of
        Inl err \<Rightarrow> ((fst vars, Some err), True)
      | Inr consState \<Rightarrow>
          ((if IsExpired cs (Timestamp consState) (BlockTime ctx) then Some height
            else fst vars, snd vars), True))"

definition pruneOldestConsensusState ::
    "ClientState \<Rightarrow> Context \<Rightarrow> ClientStore \<Rightarrow> error + ClientStore" where
  "pruneOldestConsensusState cs ctx clientStore =
     (case IterateConsensusStateAscending clientStore (pruneCb cs ctx clientStore) (None, None) of
        (pruneHeight, Some pruneError) \<Rightarrow> Inl pruneError
      | (None, None) \<Rightarrow> Inr clientStore
      | (Some h, None) \<Rightarrow>
          Inr (deleteConsensusMetadata (deleteConsensusState clientStore h) h))"

text \<open>
  \<open>UpdateState\<close>, update.go lines 219-247. The result is what the Go call returns (or
  its panic), paired with the client store after the call, so that the writes of a call
  that fails are visible too. The receiver \<open>cs\<close> is passed by value: the caller's
  client state is never written, the updated copy is returned.
\<close>

definition UpdateState ::
    "ClientState \<Rightarrow> Context \<Rightarrow> ClientStore \<Rightarrow> ClientMessage
       \<Rightarrow> (ClientState \<times> ConsensusState) outcome \<times> ClientStore" where
  "UpdateState cs ctx clientStore clientMsg =
     (case clientMsg of
        MisbehaviourMsg _ _ \<Rightarrow> (Err ErrInvalidClientType, clientStore)
      | HeaderMsg header \<Rightarrow>
          (case GetConsensusState clientStore (GetHeight header) of
             Inr consensusState \<Rightarrow> (Ok (cs, consensusState), clientStore)
           | Inl _ \<Rightarrow>
               (case pruneOldestConsensusState cs ctx clientStore of
                  Inl pruneError \<Rightarrow> (Panic pruneError, clientStore)
                | Inr pruned \<Rightarrow>
                    let height = GetHeight header;
                        cs' = (if GT height (LatestHeight cs)
                               then cs\<lparr>LatestHeight := height\<rparr> else cs);
                        consensusState =
                          \<lparr>Timestamp = GetTime header, Root = AppHash header,
                           NextValidatorsHash = HeaderNextValidatorsHash header\<rparr>
                    in (Ok (cs', consensusState), setConsensusMetadata ctx pruned height))))"

text \<open>
  \<open>CheckHeaderAndUpdateState\<close>, update.go lines 40-106, in two parts: lines 67-105,
  which run with the flag \<open>conflictingHeader\<close> already set, and lines 44-65 before
  them, which set it or return early. \<open>reflect.DeepEqual\<close> on two consensus states is
  equality of the records.
\<close>

definition validateAndUpdate ::
    "TmLib \<Rightarrow> ClientState \<Rightarrow> Context \<Rightarrow> ClientStore \<Rightarrow> Header \<Rightarrow> bool
       \<Rightarrow> (ClientState \<times> ConsensusState) outcome \<times> ClientStore" where
  "validateAndUpdate lib cs ctx clientStore tmHeader conflictingHeader =
     (case GetConsensusState clientStore (TrustedHeight tmHeader) of
        Inl err \<Rightarrow> (Err err, clientStore)
      | Inr trustedConsState \<Rightarrow>
     (case checkValidity lib cs trustedConsState tmHeader (BlockTime ctx) of
        Some err \<Rightarrow> (Err err, clientStore)
      | None \<Rightarrow>
     let consState = HeaderConsensusState tmHeader in
     if conflictingHeader
     then (Ok (cs\<lparr>FrozenHeight := FrozenHeightConst\<rparr>, consState), clientStore)
     else
     let prevCons = GetPreviousConsensusState clientStore (GetHeight tmHeader);
         nextCons = GetNextConsensusState clientStore (GetHeight tmHeader)
     in
     if (case prevCons of None \<Rightarrow> False
         | Some p \<Rightarrow> \<not> Timestamp p < Timestamp consState)
     then (Ok (cs\<lparr>FrozenHeight := FrozenHeightConst\<rparr>, consState), clientStore)
     else if (case nextCons of None \<Rightarrow> False
              | Some n \<Rightarrow> \<not> Timestamp n > Timestamp consState)
     then (Ok (cs\<lparr>FrozenHeight := FrozenHeightConst\<rparr>, consState), clientStore)
     else UpdateState cs ctx clientStore (HeaderMsg tmHeader)))"

definition CheckHeaderAndUpdateState ::
    "TmLib \<Rightarrow> ClientState \<Rightarrow> Context \<Rightarrow> ClientStore \<Rightarrow> ClientMessage
       \<Rightarrow> (ClientState \<times> ConsensusState) outcome \<times> ClientStore" where
  "CheckHeaderAndUpdateState lib cs ctx clientStore header =
     (case header of
        MisbehaviourMsg _ _ \<Rightarrow> (Err ErrInvalidHeader, clientStore)
      | HeaderMsg tmHeader \<Rightarrow>
          (case GetConsensusState clientStore (GetHeight tmHeader) of
             Inr prevConsState \<Rightarrow>
               if prevConsState = HeaderConsensusState tmHeader
               then (Ok (cs, prevConsState), clientStore)
               else validateAndUpdate lib cs ctx clientStore tmHeader True
           | Inl _ \<Rightarrow> validateAndUpdate lib cs ctx clientStore tmHeader False))"

text \<open>
  Modelled from the spec: the caller of \<open>CheckHeaderAndUpdateState\<close> (the client keeper)
  writes the returned consensus state to the store and is not in the sources. Section
  4.3, step 5: "If not frozen by steps 2 or 4, ... record the new consensus state";
  section 4.2 names the write \<open>set(height, state)\<close>.
\<close>

definition setConsensusState :: "ClientStore \<Rightarrow> Height \<Rightarrow> ConsensusState \<Rightarrow> ClientStore" where
  "setConsensusState store height consState =
     store\<lparr>consensusStates :=
       (height, Marshalled consState)
         # filter (\<lambda>kv. fst kv \<noteq> height) (consensusStates store)\<rparr>"

text \<open>
  The two properties of a client store that section 8 states as the monotonicity
  invariant: every stored value unmarshals, and of two stored consensus states the one at
  the smaller height has the strictly smaller timestamp.
\<close>

definition allDecodable :: "ClientStore \<Rightarrow> bool" where
  "allDecodable store \<longleftrightarrow> (\<forall>kv \<in> set (consensusStates store). snd kv \<noteq> Undecodable)"

definition timestampsMonotonic :: "ClientStore \<Rightarrow> bool" where
  "timestampsMonotonic store \<longleftrightarrow>
     (\<forall>h1 \<in> set (storedHeights store). \<forall>h2 \<in> set (storedHeights store).
        LT h1 h2 \<longrightarrow>
        (case (GetConsensusState store h1, GetConsensusState store h2) of
           (Inr c1, Inr c2) \<Rightarrow> Timestamp c1 < Timestamp c2
         | _ \<Rightarrow> True))"

section \<open>The merged client store of the Wasm client\<close>

text \<open>
  A \<open>storetypes.KVStore\<close> is an external collaborator: here a finite map from keys to
  values, on which \<open>Set\<close> stores and \<open>Delete\<close> removes. Keys and values are byte
  slices, written as strings; the nil slice is the empty one, which is how
  \<open>bytes.Equal\<close> compares it.
\<close>

type_synonym KVStore = "string \<rightharpoonup> string"

record MergedClientStore =
  subjectStore :: KVStore
  substituteStore :: KVStore

definition SubjectPrefix :: string where
  "SubjectPrefix = ''subject/''"

definition SubstitutePrefix :: string where
  "SubstitutePrefix = ''substitute/''"

text \<open>\<open>bytes.HasPrefix\<close> and \<open>bytes.TrimPrefix\<close> of the Go standard library.\<close>

definition HasPrefix :: "string \<Rightarrow> string \<Rightarrow> bool" where
  "HasPrefix s pre \<longleftrightarrow> length pre \<le> length s \<and> take (length pre) s = pre"

definition TrimPrefix :: "string \<Rightarrow> string \<Rightarrow> string" where
  "TrimPrefix s pre = (if HasPrefix s pre then drop (length pre) s else s)"

text \<open>\<open>SplitPrefix\<close>, lines 237-245 of the store file.\<close>

definition SplitPrefix :: "string \<Rightarrow> string \<times> string" where
  "SplitPrefix key =
     (if HasPrefix key SubjectPrefix then (SubjectPrefix, TrimPrefix key SubjectPrefix)
      else if HasPrefix key SubstitutePrefix
      then (SubstitutePrefix, TrimPrefix key SubstitutePrefix)
      else ([], key))"

text \<open>
  \<open>MergedClientStore.GetStore\<close>, lines 215-223: the store a prefix selects, if any.
\<close>

definition MergedClientStore_GetStore :: "MergedClientStore \<Rightarrow> string \<Rightarrow> KVStore option" where
  "MergedClientStore_GetStore ws pre =
     (if pre = SubjectPrefix then Some (subjectStore ws)
      else if pre = SubstitutePrefix then Some (substituteStore ws)
      else None)"

text \<open>\<open>MergedClientStore.Get\<close>, lines 107-117; \<open>None\<close> is the nil slice of a miss.\<close>

definition MergedClientStore_Get :: "MergedClientStore \<Rightarrow> string \<Rightarrow> string option" where
  "MergedClientStore_Get ws key =
     (case SplitPrefix key of (pre, key') \<Rightarrow>
        (case MergedClientStore_GetStore ws pre of
           None \<Rightarrow> None
         | Some store \<Rightarrow> store key'))"

text \<open>
  \<open>MergedClientStore.Set\<close> and \<open>Delete\<close>, lines 137-155. The two stores are held by
  reference, so a write is a change of the merged store that is returned.
\<close>

definition MergedClientStore_Set ::
    "MergedClientStore \<Rightarrow> string \<Rightarrow> string \<Rightarrow> MergedClientStore" where
  "MergedClientStore_Set ws key val =
     (case SplitPrefix key of (pre, key') \<Rightarrow>
        if pre \<noteq> SubjectPrefix then ws
        else ws\<lparr>subjectStore := (subjectStore ws)(key' \<mapsto> val)\<rparr>)"

definition MergedClientStore_Delete :: "MergedClientStore \<Rightarrow> string \<Rightarrow> MergedClientStore" where
  "MergedClientStore_Delete ws key =
     (case SplitPrefix key of (pre, key') \<Rightarrow>
        if pre \<noteq> SubjectPrefix then ws
        else ws\<lparr>subjectStore := (subjectStore ws)(key' := None)\<rparr>)"

section \<open>Receiving a packet\<close>

datatype Order = ORDERED | UNORDERED

datatype ChannelPhase = INIT | TRYOPEN | OPEN | CLOSED

record Channel =
  ordering :: Order
  phase :: ChannelPhase

record Packet =
  sequence :: nat
  sourcePort :: string
  sourceChannel :: string
  destPort :: string
  destChannel :: string
  payload :: bytes
  timeoutHeight :: Height
  timeoutTimestamp :: Time

datatype packetError = NotFound | OrderingViolation | TimeoutElapsed | ProofInvalid

datatype event = RecvPacketEvent Packet | ErrorEvent Packet

text \<open>
  The channel state of section 3 that receiving reads and writes, with two logs that make
  the effects on the outside visible: the packets handed to the application's receive
  callback, and the events emitted.
\<close>

record ChannelStore =
  channels :: "string \<times> string \<rightharpoonup> Channel"
  nextSequenceRecv :: "string \<times> string \<rightharpoonup> nat"
  packetReceipts :: "(string \<times> string \<times> nat) set"
  acknowledgements :: "string \<times> string \<times> nat \<rightharpoonup> bytes"
  callbackLog :: "Packet list"
  events :: "event list"

text \<open>
  Modelled from the spec: the timeout check of \<open>recvPacket\<close> is not in the sources.
  Section 4.4, step 3: "destination height/time must be before packet's timeout
  bounds"; section 3: "timeout height, timeout timestamp (absolute; either or both may
  apply)", a zero bound being one that does not apply.
\<close>

definition timeoutElapsed :: "Packet \<Rightarrow> Height \<Rightarrow> Time \<Rightarrow> bool" where
  "timeoutElapsed packet selfHeight selfTime \<longleftrightarrow>
     (\<not> IsZero (timeoutHeight packet) \<and> \<not> LT selfHeight (timeoutHeight packet))
     \<or> (timeoutTimestamp packet \<noteq> 0 \<and> \<not> selfTime < timeoutTimestamp packet)"

text \<open>
  Modelled from the spec: \<open>recvPacket\<close> (the keeper's \<open>RecvPacket\<close>) is not in the
  sources, only its test \<open>TestHandleRecvPacket\<close> is. Section 4.4, steps 1 to 7. The
  application callback \<open>onRecvPacket\<close> ("(ack bytes|absent, success bool)") and the
  membership proof check are parameters. A call returns an error or succeeds, and the
  channel store after it.
\<close>

definition recvPacket ::
    "(Packet \<Rightarrow> bytes option \<times> bool) \<Rightarrow> (Packet \<Rightarrow> bytes \<Rightarrow> Height \<Rightarrow> bool)
       \<Rightarrow> ChannelStore \<Rightarrow> Packet \<Rightarrow> bytes \<Rightarrow> Height \<Rightarrow> Height \<Rightarrow> Time
       \<Rightarrow> (packetError + unit) \<times> ChannelStore" where
  "recvPacket onRecvPacket verifyMembership st packet proof proofHeight selfHeight selfTime =
     (let chanKey = (destPort packet, destChannel packet);
          seqKey = (destPort packet, destChannel packet, sequence packet)
      in
      case channels st chanKey of
        None \<Rightarrow> (Inl NotFound, st)
      | Some channel \<Rightarrow>
      if ordering channel = ORDERED \<and> nextSequenceRecv st chanKey \<noteq> Some (sequence packet)
      then (Inl OrderingViolation, st)
      else if ordering channel = UNORDERED \<and> seqKey \<in> packetReceipts st
      then (Inr (), st)
      else if timeoutElapsed packet selfHeight selfTime then (Inl TimeoutElapsed, st)
      else if \<not> verifyMembership packet proof proofHeight then (Inl ProofInvalid, st)
      else
        case onRecvPacket packet of
          (ack, success) \<Rightarrow>
            let called = st\<lparr>callbackLog := callbackLog st @ [packet]\<rparr> in
            if \<not> success
            then (Inr (), called\<lparr>events := events called @ [ErrorEvent packet]\<rparr>)
            else
              let received =
                    (if ordering channel = UNORDERED
                     then called\<lparr>packetReceipts := insert seqKey (packetReceipts called)\<rparr>
                     else called\<lparr>nextSequenceRecv :=
                            (nextSequenceRecv called)(chanKey \<mapsto> sequence packet + 1)\<rparr>);
                  acked =
                    (case ack of
                       None \<Rightarrow> received
                     | Some a \<Rightarrow>
                         received\<lparr>acknowledgements :=
                           (acknowledgements received)(seqKey \<mapsto> a)\<rparr>)
              in (Inr (), acked\<lparr>events := events acked @ [RecvPacketEvent packet]\<rparr>))"

section \<open>The order of heights and the store helpers\<close>

lemma LT_irrefl: "\<not> LT a a" by (simp add: LT_def)
lemma LT_trans: "LT a b \<Longrightarrow> LT b c \<Longrightarrow> LT a c" by (auto simp: LT_def)
lemma LT_total: "LT a b \<or> a = b \<or> LT b a"
  by (cases a; cases b) (auto simp: LT_def)
lemma LT_asym: "LT a b \<Longrightarrow> \<not> LT b a" by (auto simp: LT_def)
lemma LTE_refl: "LTE a a" by (simp add: LTE_def)
lemma LTE_trans: "LTE a b \<Longrightarrow> LTE b c \<Longrightarrow> LTE a c"
  by (auto simp: LTE_def dest: LT_trans)
lemma LTE_total: "LTE a b \<or> LTE b a" using LT_total[of a b] by (auto simp: LTE_def)
lemma not_LTE: "\<not> LTE a b \<Longrightarrow> LT b a" using LT_total[of a b] by (auto simp: LTE_def)

lemma largestHeight_mem: "largestHeight m ks \<in> set (m # ks)"
  by (induction ks arbitrary: m) (auto split: if_splits)

lemma largestHeight_above_start: "LTE m (largestHeight m ks)"
proof (induction ks arbitrary: m)
  case Nil show ?case by (simp add: LTE_refl)
next
  case (Cons k ks)
  show ?case
  proof (cases "GT k m")
    case True
    then have "LTE m k" by (simp add: GT_def LTE_def)
    with Cons[of k] True show ?thesis by (auto intro: LTE_trans)
  next
    case False
    with Cons[of m] show ?thesis by simp
  qed
qed

lemma largestHeight_ge: "x \<in> set (m # ks) \<Longrightarrow> LTE x (largestHeight m ks)"
proof (induction ks arbitrary: m)
  case Nil then show ?case by (simp add: LTE_refl)
next
  case (Cons k ks)
  let ?m' = "if GT k m then k else m"
  have m: "LTE m ?m'" by (simp add: GT_def LTE_def)
  have k: "LTE k ?m'" using not_LTE[of k m] by (auto simp: GT_def LTE_def dest: LT_asym)
  from Cons.prems consider "x = m" | "x = k" | "x \<in> set ks" by auto
  then show ?case
  proof cases
    case 1 with m largestHeight_above_start[of ?m' ks] show ?thesis
      by (auto intro: LTE_trans simp del: largestHeight.simps simp add: largestHeight.simps(2))
  next
    case 2 with k largestHeight_above_start[of ?m' ks] show ?thesis
      by (auto intro: LTE_trans)
  next
    case 3 with Cons.IH[of ?m'] show ?thesis by simp
  qed
qed

lemma smallestHeight_mem: "smallestHeight m ks \<in> set (m # ks)"
  by (induction ks arbitrary: m) (auto split: if_splits)

lemma smallestHeight_below_start: "LTE (smallestHeight m ks) m"
proof (induction ks arbitrary: m)
  case Nil show ?case by (simp add: LTE_refl)
next
  case (Cons k ks)
  show ?case
  proof (cases "LT k m")
    case True
    then have "LTE k m" by (simp add: LTE_def)
    with Cons[of k] True show ?thesis by (auto intro: LTE_trans)
  next
    case False
    with Cons[of m] show ?thesis by simp
  qed
qed

lemma smallestHeight_le: "x \<in> set (m # ks) \<Longrightarrow> LTE (smallestHeight m ks) x"
proof (induction ks arbitrary: m)
  case Nil then show ?case by (simp add: LTE_refl)
next
  case (Cons k ks)
  let ?m' = "if LT k m then k else m"
  have m: "LTE ?m' m" by (simp add: LTE_def)
  have k: "LTE ?m' k" using not_LTE[of m k] by (auto simp: LTE_def)
  from Cons.prems consider "x = m" | "x = k" | "x \<in> set ks" by auto
  then show ?case
  proof cases
    case 1 with m smallestHeight_below_start[of ?m' ks] show ?thesis
      by (auto intro: LTE_trans)
  next
    case 2 with k smallestHeight_below_start[of ?m' ks] show ?thesis
      by (auto intro: LTE_trans)
  next
    case 3 with Cons.IH[of ?m'] show ?thesis by simp
  qed
qed

lemma set_insertHeight: "set (insertHeight h ks) = insert h (set ks)"
  by (induction ks) auto

lemma set_ascendingHeights: "set (ascendingHeights hs) = set hs"
  by (induction hs) (auto simp: set_insertHeight)

lemma sorted_insertHeight:
  "sorted_wrt LTE ks \<Longrightarrow> sorted_wrt LTE (insertHeight h ks)"
proof (induction ks)
  case Nil show ?case by simp
next
  case (Cons k ks)
  show ?case
  proof (cases "LTE h k")
    case True
    with Cons.prems show ?thesis by (auto intro: LTE_trans)
  next
    case False
    then have "LTE k h" using LTE_total[of h k] by simp
    with Cons False show ?thesis by (auto simp: set_insertHeight)
  qed
qed

lemma sorted_ascendingHeights: "sorted_wrt LTE (ascendingHeights hs)"
  by (induction hs) (auto intro: sorted_insertHeight)

lemma ascendingHeights_head:
  assumes "ascendingHeights hs = k # ks"
  shows "k \<in> set hs \<and> (\<forall>x \<in> set hs. LTE k x)"
proof -
  have s: "sorted_wrt LTE (k # ks)" using sorted_ascendingHeights[of hs] assms by simp
  have e: "set hs = set (k # ks)" using set_ascendingHeights[of hs] assms by simp
  show ?thesis using s e by (auto simp: LTE_refl)
qed

lemma ascendingHeights_Nil: "ascendingHeights hs = [] \<longleftrightarrow> hs = []"
  using set_ascendingHeights[of hs] by (cases hs) auto

lemma map_of_filter_fst:
  "map_of (filter (\<lambda>kv. fst kv \<noteq> h) xs) k = (if k = h then None else map_of xs k)"
  by (induction xs) auto

lemma GetConsensusState_deleteConsensusState:
  "GetConsensusState (deleteConsensusState store h) k =
     (if k = h then Inl ErrConsensusStateNotFound else GetConsensusState store k)"
  by (simp add: GetConsensusState_def deleteConsensusState_def map_of_filter_fst)

lemma GetConsensusState_metadata [simp]:
  "GetConsensusState (deleteConsensusMetadata store h) k = GetConsensusState store k"
  "GetConsensusState (setConsensusMetadata ctx store h) k = GetConsensusState store k"
  by (simp_all add: GetConsensusState_def deleteConsensusMetadata_def setConsensusMetadata_def)

lemma GetConsensusState_setConsensusState:
  "GetConsensusState (setConsensusState store h c) k =
     (if k = h then Inr c else GetConsensusState store k)"
  by (simp add: GetConsensusState_def setConsensusState_def map_of_filter_fst)

lemmas store_defs =
  GetConsensusState_def storedHeights_def GetPreviousConsensusState_def
  GetNextConsensusState_def IterateConsensusStateAscending_def deleteConsensusState_def
  deleteConsensusMetadata_def setConsensusMetadata_def setConsensusState_def
  LT_def LTE_def GT_def IsZero_def FrozenHeightConst_def

lemmas update_defs =
  CheckHeaderAndUpdateState_def validateAndUpdate_def UpdateState_def
  pruneOldestConsensusState_def pruneCb_def IsExpired_def HeaderConsensusState_def
  checkValidity_def checkTrustedHeader_def lightVerify_def Let_def

lemma CheckHeaderAndUpdateState_consState:
  assumes "CheckHeaderAndUpdateState lib cs ctx store (HeaderMsg h) = (Ok (cs1, c1), store1)"
  shows "c1 = HeaderConsensusState h"
  using assms
  by (auto simp: CheckHeaderAndUpdateState_def validateAndUpdate_def UpdateState_def Let_def
      HeaderConsensusState_def split: sum.splits if_splits option.splits)

lemma checkValidity_expired:
  "Timestamp trusted + TrustingPeriod cs \<le> now \<Longrightarrow>
     \<exists>err. checkValidity lib cs trusted h now = Some err"
  by (simp add: checkValidity_def lightVerify_def Let_def split: option.splits)

lemma checkValidity_future:
  "now + MaxClockDrift cs < GetTime h \<Longrightarrow>
     \<exists>err. checkValidity lib cs trusted h now = Some err"
  by (simp add: checkValidity_def lightVerify_def Let_def split: option.splits)

lemma checkValidity_height:
  "LTE (GetHeight h) (TrustedHeight h)
     \<or> RevisionNumber (GetHeight h) \<noteq> RevisionNumber (TrustedHeight h) \<Longrightarrow>
     \<exists>err. checkValidity lib cs trusted h now = Some err"
  by (auto simp: checkValidity_def split: option.splits)

lemma validateAndUpdate_invalid:
  "GetConsensusState store (TrustedHeight h) = Inr trusted \<Longrightarrow>
   checkValidity lib cs trusted h (BlockTime ctx) = Some err \<Longrightarrow>
   validateAndUpdate lib cs ctx store h conflicting = (Err err, store)"
  by (simp add: validateAndUpdate_def)

lemma CheckHeaderAndUpdateState_invalid:
  assumes "GetConsensusState store (GetHeight h) \<noteq> Inr (HeaderConsensusState h)"
      and "GetConsensusState store (TrustedHeight h) = Inr trusted"
      and "checkValidity lib cs trusted h (BlockTime ctx) = Some err"
  shows "CheckHeaderAndUpdateState lib cs ctx store (HeaderMsg h) = (Err err, store)"
  using assms
  by (auto simp: CheckHeaderAndUpdateState_def validateAndUpdate_invalid split: sum.splits)

lemma pruneOldestConsensusState_empty:
  "storedHeights store = [] \<Longrightarrow> pruneOldestConsensusState cs ctx store = Inr store"
  by (simp add: pruneOldestConsensusState_def IterateConsensusStateAscending_def)

lemma pruneOldestConsensusState_earliest:
  "ascendingHeights (storedHeights store) = k # ks \<Longrightarrow>
   pruneOldestConsensusState cs ctx store =
     (case GetConsensusState store k of
        Inl err \<Rightarrow> Inl err
      | Inr c \<Rightarrow>
          if Timestamp c + TrustingPeriod cs \<le> BlockTime ctx
          then Inr (deleteConsensusMetadata (deleteConsensusState store k) k)
          else Inr store)"
  by (simp add: pruneOldestConsensusState_def IterateConsensusStateAscending_def pruneCb_def
      IsExpired_def split: sum.splits)

lemma LTE_antisym: "LTE a b \<Longrightarrow> LTE b a \<Longrightarrow> a = b"
  by (auto simp: LTE_def dest: LT_asym)

lemma GetConsensusState_Inr_stored:
  "GetConsensusState store k = Inr c \<Longrightarrow> k \<in> set (storedHeights store)"
  by (force simp: GetConsensusState_def storedHeights_def
      split: option.splits StoredConsensusState.splits dest: map_of_SomeD)

lemma UpdateState_fresh:
  assumes "GetConsensusState store (GetHeight h) = Inl e"
  shows "UpdateState cs ctx store (HeaderMsg h) =
     (case pruneOldestConsensusState cs ctx store of
        Inl pruneError \<Rightarrow> (Panic pruneError, store)
      | Inr pruned \<Rightarrow>
          (Ok (if GT (GetHeight h) (LatestHeight cs) then cs\<lparr>LatestHeight := GetHeight h\<rparr>
               else cs, HeaderConsensusState h),
           setConsensusMetadata ctx pruned (GetHeight h)))"
  using assms
  by (simp add: UpdateState_def Let_def HeaderConsensusState_def split: sum.splits)

lemma allDecodable_read:
  assumes "allDecodable store" and "k \<in> set (storedHeights store)"
  shows "\<exists>c. GetConsensusState store k = Inr c"
proof -
  from assms(2) have "map_of (consensusStates store) k \<noteq> None"
    by (simp add: storedHeights_def map_of_eq_None_iff)
  then obtain v where v: "map_of (consensusStates store) k = Some v"
    by auto
  then have "(k, v) \<in> set (consensusStates store)" by (rule map_of_SomeD)
  with assms(1) have "v \<noteq> Undecodable" by (auto simp: allDecodable_def)
  with v show ?thesis by (cases v) (auto simp: GetConsensusState_def)
qed

lemma timestampsMonotonic_iff:
  "timestampsMonotonic store \<longleftrightarrow>
     (\<forall>k1 c1 k2 c2. GetConsensusState store k1 = Inr c1 \<longrightarrow>
        GetConsensusState store k2 = Inr c2 \<longrightarrow> LT k1 k2 \<longrightarrow> Timestamp c1 < Timestamp c2)"
proof
  assume m: "timestampsMonotonic store"
  show "\<forall>k1 c1 k2 c2. GetConsensusState store k1 = Inr c1 \<longrightarrow>
        GetConsensusState store k2 = Inr c2 \<longrightarrow> LT k1 k2 \<longrightarrow> Timestamp c1 < Timestamp c2"
  proof (intro allI impI)
    fix k1 c1 k2 c2
    assume r1: "GetConsensusState store k1 = Inr c1"
      and r2: "GetConsensusState store k2 = Inr c2" and lt: "LT k1 k2"
    have "k1 \<in> set (storedHeights store)" "k2 \<in> set (storedHeights store)"
      using r1 r2 by (auto dest: GetConsensusState_Inr_stored)
    with m lt have "case (GetConsensusState store k1, GetConsensusState store k2) of
           (Inr c1, Inr c2) \<Rightarrow> Timestamp c1 < Timestamp c2 | _ \<Rightarrow> True"
      unfolding timestampsMonotonic_def by blast
    with r1 r2 show "Timestamp c1 < Timestamp c2" by simp
  qed
next
  assume "\<forall>k1 c1 k2 c2. GetConsensusState store k1 = Inr c1 \<longrightarrow>
        GetConsensusState store k2 = Inr c2 \<longrightarrow> LT k1 k2 \<longrightarrow> Timestamp c1 < Timestamp c2"
  then show "timestampsMonotonic store"
    unfolding timestampsMonotonic_def by (auto split: sum.splits)
qed

lemma GetPreviousConsensusState_violation:
  assumes dec: "allDecodable store" and mono: "timestampsMonotonic store"
      and r: "GetConsensusState store k = Inr c" and lt: "LT k height"
      and v: "\<not> Timestamp c < t"
  shows "\<exists>p. GetPreviousConsensusState store height = Some p \<and> \<not> Timestamp p < t"
proof -
  let ?below = "filter (\<lambda>k. LT k height) (storedHeights store)"
  have kin: "k \<in> set ?below"
    using r lt by (auto dest: GetConsensusState_Inr_stored)
  then obtain k0 ks0 where f: "?below = k0 # ks0" by (cases ?below) auto
  let ?m = "largestHeight k0 ks0"
  have "?m \<in> set ?below" using largestHeight_mem [of k0 ks0] f by simp
  then have min: "?m \<in> set (storedHeights store)" by simp
  obtain p where p: "GetConsensusState store ?m = Inr p"
    using allDecodable_read [OF dec min] by blast
  have prev: "GetPreviousConsensusState store height = Some p"
    using f p by (simp add: GetPreviousConsensusState_def)
  have "LTE k ?m" using largestHeight_ge [of k k0 ks0] kin f by simp
  then have "Timestamp c \<le> Timestamp p"
  proof (unfold LTE_def, elim disjE)
    assume "LT k ?m"
    with mono r p have "Timestamp c < Timestamp p"
      unfolding timestampsMonotonic_iff by blast
    then show ?thesis by simp
  next
    assume "k = ?m"
    with r p show ?thesis by simp
  qed
  with v prev show ?thesis by auto
qed

lemma GetNextConsensusState_violation:
  assumes dec: "allDecodable store" and mono: "timestampsMonotonic store"
      and r: "GetConsensusState store k = Inr c" and gt: "GT k height"
      and v: "\<not> t < Timestamp c"
  shows "\<exists>n. GetNextConsensusState store height = Some n \<and> \<not> t < Timestamp n"
proof -
  let ?above = "filter (\<lambda>k. GT k height) (storedHeights store)"
  have kin: "k \<in> set ?above"
    using r gt by (auto dest: GetConsensusState_Inr_stored)
  then obtain k0 ks0 where f: "?above = k0 # ks0" by (cases ?above) auto
  let ?m = "smallestHeight k0 ks0"
  have "?m \<in> set ?above" using smallestHeight_mem [of k0 ks0] f by simp
  then have min: "?m \<in> set (storedHeights store)" by simp
  obtain n where n: "GetConsensusState store ?m = Inr n"
    using allDecodable_read [OF dec min] by blast
  have nxt: "GetNextConsensusState store height = Some n"
    using f n by (simp add: GetNextConsensusState_def)
  have "LTE ?m k" using smallestHeight_le [of k k0 ks0] kin f by simp
  then have "Timestamp n \<le> Timestamp c"
  proof (unfold LTE_def, elim disjE)
    assume "LT ?m k"
    with mono r n have "Timestamp n < Timestamp c"
      unfolding timestampsMonotonic_iff by blast
    then show ?thesis by simp
  next
    assume "?m = k"
    with r n show ?thesis by simp
  qed
  with v nxt show ?thesis by auto
qed

lemma pruneOldestConsensusState_cases:
  assumes "pruneOldestConsensusState cs ctx store = Inr pruned"
  shows "pruned = store \<or> (\<exists>k. pruned = deleteConsensusMetadata (deleteConsensusState store k) k)"
proof (cases "ascendingHeights (storedHeights store)")
  case Nil
  then have "storedHeights store = []" by (simp add: ascendingHeights_Nil)
  with assms show ?thesis by (simp add: pruneOldestConsensusState_empty)
next
  case (Cons k ks)
  from assms pruneOldestConsensusState_earliest [OF Cons, of cs ctx] show ?thesis
    by (auto split: sum.splits if_splits)
qed

lemma pruneOldestConsensusState_decodable:
  assumes "allDecodable store"
  shows "\<exists>pruned. pruneOldestConsensusState cs ctx store = Inr pruned"
proof (cases "ascendingHeights (storedHeights store)")
  case Nil
  then have "storedHeights store = []" by (simp add: ascendingHeights_Nil)
  then show ?thesis by (simp add: pruneOldestConsensusState_empty)
next
  case (Cons k ks)
  have "k \<in> set (storedHeights store)" using ascendingHeights_head [OF Cons] by simp
  then obtain c where "GetConsensusState store k = Inr c"
    using allDecodable_read [OF assms] by blast
  with pruneOldestConsensusState_earliest [OF Cons, of cs ctx] show ?thesis by simp
qed

lemma recorded_store_reads:
  assumes "pruned = store \<or> (\<exists>k. pruned = deleteConsensusMetadata (deleteConsensusState store k) k)"
  shows "GetConsensusState (setConsensusState (setConsensusMetadata ctx pruned height) height c) k
           = Inr c' \<Longrightarrow> (k = height \<and> c' = c) \<or> (k \<noteq> height \<and> GetConsensusState store k = Inr c')"
  using assms
  by (auto simp: GetConsensusState_setConsensusState GetConsensusState_deleteConsensusState
      split: if_splits)

lemma recorded_store_decodable:
  assumes "allDecodable store"
      and "pruned = store \<or> (\<exists>k. pruned = deleteConsensusMetadata (deleteConsensusState store k) k)"
  shows "allDecodable (setConsensusState (setConsensusMetadata ctx pruned height) height c)"
  using assms
  by (fastforce simp: allDecodable_def setConsensusState_def setConsensusMetadata_def
      deleteConsensusMetadata_def deleteConsensusState_def)

lemma pruned_store_invariant:
  assumes "allDecodable store" and "timestampsMonotonic store"
      and "pruned = store \<or> (\<exists>k. pruned = deleteConsensusMetadata (deleteConsensusState store k) k)"
  shows "allDecodable (setConsensusMetadata ctx pruned height)
       \<and> timestampsMonotonic (setConsensusMetadata ctx pruned height)"
proof
  show "allDecodable (setConsensusMetadata ctx pruned height)"
    using assms(1,3)
    by (fastforce simp: allDecodable_def setConsensusMetadata_def deleteConsensusMetadata_def
        deleteConsensusState_def)
  have "GetConsensusState (setConsensusMetadata ctx pruned height) k = Inr c \<Longrightarrow>
      GetConsensusState store k = Inr c" for k c
    using assms(3) by (auto simp: GetConsensusState_deleteConsensusState split: if_splits)
  with assms(2) show "timestampsMonotonic (setConsensusMetadata ctx pruned height)"
    unfolding timestampsMonotonic_iff by blast
qed

section \<open>The claims\<close>

text \<open>
  C3. When the consensus state stored at the header's height equals the one derived from
  the header, \<open>CheckHeaderAndUpdateState\<close> returns the client state it was given and
  the stored consensus state, and the store it was given. \<open>UpdateState\<close> does the same
  for any consensus state stored at that height. And a header submitted twice is
  idempotent: whatever a first call returned with success, once its consensus state is
  recorded at the header's height, a second call with the returned client state returns
  the same pair and leaves the store as it is.
\<close>

theorem duplicate_header_is_noop:
  "(GetConsensusState store (GetHeight h) = Inr c \<longrightarrow> c = HeaderConsensusState h \<longrightarrow>
      CheckHeaderAndUpdateState lib cs ctx store (HeaderMsg h) = (Ok (cs, c), store))
   \<and> (GetConsensusState store (GetHeight h) = Inr c \<longrightarrow>
      UpdateState cs ctx store (HeaderMsg h) = (Ok (cs, c), store))
   \<and> (CheckHeaderAndUpdateState lib cs0 ctx0 store0 (HeaderMsg h) = (Ok (cs1, c1), store1) \<longrightarrow>
      CheckHeaderAndUpdateState lib cs1 ctx1 (setConsensusState store1 (GetHeight h) c1)
          (HeaderMsg h)
        = (Ok (cs1, c1), setConsensusState store1 (GetHeight h) c1))"
proof (intro conjI impI)
  assume "CheckHeaderAndUpdateState lib cs0 ctx0 store0 (HeaderMsg h) = (Ok (cs1, c1), store1)"
  then have "c1 = HeaderConsensusState h"
    by (rule CheckHeaderAndUpdateState_consState)
  then show "CheckHeaderAndUpdateState lib cs1 ctx1
        (setConsensusState store1 (GetHeight h) c1) (HeaderMsg h)
      = (Ok (cs1, c1), setConsensusState store1 (GetHeight h) c1)"
    by (simp add: CheckHeaderAndUpdateState_def GetConsensusState_setConsensusState)
qed (auto simp: CheckHeaderAndUpdateState_def UpdateState_def)

theorem duplicate_header_is_noop_witness:
  "GetConsensusState (\<lparr>consensusStates = [(NewHeight 1 10, Marshalled \<lparr>Timestamp = 40, Root = [2], NextValidatorsHash = [7]\<rparr>), (NewHeight 1 5, Marshalled \<lparr>Timestamp = 0, Root = [1], NextValidatorsHash = [7]\<rparr>)], consensusMetadata = [(NewHeight 1 10, 50, NewHeight 0 9), (NewHeight 1 5, 0, NewHeight 0 1)]\<rparr>) (GetHeight (\<lparr>GetHeight = NewHeight 1 10, GetTime = 40, AppHash = [2], HeaderNextValidatorsHash = [7], SignedHeader = [], ValidatorSet = [7], TrustedHeight = NewHeight 1 5, TrustedValidators = [7]\<rparr>)) = Inr (\<lparr>Timestamp = 40, Root = [2], NextValidatorsHash = [7]\<rparr>)
   \<and> (\<lparr>Timestamp = 40, Root = [2], NextValidatorsHash = [7]\<rparr>) = HeaderConsensusState (\<lparr>GetHeight = NewHeight 1 10, GetTime = 40, AppHash = [2], HeaderNextValidatorsHash = [7], SignedHeader = [], ValidatorSet = [7], TrustedHeight = NewHeight 1 5, TrustedValidators = [7]\<rparr>)
   \<and> CheckHeaderAndUpdateState (\<lparr>ValidatorSetFromProto = Some, ValidatorSetHash = (\<lambda>v. v), SignedHeaderFromProto = Some, IsRevisionFormat = (\<lambda>c. False), SetRevisionNumber = (\<lambda>c n. c), VerifyCommit = (\<lambda>t a b c d. True)\<rparr>) (\<lparr>ChainId = ''chain'', TrustLevel = \<lparr>Numerator = 1, Denominator = 3\<rparr>, TrustingPeriod = 100, UnbondingPeriod = 200, MaxClockDrift = 10, FrozenHeight = NewHeight 0 0, LatestHeight = NewHeight 1 10\<rparr>) (\<lparr>BlockTime = 150, BlockHeight = NewHeight 0 9\<rparr>) (\<lparr>consensusStates = [(NewHeight 1 10, Marshalled \<lparr>Timestamp = 40, Root = [2], NextValidatorsHash = [7]\<rparr>), (NewHeight 1 5, Marshalled \<lparr>Timestamp = 0, Root = [1], NextValidatorsHash = [7]\<rparr>)], consensusMetadata = [(NewHeight 1 10, 50, NewHeight 0 9), (NewHeight 1 5, 0, NewHeight 0 1)]\<rparr>) (HeaderMsg (\<lparr>GetHeight = NewHeight 1 10, GetTime = 40, AppHash = [2], HeaderNextValidatorsHash = [7], SignedHeader = [], ValidatorSet = [7], TrustedHeight = NewHeight 1 5, TrustedValidators = [7]\<rparr>))
       = (Ok ((\<lparr>ChainId = ''chain'', TrustLevel = \<lparr>Numerator = 1, Denominator = 3\<rparr>, TrustingPeriod = 100, UnbondingPeriod = 200, MaxClockDrift = 10, FrozenHeight = NewHeight 0 0, LatestHeight = NewHeight 1 10\<rparr>), (\<lparr>Timestamp = 40, Root = [2], NextValidatorsHash = [7]\<rparr>)), (\<lparr>consensusStates = [(NewHeight 1 10, Marshalled \<lparr>Timestamp = 40, Root = [2], NextValidatorsHash = [7]\<rparr>), (NewHeight 1 5, Marshalled \<lparr>Timestamp = 0, Root = [1], NextValidatorsHash = [7]\<rparr>)], consensusMetadata = [(NewHeight 1 10, 50, NewHeight 0 9), (NewHeight 1 5, 0, NewHeight 0 1)]\<rparr>))
   \<and> UpdateState (\<lparr>ChainId = ''chain'', TrustLevel = \<lparr>Numerator = 1, Denominator = 3\<rparr>, TrustingPeriod = 100, UnbondingPeriod = 200, MaxClockDrift = 10, FrozenHeight = NewHeight 0 0, LatestHeight = NewHeight 1 10\<rparr>) (\<lparr>BlockTime = 150, BlockHeight = NewHeight 0 9\<rparr>) (\<lparr>consensusStates = [(NewHeight 1 10, Marshalled \<lparr>Timestamp = 40, Root = [2], NextValidatorsHash = [7]\<rparr>), (NewHeight 1 5, Marshalled \<lparr>Timestamp = 0, Root = [1], NextValidatorsHash = [7]\<rparr>)], consensusMetadata = [(NewHeight 1 10, 50, NewHeight 0 9), (NewHeight 1 5, 0, NewHeight 0 1)]\<rparr>) (HeaderMsg (\<lparr>GetHeight = NewHeight 1 10, GetTime = 40, AppHash = [2], HeaderNextValidatorsHash = [7], SignedHeader = [], ValidatorSet = [7], TrustedHeight = NewHeight 1 5, TrustedValidators = [7]\<rparr>)) = (Ok ((\<lparr>ChainId = ''chain'', TrustLevel = \<lparr>Numerator = 1, Denominator = 3\<rparr>, TrustingPeriod = 100, UnbondingPeriod = 200, MaxClockDrift = 10, FrozenHeight = NewHeight 0 0, LatestHeight = NewHeight 1 10\<rparr>), (\<lparr>Timestamp = 40, Root = [2], NextValidatorsHash = [7]\<rparr>)), (\<lparr>consensusStates = [(NewHeight 1 10, Marshalled \<lparr>Timestamp = 40, Root = [2], NextValidatorsHash = [7]\<rparr>), (NewHeight 1 5, Marshalled \<lparr>Timestamp = 0, Root = [1], NextValidatorsHash = [7]\<rparr>)], consensusMetadata = [(NewHeight 1 10, 50, NewHeight 0 9), (NewHeight 1 5, 0, NewHeight 0 1)]\<rparr>))
   \<and> CheckHeaderAndUpdateState (\<lparr>ValidatorSetFromProto = Some, ValidatorSetHash = (\<lambda>v. v), SignedHeaderFromProto = Some, IsRevisionFormat = (\<lambda>c. False), SetRevisionNumber = (\<lambda>c n. c), VerifyCommit = (\<lambda>t a b c d. True)\<rparr>) (\<lparr>ChainId = ''chain'', TrustLevel = \<lparr>Numerator = 1, Denominator = 3\<rparr>, TrustingPeriod = 100, UnbondingPeriod = 200, MaxClockDrift = 10, FrozenHeight = NewHeight 0 0, LatestHeight = NewHeight 1 5\<rparr>) (\<lparr>BlockTime = 50, BlockHeight = NewHeight 0 9\<rparr>) (\<lparr>consensusStates = [(NewHeight 1 5, Marshalled \<lparr>Timestamp = 0, Root = [1], NextValidatorsHash = [7]\<rparr>)], consensusMetadata = [(NewHeight 1 5, 0, NewHeight 0 1)]\<rparr>) (HeaderMsg (\<lparr>GetHeight = NewHeight 1 10, GetTime = 40, AppHash = [2], HeaderNextValidatorsHash = [7], SignedHeader = [], ValidatorSet = [7], TrustedHeight = NewHeight 1 5, TrustedValidators = [7]\<rparr>))
       = (Ok ((\<lparr>ChainId = ''chain'', TrustLevel = \<lparr>Numerator = 1, Denominator = 3\<rparr>, TrustingPeriod = 100, UnbondingPeriod = 200, MaxClockDrift = 10, FrozenHeight = NewHeight 0 0, LatestHeight = NewHeight 1 10\<rparr>), (\<lparr>Timestamp = 40, Root = [2], NextValidatorsHash = [7]\<rparr>)), (\<lparr>consensusStates = [(NewHeight 1 5, Marshalled \<lparr>Timestamp = 0, Root = [1], NextValidatorsHash = [7]\<rparr>)], consensusMetadata = [(NewHeight 1 10, 50, NewHeight 0 9), (NewHeight 1 5, 0, NewHeight 0 1)]\<rparr>))
   \<and> CheckHeaderAndUpdateState (\<lparr>ValidatorSetFromProto = Some, ValidatorSetHash = (\<lambda>v. v), SignedHeaderFromProto = Some, IsRevisionFormat = (\<lambda>c. False), SetRevisionNumber = (\<lambda>c n. c), VerifyCommit = (\<lambda>t a b c d. True)\<rparr>) (\<lparr>ChainId = ''chain'', TrustLevel = \<lparr>Numerator = 1, Denominator = 3\<rparr>, TrustingPeriod = 100, UnbondingPeriod = 200, MaxClockDrift = 10, FrozenHeight = NewHeight 0 0, LatestHeight = NewHeight 1 10\<rparr>) (\<lparr>BlockTime = 120, BlockHeight = NewHeight 0 9\<rparr>)
         (setConsensusState (\<lparr>consensusStates = [(NewHeight 1 5, Marshalled \<lparr>Timestamp = 0, Root = [1], NextValidatorsHash = [7]\<rparr>)], consensusMetadata = [(NewHeight 1 10, 50, NewHeight 0 9), (NewHeight 1 5, 0, NewHeight 0 1)]\<rparr>) (GetHeight (\<lparr>GetHeight = NewHeight 1 10, GetTime = 40, AppHash = [2], HeaderNextValidatorsHash = [7], SignedHeader = [], ValidatorSet = [7], TrustedHeight = NewHeight 1 5, TrustedValidators = [7]\<rparr>)) (\<lparr>Timestamp = 40, Root = [2], NextValidatorsHash = [7]\<rparr>)) (HeaderMsg (\<lparr>GetHeight = NewHeight 1 10, GetTime = 40, AppHash = [2], HeaderNextValidatorsHash = [7], SignedHeader = [], ValidatorSet = [7], TrustedHeight = NewHeight 1 5, TrustedValidators = [7]\<rparr>))
       = (Ok ((\<lparr>ChainId = ''chain'', TrustLevel = \<lparr>Numerator = 1, Denominator = 3\<rparr>, TrustingPeriod = 100, UnbondingPeriod = 200, MaxClockDrift = 10, FrozenHeight = NewHeight 0 0, LatestHeight = NewHeight 1 10\<rparr>), (\<lparr>Timestamp = 40, Root = [2], NextValidatorsHash = [7]\<rparr>)), setConsensusState (\<lparr>consensusStates = [(NewHeight 1 5, Marshalled \<lparr>Timestamp = 0, Root = [1], NextValidatorsHash = [7]\<rparr>)], consensusMetadata = [(NewHeight 1 10, 50, NewHeight 0 9), (NewHeight 1 5, 0, NewHeight 0 1)]\<rparr>) (GetHeight (\<lparr>GetHeight = NewHeight 1 10, GetTime = 40, AppHash = [2], HeaderNextValidatorsHash = [7], SignedHeader = [], ValidatorSet = [7], TrustedHeight = NewHeight 1 5, TrustedValidators = [7]\<rparr>)) (\<lparr>Timestamp = 40, Root = [2], NextValidatorsHash = [7]\<rparr>))"
proof -
  have a: "GetConsensusState (\<lparr>consensusStates = [(NewHeight 1 10, Marshalled \<lparr>Timestamp = 40, Root = [2], NextValidatorsHash = [7]\<rparr>), (NewHeight 1 5, Marshalled \<lparr>Timestamp = 0, Root = [1], NextValidatorsHash = [7]\<rparr>)], consensusMetadata = [(NewHeight 1 10, 50, NewHeight 0 9), (NewHeight 1 5, 0, NewHeight 0 1)]\<rparr>) (GetHeight (\<lparr>GetHeight = NewHeight 1 10, GetTime = 40, AppHash = [2], HeaderNextValidatorsHash = [7], SignedHeader = [], ValidatorSet = [7], TrustedHeight = NewHeight 1 5, TrustedValidators = [7]\<rparr>)) = Inr (\<lparr>Timestamp = 40, Root = [2], NextValidatorsHash = [7]\<rparr>)"
    by (simp add: store_defs)
  have b: "(\<lparr>Timestamp = 40, Root = [2], NextValidatorsHash = [7]\<rparr>) = HeaderConsensusState (\<lparr>GetHeight = NewHeight 1 10, GetTime = 40, AppHash = [2], HeaderNextValidatorsHash = [7], SignedHeader = [], ValidatorSet = [7], TrustedHeight = NewHeight 1 5, TrustedValidators = [7]\<rparr>)"
    by (simp add: HeaderConsensusState_def)
  have c: "CheckHeaderAndUpdateState (\<lparr>ValidatorSetFromProto = Some, ValidatorSetHash = (\<lambda>v. v), SignedHeaderFromProto = Some, IsRevisionFormat = (\<lambda>c. False), SetRevisionNumber = (\<lambda>c n. c), VerifyCommit = (\<lambda>t a b c d. True)\<rparr>) (\<lparr>ChainId = ''chain'', TrustLevel = \<lparr>Numerator = 1, Denominator = 3\<rparr>, TrustingPeriod = 100, UnbondingPeriod = 200, MaxClockDrift = 10, FrozenHeight = NewHeight 0 0, LatestHeight = NewHeight 1 5\<rparr>) (\<lparr>BlockTime = 50, BlockHeight = NewHeight 0 9\<rparr>) (\<lparr>consensusStates = [(NewHeight 1 5, Marshalled \<lparr>Timestamp = 0, Root = [1], NextValidatorsHash = [7]\<rparr>)], consensusMetadata = [(NewHeight 1 5, 0, NewHeight 0 1)]\<rparr>) (HeaderMsg (\<lparr>GetHeight = NewHeight 1 10, GetTime = 40, AppHash = [2], HeaderNextValidatorsHash = [7], SignedHeader = [], ValidatorSet = [7], TrustedHeight = NewHeight 1 5, TrustedValidators = [7]\<rparr>))
       = (Ok ((\<lparr>ChainId = ''chain'', TrustLevel = \<lparr>Numerator = 1, Denominator = 3\<rparr>, TrustingPeriod = 100, UnbondingPeriod = 200, MaxClockDrift = 10, FrozenHeight = NewHeight 0 0, LatestHeight = NewHeight 1 10\<rparr>), (\<lparr>Timestamp = 40, Root = [2], NextValidatorsHash = [7]\<rparr>)), (\<lparr>consensusStates = [(NewHeight 1 5, Marshalled \<lparr>Timestamp = 0, Root = [1], NextValidatorsHash = [7]\<rparr>)], consensusMetadata = [(NewHeight 1 10, 50, NewHeight 0 9), (NewHeight 1 5, 0, NewHeight 0 1)]\<rparr>))"
    by (simp add: update_defs store_defs)
  note t1 = duplicate_header_is_noop [where store="\<lparr>consensusStates = [(NewHeight 1 10, Marshalled \<lparr>Timestamp = 40, Root = [2], NextValidatorsHash = [7]\<rparr>), (NewHeight 1 5, Marshalled \<lparr>Timestamp = 0, Root = [1], NextValidatorsHash = [7]\<rparr>)], consensusMetadata = [(NewHeight 1 10, 50, NewHeight 0 9), (NewHeight 1 5, 0, NewHeight 0 1)]\<rparr>" and h="\<lparr>GetHeight = NewHeight 1 10, GetTime = 40, AppHash = [2], HeaderNextValidatorsHash = [7], SignedHeader = [], ValidatorSet = [7], TrustedHeight = NewHeight 1 5, TrustedValidators = [7]\<rparr>" and c="\<lparr>Timestamp = 40, Root = [2], NextValidatorsHash = [7]\<rparr>"
      and lib="\<lparr>ValidatorSetFromProto = Some, ValidatorSetHash = (\<lambda>v. v), SignedHeaderFromProto = Some, IsRevisionFormat = (\<lambda>c. False), SetRevisionNumber = (\<lambda>c n. c), VerifyCommit = (\<lambda>t a b c d. True)\<rparr>" and cs="\<lparr>ChainId = ''chain'', TrustLevel = \<lparr>Numerator = 1, Denominator = 3\<rparr>, TrustingPeriod = 100, UnbondingPeriod = 200, MaxClockDrift = 10, FrozenHeight = NewHeight 0 0, LatestHeight = NewHeight 1 10\<rparr>" and ctx="\<lparr>BlockTime = 150, BlockHeight = NewHeight 0 9\<rparr>"]
  note t2 = duplicate_header_is_noop [where lib="\<lparr>ValidatorSetFromProto = Some, ValidatorSetHash = (\<lambda>v. v), SignedHeaderFromProto = Some, IsRevisionFormat = (\<lambda>c. False), SetRevisionNumber = (\<lambda>c n. c), VerifyCommit = (\<lambda>t a b c d. True)\<rparr>" and ?cs0.0="\<lparr>ChainId = ''chain'', TrustLevel = \<lparr>Numerator = 1, Denominator = 3\<rparr>, TrustingPeriod = 100, UnbondingPeriod = 200, MaxClockDrift = 10, FrozenHeight = NewHeight 0 0, LatestHeight = NewHeight 1 5\<rparr>" and ?ctx0.0="\<lparr>BlockTime = 50, BlockHeight = NewHeight 0 9\<rparr>"
      and ?store0.0="\<lparr>consensusStates = [(NewHeight 1 5, Marshalled \<lparr>Timestamp = 0, Root = [1], NextValidatorsHash = [7]\<rparr>)], consensusMetadata = [(NewHeight 1 5, 0, NewHeight 0 1)]\<rparr>" and h="\<lparr>GetHeight = NewHeight 1 10, GetTime = 40, AppHash = [2], HeaderNextValidatorsHash = [7], SignedHeader = [], ValidatorSet = [7], TrustedHeight = NewHeight 1 5, TrustedValidators = [7]\<rparr>" and ?cs1.0="\<lparr>ChainId = ''chain'', TrustLevel = \<lparr>Numerator = 1, Denominator = 3\<rparr>, TrustingPeriod = 100, UnbondingPeriod = 200, MaxClockDrift = 10, FrozenHeight = NewHeight 0 0, LatestHeight = NewHeight 1 10\<rparr>" and ?c1.0="\<lparr>Timestamp = 40, Root = [2], NextValidatorsHash = [7]\<rparr>"
      and ?store1.0="\<lparr>consensusStates = [(NewHeight 1 5, Marshalled \<lparr>Timestamp = 0, Root = [1], NextValidatorsHash = [7]\<rparr>)], consensusMetadata = [(NewHeight 1 10, 50, NewHeight 0 9), (NewHeight 1 5, 0, NewHeight 0 1)]\<rparr>" and ?ctx1.0="\<lparr>BlockTime = 120, BlockHeight = NewHeight 0 9\<rparr>"]
  show ?thesis
    using t1 t2 a b c by simp
qed

text \<open>
  C1. When a consensus state is stored at the header's height and differs from the one
  derived from the header, and the header passes the validity check against the consensus
  state stored at its trusted height, \<open>CheckHeaderAndUpdateState\<close> returns the client
  state with its frozen height set to the sentinel, which is not zero, and writes nothing:
  the store is the one it was given, so the consensus state at that height is the one
  stored before.
\<close>

theorem conflicting_header_freezes_client:
  assumes "GetConsensusState store (GetHeight h) = Inr prev"
      and "prev \<noteq> HeaderConsensusState h"
      and "GetConsensusState store (TrustedHeight h) = Inr trusted"
      and "checkValidity lib cs trusted h (BlockTime ctx) = None"
  shows "CheckHeaderAndUpdateState lib cs ctx store (HeaderMsg h)
           = (Ok (cs\<lparr>FrozenHeight := FrozenHeightConst\<rparr>, HeaderConsensusState h), store)
       \<and> \<not> IsZero FrozenHeightConst
       \<and> GetConsensusState (snd (CheckHeaderAndUpdateState lib cs ctx store (HeaderMsg h)))
             (GetHeight h) = Inr prev"
  using assms
  by (simp add: CheckHeaderAndUpdateState_def validateAndUpdate_def IsZero_def
      FrozenHeightConst_def)

theorem conflicting_header_freezes_client_witness:
  "GetConsensusState (\<lparr>consensusStates = [(NewHeight 1 10, Marshalled \<lparr>Timestamp = 40, Root = [2], NextValidatorsHash = [7]\<rparr>), (NewHeight 1 5, Marshalled \<lparr>Timestamp = 0, Root = [1], NextValidatorsHash = [7]\<rparr>)], consensusMetadata = [(NewHeight 1 10, 50, NewHeight 0 9), (NewHeight 1 5, 0, NewHeight 0 1)]\<rparr>) (GetHeight (\<lparr>GetHeight = NewHeight 1 10, GetTime = 40, AppHash = [3], HeaderNextValidatorsHash = [7], SignedHeader = [], ValidatorSet = [7], TrustedHeight = NewHeight 1 5, TrustedValidators = [7]\<rparr>)) = Inr (\<lparr>Timestamp = 40, Root = [2], NextValidatorsHash = [7]\<rparr>)
   \<and> (\<lparr>Timestamp = 40, Root = [2], NextValidatorsHash = [7]\<rparr>) \<noteq> HeaderConsensusState (\<lparr>GetHeight = NewHeight 1 10, GetTime = 40, AppHash = [3], HeaderNextValidatorsHash = [7], SignedHeader = [], ValidatorSet = [7], TrustedHeight = NewHeight 1 5, TrustedValidators = [7]\<rparr>)
   \<and> GetConsensusState (\<lparr>consensusStates = [(NewHeight 1 10, Marshalled \<lparr>Timestamp = 40, Root = [2], NextValidatorsHash = [7]\<rparr>), (NewHeight 1 5, Marshalled \<lparr>Timestamp = 0, Root = [1], NextValidatorsHash = [7]\<rparr>)], consensusMetadata = [(NewHeight 1 10, 50, NewHeight 0 9), (NewHeight 1 5, 0, NewHeight 0 1)]\<rparr>) (TrustedHeight (\<lparr>GetHeight = NewHeight 1 10, GetTime = 40, AppHash = [3], HeaderNextValidatorsHash = [7], SignedHeader = [], ValidatorSet = [7], TrustedHeight = NewHeight 1 5, TrustedValidators = [7]\<rparr>)) = Inr (\<lparr>Timestamp = 0, Root = [1], NextValidatorsHash = [7]\<rparr>)
   \<and> checkValidity (\<lparr>ValidatorSetFromProto = Some, ValidatorSetHash = (\<lambda>v. v), SignedHeaderFromProto = Some, IsRevisionFormat = (\<lambda>c. False), SetRevisionNumber = (\<lambda>c n. c), VerifyCommit = (\<lambda>t a b c d. True)\<rparr>) (\<lparr>ChainId = ''chain'', TrustLevel = \<lparr>Numerator = 1, Denominator = 3\<rparr>, TrustingPeriod = 100, UnbondingPeriod = 200, MaxClockDrift = 10, FrozenHeight = NewHeight 0 0, LatestHeight = NewHeight 1 10\<rparr>) (\<lparr>Timestamp = 0, Root = [1], NextValidatorsHash = [7]\<rparr>) (\<lparr>GetHeight = NewHeight 1 10, GetTime = 40, AppHash = [3], HeaderNextValidatorsHash = [7], SignedHeader = [], ValidatorSet = [7], TrustedHeight = NewHeight 1 5, TrustedValidators = [7]\<rparr>) (BlockTime (\<lparr>BlockTime = 50, BlockHeight = NewHeight 0 9\<rparr>)) = None
   \<and> CheckHeaderAndUpdateState (\<lparr>ValidatorSetFromProto = Some, ValidatorSetHash = (\<lambda>v. v), SignedHeaderFromProto = Some, IsRevisionFormat = (\<lambda>c. False), SetRevisionNumber = (\<lambda>c n. c), VerifyCommit = (\<lambda>t a b c d. True)\<rparr>) (\<lparr>ChainId = ''chain'', TrustLevel = \<lparr>Numerator = 1, Denominator = 3\<rparr>, TrustingPeriod = 100, UnbondingPeriod = 200, MaxClockDrift = 10, FrozenHeight = NewHeight 0 0, LatestHeight = NewHeight 1 10\<rparr>) (\<lparr>BlockTime = 50, BlockHeight = NewHeight 0 9\<rparr>) (\<lparr>consensusStates = [(NewHeight 1 10, Marshalled \<lparr>Timestamp = 40, Root = [2], NextValidatorsHash = [7]\<rparr>), (NewHeight 1 5, Marshalled \<lparr>Timestamp = 0, Root = [1], NextValidatorsHash = [7]\<rparr>)], consensusMetadata = [(NewHeight 1 10, 50, NewHeight 0 9), (NewHeight 1 5, 0, NewHeight 0 1)]\<rparr>) (HeaderMsg (\<lparr>GetHeight = NewHeight 1 10, GetTime = 40, AppHash = [3], HeaderNextValidatorsHash = [7], SignedHeader = [], ValidatorSet = [7], TrustedHeight = NewHeight 1 5, TrustedValidators = [7]\<rparr>))
       = (Ok ((\<lparr>ChainId = ''chain'', TrustLevel = \<lparr>Numerator = 1, Denominator = 3\<rparr>, TrustingPeriod = 100, UnbondingPeriod = 200, MaxClockDrift = 10, FrozenHeight = NewHeight 0 0, LatestHeight = NewHeight 1 10\<rparr>)\<lparr>FrozenHeight := NewHeight 0 1\<rparr>, (\<lparr>Timestamp = 40, Root = [3], NextValidatorsHash = [7]\<rparr>)), (\<lparr>consensusStates = [(NewHeight 1 10, Marshalled \<lparr>Timestamp = 40, Root = [2], NextValidatorsHash = [7]\<rparr>), (NewHeight 1 5, Marshalled \<lparr>Timestamp = 0, Root = [1], NextValidatorsHash = [7]\<rparr>)], consensusMetadata = [(NewHeight 1 10, 50, NewHeight 0 9), (NewHeight 1 5, 0, NewHeight 0 1)]\<rparr>))"
proof -
  have a: "GetConsensusState (\<lparr>consensusStates = [(NewHeight 1 10, Marshalled \<lparr>Timestamp = 40, Root = [2], NextValidatorsHash = [7]\<rparr>), (NewHeight 1 5, Marshalled \<lparr>Timestamp = 0, Root = [1], NextValidatorsHash = [7]\<rparr>)], consensusMetadata = [(NewHeight 1 10, 50, NewHeight 0 9), (NewHeight 1 5, 0, NewHeight 0 1)]\<rparr>) (GetHeight (\<lparr>GetHeight = NewHeight 1 10, GetTime = 40, AppHash = [3], HeaderNextValidatorsHash = [7], SignedHeader = [], ValidatorSet = [7], TrustedHeight = NewHeight 1 5, TrustedValidators = [7]\<rparr>)) = Inr (\<lparr>Timestamp = 40, Root = [2], NextValidatorsHash = [7]\<rparr>)"
    by (simp add: store_defs)
  have b: "(\<lparr>Timestamp = 40, Root = [2], NextValidatorsHash = [7]\<rparr>) \<noteq> HeaderConsensusState (\<lparr>GetHeight = NewHeight 1 10, GetTime = 40, AppHash = [3], HeaderNextValidatorsHash = [7], SignedHeader = [], ValidatorSet = [7], TrustedHeight = NewHeight 1 5, TrustedValidators = [7]\<rparr>)"
    by (simp add: HeaderConsensusState_def)
  have c: "GetConsensusState (\<lparr>consensusStates = [(NewHeight 1 10, Marshalled \<lparr>Timestamp = 40, Root = [2], NextValidatorsHash = [7]\<rparr>), (NewHeight 1 5, Marshalled \<lparr>Timestamp = 0, Root = [1], NextValidatorsHash = [7]\<rparr>)], consensusMetadata = [(NewHeight 1 10, 50, NewHeight 0 9), (NewHeight 1 5, 0, NewHeight 0 1)]\<rparr>) (TrustedHeight (\<lparr>GetHeight = NewHeight 1 10, GetTime = 40, AppHash = [3], HeaderNextValidatorsHash = [7], SignedHeader = [], ValidatorSet = [7], TrustedHeight = NewHeight 1 5, TrustedValidators = [7]\<rparr>)) = Inr (\<lparr>Timestamp = 0, Root = [1], NextValidatorsHash = [7]\<rparr>)"
    by (simp add: store_defs)
  have d: "checkValidity (\<lparr>ValidatorSetFromProto = Some, ValidatorSetHash = (\<lambda>v. v), SignedHeaderFromProto = Some, IsRevisionFormat = (\<lambda>c. False), SetRevisionNumber = (\<lambda>c n. c), VerifyCommit = (\<lambda>t a b c d. True)\<rparr>) (\<lparr>ChainId = ''chain'', TrustLevel = \<lparr>Numerator = 1, Denominator = 3\<rparr>, TrustingPeriod = 100, UnbondingPeriod = 200, MaxClockDrift = 10, FrozenHeight = NewHeight 0 0, LatestHeight = NewHeight 1 10\<rparr>) (\<lparr>Timestamp = 0, Root = [1], NextValidatorsHash = [7]\<rparr>) (\<lparr>GetHeight = NewHeight 1 10, GetTime = 40, AppHash = [3], HeaderNextValidatorsHash = [7], SignedHeader = [], ValidatorSet = [7], TrustedHeight = NewHeight 1 5, TrustedValidators = [7]\<rparr>) (BlockTime (\<lparr>BlockTime = 50, BlockHeight = NewHeight 0 9\<rparr>)) = None"
    by (simp add: update_defs store_defs)
  show ?thesis
    using conflicting_header_freezes_client [OF a b c d] a b c d
    by (simp add: HeaderConsensusState_def FrozenHeightConst_def)
qed

text \<open>
  C4, as amended. A header that fails the validity check is rejected with that error and
  nothing is written, provided the consensus state it derives is not already stored at
  its height: \<open>CheckHeaderAndUpdateState\<close> returns the error of \<open>checkValidity\<close> and
  the store it was given, and no client state. This covers a trusted consensus state whose
  trusting period has elapsed at the block time, and a header time beyond the block time
  plus the maximum clock drift. (A header whose consensus state is stored already is
  answered before the validity check, with success.)
\<close>

theorem invalid_header_is_rejected:
  assumes "GetConsensusState store (GetHeight h) \<noteq> Inr (HeaderConsensusState h)"
      and "GetConsensusState store (TrustedHeight h) = Inr trusted"
  shows "(checkValidity lib cs trusted h (BlockTime ctx) = Some err \<longrightarrow>
            CheckHeaderAndUpdateState lib cs ctx store (HeaderMsg h) = (Err err, store))
       \<and> (Timestamp trusted + TrustingPeriod cs \<le> BlockTime ctx \<longrightarrow>
            (\<exists>e. CheckHeaderAndUpdateState lib cs ctx store (HeaderMsg h) = (Err e, store)))
       \<and> (BlockTime ctx + MaxClockDrift cs < GetTime h \<longrightarrow>
            (\<exists>e. CheckHeaderAndUpdateState lib cs ctx store (HeaderMsg h) = (Err e, store)))"
proof (intro conjI impI)
  assume "checkValidity lib cs trusted h (BlockTime ctx) = Some err"
  with assms show "CheckHeaderAndUpdateState lib cs ctx store (HeaderMsg h) = (Err err, store)"
    by (rule CheckHeaderAndUpdateState_invalid)
next
  assume "Timestamp trusted + TrustingPeriod cs \<le> BlockTime ctx"
  then obtain e where "checkValidity lib cs trusted h (BlockTime ctx) = Some e"
    using checkValidity_expired by blast
  with assms show "\<exists>e. CheckHeaderAndUpdateState lib cs ctx store (HeaderMsg h) = (Err e, store)"
    using CheckHeaderAndUpdateState_invalid by blast
next
  assume "BlockTime ctx + MaxClockDrift cs < GetTime h"
  then obtain e where "checkValidity lib cs trusted h (BlockTime ctx) = Some e"
    using checkValidity_future by blast
  with assms show "\<exists>e. CheckHeaderAndUpdateState lib cs ctx store (HeaderMsg h) = (Err e, store)"
    using CheckHeaderAndUpdateState_invalid by blast
qed

theorem invalid_header_is_rejected_witness:
  "GetConsensusState (\<lparr>consensusStates = [(NewHeight 1 5, Marshalled \<lparr>Timestamp = 0, Root = [1], NextValidatorsHash = [7]\<rparr>)], consensusMetadata = [(NewHeight 1 5, 0, NewHeight 0 1)]\<rparr>) (GetHeight (\<lparr>GetHeight = NewHeight 1 10, GetTime = 140, AppHash = [2], HeaderNextValidatorsHash = [7], SignedHeader = [], ValidatorSet = [7], TrustedHeight = NewHeight 1 5, TrustedValidators = [7]\<rparr>)) \<noteq> Inr (HeaderConsensusState (\<lparr>GetHeight = NewHeight 1 10, GetTime = 140, AppHash = [2], HeaderNextValidatorsHash = [7], SignedHeader = [], ValidatorSet = [7], TrustedHeight = NewHeight 1 5, TrustedValidators = [7]\<rparr>))
   \<and> GetConsensusState (\<lparr>consensusStates = [(NewHeight 1 5, Marshalled \<lparr>Timestamp = 0, Root = [1], NextValidatorsHash = [7]\<rparr>)], consensusMetadata = [(NewHeight 1 5, 0, NewHeight 0 1)]\<rparr>) (TrustedHeight (\<lparr>GetHeight = NewHeight 1 10, GetTime = 140, AppHash = [2], HeaderNextValidatorsHash = [7], SignedHeader = [], ValidatorSet = [7], TrustedHeight = NewHeight 1 5, TrustedValidators = [7]\<rparr>)) = Inr (\<lparr>Timestamp = 0, Root = [1], NextValidatorsHash = [7]\<rparr>)
   \<and> checkValidity (\<lparr>ValidatorSetFromProto = Some, ValidatorSetHash = (\<lambda>v. v), SignedHeaderFromProto = Some, IsRevisionFormat = (\<lambda>c. False), SetRevisionNumber = (\<lambda>c n. c), VerifyCommit = (\<lambda>t a b c d. True)\<rparr>) (\<lparr>ChainId = ''chain'', TrustLevel = \<lparr>Numerator = 1, Denominator = 3\<rparr>, TrustingPeriod = 100, UnbondingPeriod = 200, MaxClockDrift = 10, FrozenHeight = NewHeight 0 0, LatestHeight = NewHeight 1 5\<rparr>) (\<lparr>Timestamp = 0, Root = [1], NextValidatorsHash = [7]\<rparr>) (\<lparr>GetHeight = NewHeight 1 10, GetTime = 140, AppHash = [2], HeaderNextValidatorsHash = [7], SignedHeader = [], ValidatorSet = [7], TrustedHeight = NewHeight 1 5, TrustedValidators = [7]\<rparr>) (BlockTime (\<lparr>BlockTime = 150, BlockHeight = NewHeight 0 9\<rparr>)) = Some ErrOldHeaderExpired
   \<and> CheckHeaderAndUpdateState (\<lparr>ValidatorSetFromProto = Some, ValidatorSetHash = (\<lambda>v. v), SignedHeaderFromProto = Some, IsRevisionFormat = (\<lambda>c. False), SetRevisionNumber = (\<lambda>c n. c), VerifyCommit = (\<lambda>t a b c d. True)\<rparr>) (\<lparr>ChainId = ''chain'', TrustLevel = \<lparr>Numerator = 1, Denominator = 3\<rparr>, TrustingPeriod = 100, UnbondingPeriod = 200, MaxClockDrift = 10, FrozenHeight = NewHeight 0 0, LatestHeight = NewHeight 1 5\<rparr>) (\<lparr>BlockTime = 150, BlockHeight = NewHeight 0 9\<rparr>) (\<lparr>consensusStates = [(NewHeight 1 5, Marshalled \<lparr>Timestamp = 0, Root = [1], NextValidatorsHash = [7]\<rparr>)], consensusMetadata = [(NewHeight 1 5, 0, NewHeight 0 1)]\<rparr>) (HeaderMsg (\<lparr>GetHeight = NewHeight 1 10, GetTime = 140, AppHash = [2], HeaderNextValidatorsHash = [7], SignedHeader = [], ValidatorSet = [7], TrustedHeight = NewHeight 1 5, TrustedValidators = [7]\<rparr>))
       = (Err ErrOldHeaderExpired, (\<lparr>consensusStates = [(NewHeight 1 5, Marshalled \<lparr>Timestamp = 0, Root = [1], NextValidatorsHash = [7]\<rparr>)], consensusMetadata = [(NewHeight 1 5, 0, NewHeight 0 1)]\<rparr>))"
proof -
  have a: "GetConsensusState (\<lparr>consensusStates = [(NewHeight 1 5, Marshalled \<lparr>Timestamp = 0, Root = [1], NextValidatorsHash = [7]\<rparr>)], consensusMetadata = [(NewHeight 1 5, 0, NewHeight 0 1)]\<rparr>) (GetHeight (\<lparr>GetHeight = NewHeight 1 10, GetTime = 140, AppHash = [2], HeaderNextValidatorsHash = [7], SignedHeader = [], ValidatorSet = [7], TrustedHeight = NewHeight 1 5, TrustedValidators = [7]\<rparr>)) \<noteq> Inr (HeaderConsensusState (\<lparr>GetHeight = NewHeight 1 10, GetTime = 140, AppHash = [2], HeaderNextValidatorsHash = [7], SignedHeader = [], ValidatorSet = [7], TrustedHeight = NewHeight 1 5, TrustedValidators = [7]\<rparr>))"
    by (simp add: store_defs)
  have b: "GetConsensusState (\<lparr>consensusStates = [(NewHeight 1 5, Marshalled \<lparr>Timestamp = 0, Root = [1], NextValidatorsHash = [7]\<rparr>)], consensusMetadata = [(NewHeight 1 5, 0, NewHeight 0 1)]\<rparr>) (TrustedHeight (\<lparr>GetHeight = NewHeight 1 10, GetTime = 140, AppHash = [2], HeaderNextValidatorsHash = [7], SignedHeader = [], ValidatorSet = [7], TrustedHeight = NewHeight 1 5, TrustedValidators = [7]\<rparr>)) = Inr (\<lparr>Timestamp = 0, Root = [1], NextValidatorsHash = [7]\<rparr>)"
    by (simp add: store_defs)
  have c: "checkValidity (\<lparr>ValidatorSetFromProto = Some, ValidatorSetHash = (\<lambda>v. v), SignedHeaderFromProto = Some, IsRevisionFormat = (\<lambda>c. False), SetRevisionNumber = (\<lambda>c n. c), VerifyCommit = (\<lambda>t a b c d. True)\<rparr>) (\<lparr>ChainId = ''chain'', TrustLevel = \<lparr>Numerator = 1, Denominator = 3\<rparr>, TrustingPeriod = 100, UnbondingPeriod = 200, MaxClockDrift = 10, FrozenHeight = NewHeight 0 0, LatestHeight = NewHeight 1 5\<rparr>) (\<lparr>Timestamp = 0, Root = [1], NextValidatorsHash = [7]\<rparr>) (\<lparr>GetHeight = NewHeight 1 10, GetTime = 140, AppHash = [2], HeaderNextValidatorsHash = [7], SignedHeader = [], ValidatorSet = [7], TrustedHeight = NewHeight 1 5, TrustedValidators = [7]\<rparr>) (BlockTime (\<lparr>BlockTime = 150, BlockHeight = NewHeight 0 9\<rparr>)) = Some ErrOldHeaderExpired"
    by (simp add: update_defs store_defs)
  show ?thesis
    using invalid_header_is_rejected [OF a b, where lib="\<lparr>ValidatorSetFromProto = Some, ValidatorSetHash = (\<lambda>v. v), SignedHeaderFromProto = Some, IsRevisionFormat = (\<lambda>c. False), SetRevisionNumber = (\<lambda>c n. c), VerifyCommit = (\<lambda>t a b c d. True)\<rparr>" and cs="\<lparr>ChainId = ''chain'', TrustLevel = \<lparr>Numerator = 1, Denominator = 3\<rparr>, TrustingPeriod = 100, UnbondingPeriod = 200, MaxClockDrift = 10, FrozenHeight = NewHeight 0 0, LatestHeight = NewHeight 1 5\<rparr>" and ctx="\<lparr>BlockTime = 150, BlockHeight = NewHeight 0 9\<rparr>"
        and err=ErrOldHeaderExpired] a b c
    by simp
qed

text \<open>
  The claim as stated (every header that fails the validity check gets an error) fails for
  a header that was accepted before and is delivered again once the trusting period of
  its trusted consensus state has elapsed: the validity check on it fails, and the call
  returns with success.
\<close>

theorem invalid_header_is_rejected_counterexample:
  "GetConsensusState (\<lparr>consensusStates = [(NewHeight 1 10, Marshalled \<lparr>Timestamp = 40, Root = [2], NextValidatorsHash = [7]\<rparr>), (NewHeight 1 5, Marshalled \<lparr>Timestamp = 0, Root = [1], NextValidatorsHash = [7]\<rparr>)], consensusMetadata = [(NewHeight 1 10, 50, NewHeight 0 9), (NewHeight 1 5, 0, NewHeight 0 1)]\<rparr>) (TrustedHeight (\<lparr>GetHeight = NewHeight 1 10, GetTime = 40, AppHash = [2], HeaderNextValidatorsHash = [7], SignedHeader = [], ValidatorSet = [7], TrustedHeight = NewHeight 1 5, TrustedValidators = [7]\<rparr>)) = Inr (\<lparr>Timestamp = 0, Root = [1], NextValidatorsHash = [7]\<rparr>)
   \<and> checkValidity (\<lparr>ValidatorSetFromProto = Some, ValidatorSetHash = (\<lambda>v. v), SignedHeaderFromProto = Some, IsRevisionFormat = (\<lambda>c. False), SetRevisionNumber = (\<lambda>c n. c), VerifyCommit = (\<lambda>t a b c d. True)\<rparr>) (\<lparr>ChainId = ''chain'', TrustLevel = \<lparr>Numerator = 1, Denominator = 3\<rparr>, TrustingPeriod = 100, UnbondingPeriod = 200, MaxClockDrift = 10, FrozenHeight = NewHeight 0 0, LatestHeight = NewHeight 1 10\<rparr>) (\<lparr>Timestamp = 0, Root = [1], NextValidatorsHash = [7]\<rparr>) (\<lparr>GetHeight = NewHeight 1 10, GetTime = 40, AppHash = [2], HeaderNextValidatorsHash = [7], SignedHeader = [], ValidatorSet = [7], TrustedHeight = NewHeight 1 5, TrustedValidators = [7]\<rparr>) (BlockTime (\<lparr>BlockTime = 150, BlockHeight = NewHeight 0 9\<rparr>)) = Some ErrOldHeaderExpired
   \<and> CheckHeaderAndUpdateState (\<lparr>ValidatorSetFromProto = Some, ValidatorSetHash = (\<lambda>v. v), SignedHeaderFromProto = Some, IsRevisionFormat = (\<lambda>c. False), SetRevisionNumber = (\<lambda>c n. c), VerifyCommit = (\<lambda>t a b c d. True)\<rparr>) (\<lparr>ChainId = ''chain'', TrustLevel = \<lparr>Numerator = 1, Denominator = 3\<rparr>, TrustingPeriod = 100, UnbondingPeriod = 200, MaxClockDrift = 10, FrozenHeight = NewHeight 0 0, LatestHeight = NewHeight 1 10\<rparr>) (\<lparr>BlockTime = 150, BlockHeight = NewHeight 0 9\<rparr>) (\<lparr>consensusStates = [(NewHeight 1 10, Marshalled \<lparr>Timestamp = 40, Root = [2], NextValidatorsHash = [7]\<rparr>), (NewHeight 1 5, Marshalled \<lparr>Timestamp = 0, Root = [1], NextValidatorsHash = [7]\<rparr>)], consensusMetadata = [(NewHeight 1 10, 50, NewHeight 0 9), (NewHeight 1 5, 0, NewHeight 0 1)]\<rparr>) (HeaderMsg (\<lparr>GetHeight = NewHeight 1 10, GetTime = 40, AppHash = [2], HeaderNextValidatorsHash = [7], SignedHeader = [], ValidatorSet = [7], TrustedHeight = NewHeight 1 5, TrustedValidators = [7]\<rparr>))
       = (Ok ((\<lparr>ChainId = ''chain'', TrustLevel = \<lparr>Numerator = 1, Denominator = 3\<rparr>, TrustingPeriod = 100, UnbondingPeriod = 200, MaxClockDrift = 10, FrozenHeight = NewHeight 0 0, LatestHeight = NewHeight 1 10\<rparr>), (\<lparr>Timestamp = 40, Root = [2], NextValidatorsHash = [7]\<rparr>)), (\<lparr>consensusStates = [(NewHeight 1 10, Marshalled \<lparr>Timestamp = 40, Root = [2], NextValidatorsHash = [7]\<rparr>), (NewHeight 1 5, Marshalled \<lparr>Timestamp = 0, Root = [1], NextValidatorsHash = [7]\<rparr>)], consensusMetadata = [(NewHeight 1 10, 50, NewHeight 0 9), (NewHeight 1 5, 0, NewHeight 0 1)]\<rparr>))"
  by (simp add: update_defs store_defs)

text \<open>
  C9, as amended. A header whose height is less than or equal to its trusted height, or
  whose revision number is not that of its trusted height, fails \<open>checkValidity\<close> with
  an error, whatever the client state, the trusted consensus state and the time. No state
  changes: \<open>CheckHeaderAndUpdateState\<close> on it returns the store it was given. It
  rejects the header with an error provided the consensus state the header derives is not
  already stored at its height. (A header whose consensus state is stored already is
  answered before the validity check, with success.)
\<close>

theorem header_height_must_exceed_trusted_height:
  assumes "LTE (GetHeight h) (TrustedHeight h)
             \<or> RevisionNumber (GetHeight h) \<noteq> RevisionNumber (TrustedHeight h)"
  shows "(\<exists>err. checkValidity lib cs consState h now = Some err)
       \<and> snd (CheckHeaderAndUpdateState lib cs ctx store (HeaderMsg h)) = store
       \<and> (GetConsensusState store (GetHeight h) \<noteq> Inr (HeaderConsensusState h) \<longrightarrow>
            (\<exists>err. CheckHeaderAndUpdateState lib cs ctx store (HeaderMsg h) = (Err err, store)))"
proof -
  have inv: "\<exists>err. checkValidity lib cs c h t = Some err" for c t
    using assms by (rule checkValidity_height)
  have va: "\<exists>err. validateAndUpdate lib cs ctx store h b = (Err err, store)" for b
  proof (cases "GetConsensusState store (TrustedHeight h)")
    case (Inl e)
    then show ?thesis by (simp add: validateAndUpdate_def)
  next
    case (Inr trusted)
    obtain err where "checkValidity lib cs trusted h (BlockTime ctx) = Some err"
      using inv by blast
    with Inr show ?thesis by (simp add: validateAndUpdate_invalid)
  qed
  have s: "snd (CheckHeaderAndUpdateState lib cs ctx store (HeaderMsg h)) = store"
  proof (cases "GetConsensusState store (GetHeight h)")
    case (Inl e)
    obtain err where "validateAndUpdate lib cs ctx store h False = (Err err, store)"
      using va by blast
    with Inl show ?thesis by (simp add: CheckHeaderAndUpdateState_def)
  next
    case (Inr prev)
    obtain err where "validateAndUpdate lib cs ctx store h True = (Err err, store)"
      using va by blast
    with Inr show ?thesis by (simp add: CheckHeaderAndUpdateState_def)
  qed
  have e: "\<exists>err. CheckHeaderAndUpdateState lib cs ctx store (HeaderMsg h) = (Err err, store)"
    if "GetConsensusState store (GetHeight h) \<noteq> Inr (HeaderConsensusState h)"
  proof (cases "GetConsensusState store (GetHeight h)")
    case (Inl e)
    with va[of False] show ?thesis by (simp add: CheckHeaderAndUpdateState_def)
  next
    case (Inr prev)
    with that va[of True] show ?thesis by (simp add: CheckHeaderAndUpdateState_def)
  qed
  from inv s e show ?thesis by blast
qed

theorem header_height_must_exceed_trusted_height_witness:
  "LTE (GetHeight (\<lparr>GetHeight = NewHeight 1 5, GetTime = 40, AppHash = [2], HeaderNextValidatorsHash = [7], SignedHeader = [], ValidatorSet = [7], TrustedHeight = NewHeight 1 5, TrustedValidators = [7]\<rparr>)) (TrustedHeight (\<lparr>GetHeight = NewHeight 1 5, GetTime = 40, AppHash = [2], HeaderNextValidatorsHash = [7], SignedHeader = [], ValidatorSet = [7], TrustedHeight = NewHeight 1 5, TrustedValidators = [7]\<rparr>))
   \<and> checkValidity (\<lparr>ValidatorSetFromProto = Some, ValidatorSetHash = (\<lambda>v. v), SignedHeaderFromProto = Some, IsRevisionFormat = (\<lambda>c. False), SetRevisionNumber = (\<lambda>c n. c), VerifyCommit = (\<lambda>t a b c d. True)\<rparr>) (\<lparr>ChainId = ''chain'', TrustLevel = \<lparr>Numerator = 1, Denominator = 3\<rparr>, TrustingPeriod = 100, UnbondingPeriod = 200, MaxClockDrift = 10, FrozenHeight = NewHeight 0 0, LatestHeight = NewHeight 1 5\<rparr>) (\<lparr>Timestamp = 0, Root = [1], NextValidatorsHash = [7]\<rparr>) (\<lparr>GetHeight = NewHeight 1 5, GetTime = 40, AppHash = [2], HeaderNextValidatorsHash = [7], SignedHeader = [], ValidatorSet = [7], TrustedHeight = NewHeight 1 5, TrustedValidators = [7]\<rparr>) 50 = Some ErrInvalidHeader
   \<and> CheckHeaderAndUpdateState (\<lparr>ValidatorSetFromProto = Some, ValidatorSetHash = (\<lambda>v. v), SignedHeaderFromProto = Some, IsRevisionFormat = (\<lambda>c. False), SetRevisionNumber = (\<lambda>c n. c), VerifyCommit = (\<lambda>t a b c d. True)\<rparr>) (\<lparr>ChainId = ''chain'', TrustLevel = \<lparr>Numerator = 1, Denominator = 3\<rparr>, TrustingPeriod = 100, UnbondingPeriod = 200, MaxClockDrift = 10, FrozenHeight = NewHeight 0 0, LatestHeight = NewHeight 1 5\<rparr>) (\<lparr>BlockTime = 50, BlockHeight = NewHeight 0 9\<rparr>) (\<lparr>consensusStates = [(NewHeight 1 5, Marshalled \<lparr>Timestamp = 0, Root = [1], NextValidatorsHash = [7]\<rparr>)], consensusMetadata = [(NewHeight 1 5, 0, NewHeight 0 1)]\<rparr>) (HeaderMsg (\<lparr>GetHeight = NewHeight 1 5, GetTime = 40, AppHash = [2], HeaderNextValidatorsHash = [7], SignedHeader = [], ValidatorSet = [7], TrustedHeight = NewHeight 1 5, TrustedValidators = [7]\<rparr>))
       = (Err ErrInvalidHeader, (\<lparr>consensusStates = [(NewHeight 1 5, Marshalled \<lparr>Timestamp = 0, Root = [1], NextValidatorsHash = [7]\<rparr>)], consensusMetadata = [(NewHeight 1 5, 0, NewHeight 0 1)]\<rparr>))
   \<and> RevisionNumber (GetHeight (\<lparr>GetHeight = NewHeight 2 10, GetTime = 40, AppHash = [2], HeaderNextValidatorsHash = [7], SignedHeader = [], ValidatorSet = [7], TrustedHeight = NewHeight 1 5, TrustedValidators = [7]\<rparr>)) \<noteq> RevisionNumber (TrustedHeight (\<lparr>GetHeight = NewHeight 2 10, GetTime = 40, AppHash = [2], HeaderNextValidatorsHash = [7], SignedHeader = [], ValidatorSet = [7], TrustedHeight = NewHeight 1 5, TrustedValidators = [7]\<rparr>))
   \<and> checkValidity (\<lparr>ValidatorSetFromProto = Some, ValidatorSetHash = (\<lambda>v. v), SignedHeaderFromProto = Some, IsRevisionFormat = (\<lambda>c. False), SetRevisionNumber = (\<lambda>c n. c), VerifyCommit = (\<lambda>t a b c d. True)\<rparr>) (\<lparr>ChainId = ''chain'', TrustLevel = \<lparr>Numerator = 1, Denominator = 3\<rparr>, TrustingPeriod = 100, UnbondingPeriod = 200, MaxClockDrift = 10, FrozenHeight = NewHeight 0 0, LatestHeight = NewHeight 1 5\<rparr>) (\<lparr>Timestamp = 0, Root = [1], NextValidatorsHash = [7]\<rparr>) (\<lparr>GetHeight = NewHeight 2 10, GetTime = 40, AppHash = [2], HeaderNextValidatorsHash = [7], SignedHeader = [], ValidatorSet = [7], TrustedHeight = NewHeight 1 5, TrustedValidators = [7]\<rparr>) 50 = Some ErrInvalidHeaderHeight
   \<and> CheckHeaderAndUpdateState (\<lparr>ValidatorSetFromProto = Some, ValidatorSetHash = (\<lambda>v. v), SignedHeaderFromProto = Some, IsRevisionFormat = (\<lambda>c. False), SetRevisionNumber = (\<lambda>c n. c), VerifyCommit = (\<lambda>t a b c d. True)\<rparr>) (\<lparr>ChainId = ''chain'', TrustLevel = \<lparr>Numerator = 1, Denominator = 3\<rparr>, TrustingPeriod = 100, UnbondingPeriod = 200, MaxClockDrift = 10, FrozenHeight = NewHeight 0 0, LatestHeight = NewHeight 1 5\<rparr>) (\<lparr>BlockTime = 50, BlockHeight = NewHeight 0 9\<rparr>) (\<lparr>consensusStates = [(NewHeight 1 5, Marshalled \<lparr>Timestamp = 0, Root = [1], NextValidatorsHash = [7]\<rparr>)], consensusMetadata = [(NewHeight 1 5, 0, NewHeight 0 1)]\<rparr>) (HeaderMsg (\<lparr>GetHeight = NewHeight 2 10, GetTime = 40, AppHash = [2], HeaderNextValidatorsHash = [7], SignedHeader = [], ValidatorSet = [7], TrustedHeight = NewHeight 1 5, TrustedValidators = [7]\<rparr>))
       = (Err ErrInvalidHeaderHeight, (\<lparr>consensusStates = [(NewHeight 1 5, Marshalled \<lparr>Timestamp = 0, Root = [1], NextValidatorsHash = [7]\<rparr>)], consensusMetadata = [(NewHeight 1 5, 0, NewHeight 0 1)]\<rparr>))"
proof -
  have a: "LTE (GetHeight (\<lparr>GetHeight = NewHeight 1 5, GetTime = 40, AppHash = [2], HeaderNextValidatorsHash = [7], SignedHeader = [], ValidatorSet = [7], TrustedHeight = NewHeight 1 5, TrustedValidators = [7]\<rparr>)) (TrustedHeight (\<lparr>GetHeight = NewHeight 1 5, GetTime = 40, AppHash = [2], HeaderNextValidatorsHash = [7], SignedHeader = [], ValidatorSet = [7], TrustedHeight = NewHeight 1 5, TrustedValidators = [7]\<rparr>))"
    by (simp add: store_defs)
  have b: "RevisionNumber (GetHeight (\<lparr>GetHeight = NewHeight 2 10, GetTime = 40, AppHash = [2], HeaderNextValidatorsHash = [7], SignedHeader = [], ValidatorSet = [7], TrustedHeight = NewHeight 1 5, TrustedValidators = [7]\<rparr>)) \<noteq> RevisionNumber (TrustedHeight (\<lparr>GetHeight = NewHeight 2 10, GetTime = 40, AppHash = [2], HeaderNextValidatorsHash = [7], SignedHeader = [], ValidatorSet = [7], TrustedHeight = NewHeight 1 5, TrustedValidators = [7]\<rparr>))"
    by simp
  have c: "checkValidity (\<lparr>ValidatorSetFromProto = Some, ValidatorSetHash = (\<lambda>v. v), SignedHeaderFromProto = Some, IsRevisionFormat = (\<lambda>c. False), SetRevisionNumber = (\<lambda>c n. c), VerifyCommit = (\<lambda>t a b c d. True)\<rparr>) (\<lparr>ChainId = ''chain'', TrustLevel = \<lparr>Numerator = 1, Denominator = 3\<rparr>, TrustingPeriod = 100, UnbondingPeriod = 200, MaxClockDrift = 10, FrozenHeight = NewHeight 0 0, LatestHeight = NewHeight 1 5\<rparr>) (\<lparr>Timestamp = 0, Root = [1], NextValidatorsHash = [7]\<rparr>) (\<lparr>GetHeight = NewHeight 1 5, GetTime = 40, AppHash = [2], HeaderNextValidatorsHash = [7], SignedHeader = [], ValidatorSet = [7], TrustedHeight = NewHeight 1 5, TrustedValidators = [7]\<rparr>) 50 = Some ErrInvalidHeader"
    by (simp add: update_defs store_defs)
  have d: "checkValidity (\<lparr>ValidatorSetFromProto = Some, ValidatorSetHash = (\<lambda>v. v), SignedHeaderFromProto = Some, IsRevisionFormat = (\<lambda>c. False), SetRevisionNumber = (\<lambda>c n. c), VerifyCommit = (\<lambda>t a b c d. True)\<rparr>) (\<lparr>ChainId = ''chain'', TrustLevel = \<lparr>Numerator = 1, Denominator = 3\<rparr>, TrustingPeriod = 100, UnbondingPeriod = 200, MaxClockDrift = 10, FrozenHeight = NewHeight 0 0, LatestHeight = NewHeight 1 5\<rparr>) (\<lparr>Timestamp = 0, Root = [1], NextValidatorsHash = [7]\<rparr>) (\<lparr>GetHeight = NewHeight 2 10, GetTime = 40, AppHash = [2], HeaderNextValidatorsHash = [7], SignedHeader = [], ValidatorSet = [7], TrustedHeight = NewHeight 1 5, TrustedValidators = [7]\<rparr>) 50 = Some ErrInvalidHeaderHeight"
    by (simp add: update_defs store_defs)
  have e: "CheckHeaderAndUpdateState (\<lparr>ValidatorSetFromProto = Some, ValidatorSetHash = (\<lambda>v. v), SignedHeaderFromProto = Some, IsRevisionFormat = (\<lambda>c. False), SetRevisionNumber = (\<lambda>c n. c), VerifyCommit = (\<lambda>t a b c d. True)\<rparr>) (\<lparr>ChainId = ''chain'', TrustLevel = \<lparr>Numerator = 1, Denominator = 3\<rparr>, TrustingPeriod = 100, UnbondingPeriod = 200, MaxClockDrift = 10, FrozenHeight = NewHeight 0 0, LatestHeight = NewHeight 1 5\<rparr>) (\<lparr>BlockTime = 50, BlockHeight = NewHeight 0 9\<rparr>) (\<lparr>consensusStates = [(NewHeight 1 5, Marshalled \<lparr>Timestamp = 0, Root = [1], NextValidatorsHash = [7]\<rparr>)], consensusMetadata = [(NewHeight 1 5, 0, NewHeight 0 1)]\<rparr>) (HeaderMsg (\<lparr>GetHeight = NewHeight 1 5, GetTime = 40, AppHash = [2], HeaderNextValidatorsHash = [7], SignedHeader = [], ValidatorSet = [7], TrustedHeight = NewHeight 1 5, TrustedValidators = [7]\<rparr>))
       = (Err ErrInvalidHeader, (\<lparr>consensusStates = [(NewHeight 1 5, Marshalled \<lparr>Timestamp = 0, Root = [1], NextValidatorsHash = [7]\<rparr>)], consensusMetadata = [(NewHeight 1 5, 0, NewHeight 0 1)]\<rparr>))"
    by (simp add: update_defs store_defs)
  have f: "CheckHeaderAndUpdateState (\<lparr>ValidatorSetFromProto = Some, ValidatorSetHash = (\<lambda>v. v), SignedHeaderFromProto = Some, IsRevisionFormat = (\<lambda>c. False), SetRevisionNumber = (\<lambda>c n. c), VerifyCommit = (\<lambda>t a b c d. True)\<rparr>) (\<lparr>ChainId = ''chain'', TrustLevel = \<lparr>Numerator = 1, Denominator = 3\<rparr>, TrustingPeriod = 100, UnbondingPeriod = 200, MaxClockDrift = 10, FrozenHeight = NewHeight 0 0, LatestHeight = NewHeight 1 5\<rparr>) (\<lparr>BlockTime = 50, BlockHeight = NewHeight 0 9\<rparr>) (\<lparr>consensusStates = [(NewHeight 1 5, Marshalled \<lparr>Timestamp = 0, Root = [1], NextValidatorsHash = [7]\<rparr>)], consensusMetadata = [(NewHeight 1 5, 0, NewHeight 0 1)]\<rparr>) (HeaderMsg (\<lparr>GetHeight = NewHeight 2 10, GetTime = 40, AppHash = [2], HeaderNextValidatorsHash = [7], SignedHeader = [], ValidatorSet = [7], TrustedHeight = NewHeight 1 5, TrustedValidators = [7]\<rparr>))
       = (Err ErrInvalidHeaderHeight, (\<lparr>consensusStates = [(NewHeight 1 5, Marshalled \<lparr>Timestamp = 0, Root = [1], NextValidatorsHash = [7]\<rparr>)], consensusMetadata = [(NewHeight 1 5, 0, NewHeight 0 1)]\<rparr>))"
    by (simp add: update_defs store_defs)
  note t = header_height_must_exceed_trusted_height [OF disjI1 [OF a], where lib="\<lparr>ValidatorSetFromProto = Some, ValidatorSetHash = (\<lambda>v. v), SignedHeaderFromProto = Some, IsRevisionFormat = (\<lambda>c. False), SetRevisionNumber = (\<lambda>c n. c), VerifyCommit = (\<lambda>t a b c d. True)\<rparr>"
      and cs="\<lparr>ChainId = ''chain'', TrustLevel = \<lparr>Numerator = 1, Denominator = 3\<rparr>, TrustingPeriod = 100, UnbondingPeriod = 200, MaxClockDrift = 10, FrozenHeight = NewHeight 0 0, LatestHeight = NewHeight 1 5\<rparr>" and consState="\<lparr>Timestamp = 0, Root = [1], NextValidatorsHash = [7]\<rparr>" and now=50 and ctx="\<lparr>BlockTime = 50, BlockHeight = NewHeight 0 9\<rparr>" and store="\<lparr>consensusStates = [(NewHeight 1 5, Marshalled \<lparr>Timestamp = 0, Root = [1], NextValidatorsHash = [7]\<rparr>)], consensusMetadata = [(NewHeight 1 5, 0, NewHeight 0 1)]\<rparr>"]
  show ?thesis
    using t a b c d e f by simp
qed

text \<open>
  The claim as stated (every such header is rejected) fails for a header whose consensus
  state is stored already and that is delivered again with a trusted height equal to its
  own height, or with a trusted height of another revision: the validity check on it
  fails, and the call returns with success.
\<close>

theorem header_height_must_exceed_trusted_height_counterexample:
  "LTE (GetHeight (\<lparr>GetHeight = NewHeight 1 10, GetTime = 40, AppHash = [2], HeaderNextValidatorsHash = [7], SignedHeader = [], ValidatorSet = [7], TrustedHeight = NewHeight 1 10, TrustedValidators = [7]\<rparr>)) (TrustedHeight (\<lparr>GetHeight = NewHeight 1 10, GetTime = 40, AppHash = [2], HeaderNextValidatorsHash = [7], SignedHeader = [], ValidatorSet = [7], TrustedHeight = NewHeight 1 10, TrustedValidators = [7]\<rparr>))
   \<and> checkValidity (\<lparr>ValidatorSetFromProto = Some, ValidatorSetHash = (\<lambda>v. v), SignedHeaderFromProto = Some, IsRevisionFormat = (\<lambda>c. False), SetRevisionNumber = (\<lambda>c n. c), VerifyCommit = (\<lambda>t a b c d. True)\<rparr>) (\<lparr>ChainId = ''chain'', TrustLevel = \<lparr>Numerator = 1, Denominator = 3\<rparr>, TrustingPeriod = 100, UnbondingPeriod = 200, MaxClockDrift = 10, FrozenHeight = NewHeight 0 0, LatestHeight = NewHeight 1 10\<rparr>) (\<lparr>Timestamp = 40, Root = [2], NextValidatorsHash = [7]\<rparr>) (\<lparr>GetHeight = NewHeight 1 10, GetTime = 40, AppHash = [2], HeaderNextValidatorsHash = [7], SignedHeader = [], ValidatorSet = [7], TrustedHeight = NewHeight 1 10, TrustedValidators = [7]\<rparr>) (BlockTime (\<lparr>BlockTime = 50, BlockHeight = NewHeight 0 9\<rparr>)) = Some ErrInvalidHeader
   \<and> CheckHeaderAndUpdateState (\<lparr>ValidatorSetFromProto = Some, ValidatorSetHash = (\<lambda>v. v), SignedHeaderFromProto = Some, IsRevisionFormat = (\<lambda>c. False), SetRevisionNumber = (\<lambda>c n. c), VerifyCommit = (\<lambda>t a b c d. True)\<rparr>) (\<lparr>ChainId = ''chain'', TrustLevel = \<lparr>Numerator = 1, Denominator = 3\<rparr>, TrustingPeriod = 100, UnbondingPeriod = 200, MaxClockDrift = 10, FrozenHeight = NewHeight 0 0, LatestHeight = NewHeight 1 10\<rparr>) (\<lparr>BlockTime = 50, BlockHeight = NewHeight 0 9\<rparr>) (\<lparr>consensusStates = [(NewHeight 1 10, Marshalled \<lparr>Timestamp = 40, Root = [2], NextValidatorsHash = [7]\<rparr>), (NewHeight 1 5, Marshalled \<lparr>Timestamp = 0, Root = [1], NextValidatorsHash = [7]\<rparr>)], consensusMetadata = [(NewHeight 1 10, 50, NewHeight 0 9), (NewHeight 1 5, 0, NewHeight 0 1)]\<rparr>) (HeaderMsg (\<lparr>GetHeight = NewHeight 1 10, GetTime = 40, AppHash = [2], HeaderNextValidatorsHash = [7], SignedHeader = [], ValidatorSet = [7], TrustedHeight = NewHeight 1 10, TrustedValidators = [7]\<rparr>))
       = (Ok ((\<lparr>ChainId = ''chain'', TrustLevel = \<lparr>Numerator = 1, Denominator = 3\<rparr>, TrustingPeriod = 100, UnbondingPeriod = 200, MaxClockDrift = 10, FrozenHeight = NewHeight 0 0, LatestHeight = NewHeight 1 10\<rparr>), (\<lparr>Timestamp = 40, Root = [2], NextValidatorsHash = [7]\<rparr>)), (\<lparr>consensusStates = [(NewHeight 1 10, Marshalled \<lparr>Timestamp = 40, Root = [2], NextValidatorsHash = [7]\<rparr>), (NewHeight 1 5, Marshalled \<lparr>Timestamp = 0, Root = [1], NextValidatorsHash = [7]\<rparr>)], consensusMetadata = [(NewHeight 1 10, 50, NewHeight 0 9), (NewHeight 1 5, 0, NewHeight 0 1)]\<rparr>))
   \<and> RevisionNumber (GetHeight (\<lparr>GetHeight = NewHeight 1 10, GetTime = 40, AppHash = [2], HeaderNextValidatorsHash = [7], SignedHeader = [], ValidatorSet = [7], TrustedHeight = NewHeight 2 5, TrustedValidators = [7]\<rparr>)) \<noteq> RevisionNumber (TrustedHeight (\<lparr>GetHeight = NewHeight 1 10, GetTime = 40, AppHash = [2], HeaderNextValidatorsHash = [7], SignedHeader = [], ValidatorSet = [7], TrustedHeight = NewHeight 2 5, TrustedValidators = [7]\<rparr>))
   \<and> checkValidity (\<lparr>ValidatorSetFromProto = Some, ValidatorSetHash = (\<lambda>v. v), SignedHeaderFromProto = Some, IsRevisionFormat = (\<lambda>c. False), SetRevisionNumber = (\<lambda>c n. c), VerifyCommit = (\<lambda>t a b c d. True)\<rparr>) (\<lparr>ChainId = ''chain'', TrustLevel = \<lparr>Numerator = 1, Denominator = 3\<rparr>, TrustingPeriod = 100, UnbondingPeriod = 200, MaxClockDrift = 10, FrozenHeight = NewHeight 0 0, LatestHeight = NewHeight 1 10\<rparr>) (\<lparr>Timestamp = 0, Root = [1], NextValidatorsHash = [7]\<rparr>) (\<lparr>GetHeight = NewHeight 1 10, GetTime = 40, AppHash = [2], HeaderNextValidatorsHash = [7], SignedHeader = [], ValidatorSet = [7], TrustedHeight = NewHeight 2 5, TrustedValidators = [7]\<rparr>) (BlockTime (\<lparr>BlockTime = 50, BlockHeight = NewHeight 0 9\<rparr>))
       = Some ErrInvalidHeaderHeight
   \<and> CheckHeaderAndUpdateState (\<lparr>ValidatorSetFromProto = Some, ValidatorSetHash = (\<lambda>v. v), SignedHeaderFromProto = Some, IsRevisionFormat = (\<lambda>c. False), SetRevisionNumber = (\<lambda>c n. c), VerifyCommit = (\<lambda>t a b c d. True)\<rparr>) (\<lparr>ChainId = ''chain'', TrustLevel = \<lparr>Numerator = 1, Denominator = 3\<rparr>, TrustingPeriod = 100, UnbondingPeriod = 200, MaxClockDrift = 10, FrozenHeight = NewHeight 0 0, LatestHeight = NewHeight 1 10\<rparr>) (\<lparr>BlockTime = 50, BlockHeight = NewHeight 0 9\<rparr>) (\<lparr>consensusStates = [(NewHeight 1 10, Marshalled \<lparr>Timestamp = 40, Root = [2], NextValidatorsHash = [7]\<rparr>), (NewHeight 1 5, Marshalled \<lparr>Timestamp = 0, Root = [1], NextValidatorsHash = [7]\<rparr>)], consensusMetadata = [(NewHeight 1 10, 50, NewHeight 0 9), (NewHeight 1 5, 0, NewHeight 0 1)]\<rparr>) (HeaderMsg (\<lparr>GetHeight = NewHeight 1 10, GetTime = 40, AppHash = [2], HeaderNextValidatorsHash = [7], SignedHeader = [], ValidatorSet = [7], TrustedHeight = NewHeight 2 5, TrustedValidators = [7]\<rparr>))
       = (Ok ((\<lparr>ChainId = ''chain'', TrustLevel = \<lparr>Numerator = 1, Denominator = 3\<rparr>, TrustingPeriod = 100, UnbondingPeriod = 200, MaxClockDrift = 10, FrozenHeight = NewHeight 0 0, LatestHeight = NewHeight 1 10\<rparr>), (\<lparr>Timestamp = 40, Root = [2], NextValidatorsHash = [7]\<rparr>)), (\<lparr>consensusStates = [(NewHeight 1 10, Marshalled \<lparr>Timestamp = 40, Root = [2], NextValidatorsHash = [7]\<rparr>), (NewHeight 1 5, Marshalled \<lparr>Timestamp = 0, Root = [1], NextValidatorsHash = [7]\<rparr>)], consensusMetadata = [(NewHeight 1 10, 50, NewHeight 0 9), (NewHeight 1 5, 0, NewHeight 0 1)]\<rparr>))"
  by (simp add: update_defs store_defs)

text \<open>
  C5, as amended. When the read of the earliest stored consensus state fails during
  pruning, the update does not return: \<open>pruneOldestConsensusState\<close> panics with the
  read error, so \<open>UpdateState\<close> on a header that is not a duplicate panics with it, and
  so does \<open>CheckHeaderAndUpdateState\<close> on a valid header that is new and keeps the
  timestamps of its neighbours in order. The store is as it was when the panic occurs.
\<close>

theorem prune_read_failure_panics:
  assumes "GetConsensusState store (GetHeight h) = Inl e"
      and "ascendingHeights (storedHeights store) = k # ks"
      and "GetConsensusState store k = Inl err"
  shows "pruneOldestConsensusState cs ctx store = Inl err
       \<and> UpdateState cs ctx store (HeaderMsg h) = (Panic err, store)
       \<and> (GetConsensusState store (TrustedHeight h) = Inr trusted \<longrightarrow>
          checkValidity lib cs trusted h (BlockTime ctx) = None \<longrightarrow>
          (\<forall>p. GetPreviousConsensusState store (GetHeight h) = Some p \<longrightarrow>
               Timestamp p < GetTime h) \<longrightarrow>
          (\<forall>n. GetNextConsensusState store (GetHeight h) = Some n \<longrightarrow>
               GetTime h < Timestamp n) \<longrightarrow>
          CheckHeaderAndUpdateState lib cs ctx store (HeaderMsg h) = (Panic err, store))"
proof -
  have p: "pruneOldestConsensusState cs ctx store = Inl err"
    using assms(2,3) by (simp add: pruneOldestConsensusState_earliest)
  have u: "UpdateState cs ctx store (HeaderMsg h) = (Panic err, store)"
    using assms(1) p by (simp add: UpdateState_fresh)
  have c: "CheckHeaderAndUpdateState lib cs ctx store (HeaderMsg h) = (Panic err, store)"
    if "GetConsensusState store (TrustedHeight h) = Inr trusted"
      and "checkValidity lib cs trusted h (BlockTime ctx) = None"
      and "\<forall>p. GetPreviousConsensusState store (GetHeight h) = Some p \<longrightarrow>
               Timestamp p < GetTime h"
      and "\<forall>n. GetNextConsensusState store (GetHeight h) = Some n \<longrightarrow>
               GetTime h < Timestamp n"
    using that assms(1) u
    by (auto simp: CheckHeaderAndUpdateState_def validateAndUpdate_def Let_def
        HeaderConsensusState_def split: option.splits)
  from p u c show ?thesis by blast
qed

theorem prune_read_failure_panics_witness:
  "GetConsensusState (\<lparr>consensusStates = [(NewHeight 1 3, Undecodable), (NewHeight 1 5, Marshalled \<lparr>Timestamp = 0, Root = [1], NextValidatorsHash = [7]\<rparr>)], consensusMetadata = [(NewHeight 1 5, 0, NewHeight 0 1)]\<rparr>) (GetHeight (\<lparr>GetHeight = NewHeight 1 10, GetTime = 40, AppHash = [2], HeaderNextValidatorsHash = [7], SignedHeader = [], ValidatorSet = [7], TrustedHeight = NewHeight 1 5, TrustedValidators = [7]\<rparr>)) = Inl ErrConsensusStateNotFound
   \<and> ascendingHeights (storedHeights (\<lparr>consensusStates = [(NewHeight 1 3, Undecodable), (NewHeight 1 5, Marshalled \<lparr>Timestamp = 0, Root = [1], NextValidatorsHash = [7]\<rparr>)], consensusMetadata = [(NewHeight 1 5, 0, NewHeight 0 1)]\<rparr>)) = [(NewHeight 1 3), (NewHeight 1 5)]
   \<and> GetConsensusState (\<lparr>consensusStates = [(NewHeight 1 3, Undecodable), (NewHeight 1 5, Marshalled \<lparr>Timestamp = 0, Root = [1], NextValidatorsHash = [7]\<rparr>)], consensusMetadata = [(NewHeight 1 5, 0, NewHeight 0 1)]\<rparr>) (NewHeight 1 3) = Inl ErrUnmarshalConsensusState
   \<and> pruneOldestConsensusState (\<lparr>ChainId = ''chain'', TrustLevel = \<lparr>Numerator = 1, Denominator = 3\<rparr>, TrustingPeriod = 100, UnbondingPeriod = 200, MaxClockDrift = 10, FrozenHeight = NewHeight 0 0, LatestHeight = NewHeight 1 5\<rparr>) (\<lparr>BlockTime = 50, BlockHeight = NewHeight 0 9\<rparr>) (\<lparr>consensusStates = [(NewHeight 1 3, Undecodable), (NewHeight 1 5, Marshalled \<lparr>Timestamp = 0, Root = [1], NextValidatorsHash = [7]\<rparr>)], consensusMetadata = [(NewHeight 1 5, 0, NewHeight 0 1)]\<rparr>) = Inl ErrUnmarshalConsensusState
   \<and> UpdateState (\<lparr>ChainId = ''chain'', TrustLevel = \<lparr>Numerator = 1, Denominator = 3\<rparr>, TrustingPeriod = 100, UnbondingPeriod = 200, MaxClockDrift = 10, FrozenHeight = NewHeight 0 0, LatestHeight = NewHeight 1 5\<rparr>) (\<lparr>BlockTime = 50, BlockHeight = NewHeight 0 9\<rparr>) (\<lparr>consensusStates = [(NewHeight 1 3, Undecodable), (NewHeight 1 5, Marshalled \<lparr>Timestamp = 0, Root = [1], NextValidatorsHash = [7]\<rparr>)], consensusMetadata = [(NewHeight 1 5, 0, NewHeight 0 1)]\<rparr>) (HeaderMsg (\<lparr>GetHeight = NewHeight 1 10, GetTime = 40, AppHash = [2], HeaderNextValidatorsHash = [7], SignedHeader = [], ValidatorSet = [7], TrustedHeight = NewHeight 1 5, TrustedValidators = [7]\<rparr>))
       = (Panic ErrUnmarshalConsensusState, (\<lparr>consensusStates = [(NewHeight 1 3, Undecodable), (NewHeight 1 5, Marshalled \<lparr>Timestamp = 0, Root = [1], NextValidatorsHash = [7]\<rparr>)], consensusMetadata = [(NewHeight 1 5, 0, NewHeight 0 1)]\<rparr>))"
proof -
  have a: "GetConsensusState (\<lparr>consensusStates = [(NewHeight 1 3, Undecodable), (NewHeight 1 5, Marshalled \<lparr>Timestamp = 0, Root = [1], NextValidatorsHash = [7]\<rparr>)], consensusMetadata = [(NewHeight 1 5, 0, NewHeight 0 1)]\<rparr>) (GetHeight (\<lparr>GetHeight = NewHeight 1 10, GetTime = 40, AppHash = [2], HeaderNextValidatorsHash = [7], SignedHeader = [], ValidatorSet = [7], TrustedHeight = NewHeight 1 5, TrustedValidators = [7]\<rparr>)) = Inl ErrConsensusStateNotFound"
    by (simp add: store_defs)
  have b: "ascendingHeights (storedHeights (\<lparr>consensusStates = [(NewHeight 1 3, Undecodable), (NewHeight 1 5, Marshalled \<lparr>Timestamp = 0, Root = [1], NextValidatorsHash = [7]\<rparr>)], consensusMetadata = [(NewHeight 1 5, 0, NewHeight 0 1)]\<rparr>)) = [(NewHeight 1 3), (NewHeight 1 5)]"
    by (simp add: store_defs)
  have c: "GetConsensusState (\<lparr>consensusStates = [(NewHeight 1 3, Undecodable), (NewHeight 1 5, Marshalled \<lparr>Timestamp = 0, Root = [1], NextValidatorsHash = [7]\<rparr>)], consensusMetadata = [(NewHeight 1 5, 0, NewHeight 0 1)]\<rparr>) (NewHeight 1 3) = Inl ErrUnmarshalConsensusState"
    by (simp add: store_defs)
  show ?thesis
    using prune_read_failure_panics [OF a b c, where cs="\<lparr>ChainId = ''chain'', TrustLevel = \<lparr>Numerator = 1, Denominator = 3\<rparr>, TrustingPeriod = 100, UnbondingPeriod = 200, MaxClockDrift = 10, FrozenHeight = NewHeight 0 0, LatestHeight = NewHeight 1 5\<rparr>" and ctx="\<lparr>BlockTime = 50, BlockHeight = NewHeight 0 9\<rparr>"] a b c
    by simp
qed

text \<open>
  The claim as stated (the failure comes back as an error value, without a panic) fails
  on a store whose earliest consensus state does not unmarshal: a valid new header makes
  \<open>CheckHeaderAndUpdateState\<close> panic, it does not return the error.
\<close>

theorem prune_read_failure_panics_counterexample:
  "CheckHeaderAndUpdateState (\<lparr>ValidatorSetFromProto = Some, ValidatorSetHash = (\<lambda>v. v), SignedHeaderFromProto = Some, IsRevisionFormat = (\<lambda>c. False), SetRevisionNumber = (\<lambda>c n. c), VerifyCommit = (\<lambda>t a b c d. True)\<rparr>) (\<lparr>ChainId = ''chain'', TrustLevel = \<lparr>Numerator = 1, Denominator = 3\<rparr>, TrustingPeriod = 100, UnbondingPeriod = 200, MaxClockDrift = 10, FrozenHeight = NewHeight 0 0, LatestHeight = NewHeight 1 5\<rparr>) (\<lparr>BlockTime = 50, BlockHeight = NewHeight 0 9\<rparr>) (\<lparr>consensusStates = [(NewHeight 1 3, Undecodable), (NewHeight 1 5, Marshalled \<lparr>Timestamp = 0, Root = [1], NextValidatorsHash = [7]\<rparr>)], consensusMetadata = [(NewHeight 1 5, 0, NewHeight 0 1)]\<rparr>) (HeaderMsg (\<lparr>GetHeight = NewHeight 1 10, GetTime = 40, AppHash = [2], HeaderNextValidatorsHash = [7], SignedHeader = [], ValidatorSet = [7], TrustedHeight = NewHeight 1 5, TrustedValidators = [7]\<rparr>))
     = (Panic ErrUnmarshalConsensusState, (\<lparr>consensusStates = [(NewHeight 1 3, Undecodable), (NewHeight 1 5, Marshalled \<lparr>Timestamp = 0, Root = [1], NextValidatorsHash = [7]\<rparr>)], consensusMetadata = [(NewHeight 1 5, 0, NewHeight 0 1)]\<rparr>))
   \<and> fst (CheckHeaderAndUpdateState (\<lparr>ValidatorSetFromProto = Some, ValidatorSetHash = (\<lambda>v. v), SignedHeaderFromProto = Some, IsRevisionFormat = (\<lambda>c. False), SetRevisionNumber = (\<lambda>c n. c), VerifyCommit = (\<lambda>t a b c d. True)\<rparr>) (\<lparr>ChainId = ''chain'', TrustLevel = \<lparr>Numerator = 1, Denominator = 3\<rparr>, TrustingPeriod = 100, UnbondingPeriod = 200, MaxClockDrift = 10, FrozenHeight = NewHeight 0 0, LatestHeight = NewHeight 1 5\<rparr>) (\<lparr>BlockTime = 50, BlockHeight = NewHeight 0 9\<rparr>) (\<lparr>consensusStates = [(NewHeight 1 3, Undecodable), (NewHeight 1 5, Marshalled \<lparr>Timestamp = 0, Root = [1], NextValidatorsHash = [7]\<rparr>)], consensusMetadata = [(NewHeight 1 5, 0, NewHeight 0 1)]\<rparr>) (HeaderMsg (\<lparr>GetHeight = NewHeight 1 10, GetTime = 40, AppHash = [2], HeaderNextValidatorsHash = [7], SignedHeader = [], ValidatorSet = [7], TrustedHeight = NewHeight 1 5, TrustedValidators = [7]\<rparr>)))
       \<noteq> Err ErrUnmarshalConsensusState"
  by (simp add: update_defs store_defs)

text \<open>
  C6. On a header update that is not a duplicate and succeeds, \<open>UpdateState\<close> looks at
  the earliest stored consensus state only. If its timestamp plus the trusting period is
  not after the block time, that consensus state is deleted, and its metadata with it;
  otherwise the stored consensus states are as before. So a consensus state that is gone
  after the update was expired and was the earliest, and two that are gone are the same
  one.
\<close>

theorem prune_deletes_only_expired_earliest:
  assumes "GetConsensusState store (GetHeight h) = Inl e"
      and "UpdateState cs ctx store (HeaderMsg h) = (Ok (cs', consState), store')"
  shows "(storedHeights store = [] \<longrightarrow> consensusStates store' = consensusStates store)
       \<and> (\<forall>k ks. ascendingHeights (storedHeights store) = k # ks \<longrightarrow>
            (\<forall>k' \<in> set (storedHeights store). LTE k k')
          \<and> (\<exists>c. GetConsensusState store k = Inr c
               \<and> (if Timestamp c + TrustingPeriod cs \<le> BlockTime ctx
                  then consensusStates store'
                         = filter (\<lambda>kv. fst kv \<noteq> k) (consensusStates store)
                     \<and> GetConsensusState store' k = Inl ErrConsensusStateNotFound
                     \<and> k \<notin> fst ` set (consensusMetadata store')
                  else consensusStates store' = consensusStates store)))
       \<and> (\<forall>k' c'. GetConsensusState store k' = Inr c' \<longrightarrow>
              GetConsensusState store' k' \<noteq> Inr c' \<longrightarrow>
              Timestamp c' + TrustingPeriod cs \<le> BlockTime ctx
              \<and> (\<forall>k'' \<in> set (storedHeights store). LTE k' k''))
       \<and> (\<forall>k1 c1 k2 c2.
              GetConsensusState store k1 = Inr c1 \<longrightarrow> GetConsensusState store' k1 \<noteq> Inr c1 \<longrightarrow>
              GetConsensusState store k2 = Inr c2 \<longrightarrow> GetConsensusState store' k2 \<noteq> Inr c2 \<longrightarrow>
              k1 = k2)"
proof -
  note u = UpdateState_fresh [OF assms(1), of cs ctx]
  have empty: "consensusStates store' = consensusStates store" if "storedHeights store = []"
    using that assms(2) u
    by (auto simp: pruneOldestConsensusState_empty setConsensusMetadata_def)
  have earliest: "(\<forall>k' \<in> set (storedHeights store). LTE k k')
          \<and> (\<exists>c. GetConsensusState store k = Inr c
               \<and> (if Timestamp c + TrustingPeriod cs \<le> BlockTime ctx
                  then consensusStates store'
                         = filter (\<lambda>kv. fst kv \<noteq> k) (consensusStates store)
                     \<and> GetConsensusState store' k = Inl ErrConsensusStateNotFound
                     \<and> k \<notin> fst ` set (consensusMetadata store')
                  else consensusStates store' = consensusStates store))"
    if asc: "ascendingHeights (storedHeights store) = k # ks" for k ks
  proof -
    have min: "\<forall>k' \<in> set (storedHeights store). LTE k k'"
      using ascendingHeights_head [OF asc] by simp
    note p = pruneOldestConsensusState_earliest [OF asc, of cs ctx]
    obtain c where c: "GetConsensusState store k = Inr c"
      using assms(2) u p by (cases "GetConsensusState store k") auto
    have kh: "k \<noteq> GetHeight h" using c assms(1) by auto
    show ?thesis
    proof (cases "Timestamp c + TrustingPeriod cs \<le> BlockTime ctx")
      case True
      then have s: "store' = setConsensusMetadata ctx
          (deleteConsensusMetadata (deleteConsensusState store k) k) (GetHeight h)"
        using assms(2) u p c by simp
      have 1: "consensusStates store' = filter (\<lambda>kv. fst kv \<noteq> k) (consensusStates store)"
        by (simp add: s setConsensusMetadata_def deleteConsensusMetadata_def
            deleteConsensusState_def)
      have 2: "GetConsensusState store' k = Inl ErrConsensusStateNotFound"
        by (simp add: s GetConsensusState_deleteConsensusState)
      have 3: "k \<notin> fst ` set (consensusMetadata store')"
        using kh
        by (auto simp: s setConsensusMetadata_def deleteConsensusMetadata_def
            deleteConsensusState_def)
      from min c True 1 2 3 show ?thesis by auto
    next
      case False
      then have "store' = setConsensusMetadata ctx store (GetHeight h)"
        using assms(2) u p c by simp
      then have "consensusStates store' = consensusStates store"
        by (simp add: setConsensusMetadata_def)
      with min c False show ?thesis by auto
    qed
  qed
  have lost: "Timestamp c' + TrustingPeriod cs \<le> BlockTime ctx
              \<and> (\<forall>k'' \<in> set (storedHeights store). LTE k' k'')"
    if r: "GetConsensusState store k' = Inr c'" and l: "GetConsensusState store' k' \<noteq> Inr c'"
    for k' c'
  proof (cases "ascendingHeights (storedHeights store)")
    case Nil
    then have "storedHeights store = []" by (simp add: ascendingHeights_Nil)
    with r GetConsensusState_Inr_stored show ?thesis by fastforce
  next
    case (Cons k ks)
    from earliest [OF Cons] obtain c where
      min: "\<forall>k' \<in> set (storedHeights store). LTE k k'" and
      c: "GetConsensusState store k = Inr c" and
      i: "if Timestamp c + TrustingPeriod cs \<le> BlockTime ctx
          then consensusStates store' = filter (\<lambda>kv. fst kv \<noteq> k) (consensusStates store)
          else consensusStates store' = consensusStates store"
      by (auto split: if_splits)
    show ?thesis
    proof (cases "Timestamp c + TrustingPeriod cs \<le> BlockTime ctx")
      case True
      with i have "GetConsensusState store' k' =
          (if k' = k then Inl ErrConsensusStateNotFound else GetConsensusState store k')"
        by (simp add: GetConsensusState_def map_of_filter_fst)
      with r l have "k' = k" by (auto split: if_splits)
      with r c True min show ?thesis by simp
    next
      case False
      with i have "GetConsensusState store' k' = GetConsensusState store k'"
        by (simp add: GetConsensusState_def)
      with r l show ?thesis by simp
    qed
  qed
  have one: "k1 = k2"
    if "GetConsensusState store k1 = Inr c1" "GetConsensusState store' k1 \<noteq> Inr c1"
       "GetConsensusState store k2 = Inr c2" "GetConsensusState store' k2 \<noteq> Inr c2"
    for k1 c1 k2 c2
  proof -
    have "LTE k1 k2"
      using lost [OF that(1,2)] GetConsensusState_Inr_stored [OF that(3)] by blast
    moreover have "LTE k2 k1"
      using lost [OF that(3,4)] GetConsensusState_Inr_stored [OF that(1)] by blast
    ultimately show ?thesis by (rule LTE_antisym)
  qed
  from empty earliest lost one show ?thesis by blast
qed

theorem prune_deletes_only_expired_earliest_witness:
  "GetConsensusState (\<lparr>consensusStates = [(NewHeight 1 10, Marshalled \<lparr>Timestamp = 40, Root = [2], NextValidatorsHash = [7]\<rparr>), (NewHeight 1 5, Marshalled \<lparr>Timestamp = 0, Root = [1], NextValidatorsHash = [7]\<rparr>)], consensusMetadata = [(NewHeight 1 10, 50, NewHeight 0 9), (NewHeight 1 5, 0, NewHeight 0 1)]\<rparr>) (GetHeight (\<lparr>GetHeight = NewHeight 1 12, GetTime = 60, AppHash = [4], HeaderNextValidatorsHash = [7], SignedHeader = [], ValidatorSet = [7], TrustedHeight = NewHeight 1 10, TrustedValidators = [7]\<rparr>)) = Inl ErrConsensusStateNotFound
   \<and> UpdateState (\<lparr>ChainId = ''chain'', TrustLevel = \<lparr>Numerator = 1, Denominator = 3\<rparr>, TrustingPeriod = 100, UnbondingPeriod = 200, MaxClockDrift = 10, FrozenHeight = NewHeight 0 0, LatestHeight = NewHeight 1 10\<rparr>) (\<lparr>BlockTime = 120, BlockHeight = NewHeight 0 9\<rparr>) (\<lparr>consensusStates = [(NewHeight 1 10, Marshalled \<lparr>Timestamp = 40, Root = [2], NextValidatorsHash = [7]\<rparr>), (NewHeight 1 5, Marshalled \<lparr>Timestamp = 0, Root = [1], NextValidatorsHash = [7]\<rparr>)], consensusMetadata = [(NewHeight 1 10, 50, NewHeight 0 9), (NewHeight 1 5, 0, NewHeight 0 1)]\<rparr>) (HeaderMsg (\<lparr>GetHeight = NewHeight 1 12, GetTime = 60, AppHash = [4], HeaderNextValidatorsHash = [7], SignedHeader = [], ValidatorSet = [7], TrustedHeight = NewHeight 1 10, TrustedValidators = [7]\<rparr>)) = (Ok ((\<lparr>ChainId = ''chain'', TrustLevel = \<lparr>Numerator = 1, Denominator = 3\<rparr>, TrustingPeriod = 100, UnbondingPeriod = 200, MaxClockDrift = 10, FrozenHeight = NewHeight 0 0, LatestHeight = NewHeight 1 12\<rparr>), (\<lparr>Timestamp = 60, Root = [4], NextValidatorsHash = [7]\<rparr>)), (\<lparr>consensusStates = [(NewHeight 1 10, Marshalled \<lparr>Timestamp = 40, Root = [2], NextValidatorsHash = [7]\<rparr>)], consensusMetadata = [(NewHeight 1 12, 120, NewHeight 0 9), (NewHeight 1 10, 50, NewHeight 0 9)]\<rparr>))
   \<and> ascendingHeights (storedHeights (\<lparr>consensusStates = [(NewHeight 1 10, Marshalled \<lparr>Timestamp = 40, Root = [2], NextValidatorsHash = [7]\<rparr>), (NewHeight 1 5, Marshalled \<lparr>Timestamp = 0, Root = [1], NextValidatorsHash = [7]\<rparr>)], consensusMetadata = [(NewHeight 1 10, 50, NewHeight 0 9), (NewHeight 1 5, 0, NewHeight 0 1)]\<rparr>)) = [(NewHeight 1 5), (NewHeight 1 10)]
   \<and> GetConsensusState (\<lparr>consensusStates = [(NewHeight 1 10, Marshalled \<lparr>Timestamp = 40, Root = [2], NextValidatorsHash = [7]\<rparr>), (NewHeight 1 5, Marshalled \<lparr>Timestamp = 0, Root = [1], NextValidatorsHash = [7]\<rparr>)], consensusMetadata = [(NewHeight 1 10, 50, NewHeight 0 9), (NewHeight 1 5, 0, NewHeight 0 1)]\<rparr>) (NewHeight 1 5) = Inr (\<lparr>Timestamp = 0, Root = [1], NextValidatorsHash = [7]\<rparr>)
   \<and> Timestamp (\<lparr>Timestamp = 0, Root = [1], NextValidatorsHash = [7]\<rparr>) + TrustingPeriod (\<lparr>ChainId = ''chain'', TrustLevel = \<lparr>Numerator = 1, Denominator = 3\<rparr>, TrustingPeriod = 100, UnbondingPeriod = 200, MaxClockDrift = 10, FrozenHeight = NewHeight 0 0, LatestHeight = NewHeight 1 10\<rparr>) \<le> BlockTime (\<lparr>BlockTime = 120, BlockHeight = NewHeight 0 9\<rparr>)
   \<and> GetConsensusState (\<lparr>consensusStates = [(NewHeight 1 10, Marshalled \<lparr>Timestamp = 40, Root = [2], NextValidatorsHash = [7]\<rparr>)], consensusMetadata = [(NewHeight 1 12, 120, NewHeight 0 9), (NewHeight 1 10, 50, NewHeight 0 9)]\<rparr>) (NewHeight 1 5) = Inl ErrConsensusStateNotFound
   \<and> GetConsensusState (\<lparr>consensusStates = [(NewHeight 1 10, Marshalled \<lparr>Timestamp = 40, Root = [2], NextValidatorsHash = [7]\<rparr>)], consensusMetadata = [(NewHeight 1 12, 120, NewHeight 0 9), (NewHeight 1 10, 50, NewHeight 0 9)]\<rparr>) (NewHeight 1 10) = Inr (\<lparr>Timestamp = 40, Root = [2], NextValidatorsHash = [7]\<rparr>)
   \<and> (NewHeight 1 5) \<notin> fst ` set (consensusMetadata (\<lparr>consensusStates = [(NewHeight 1 10, Marshalled \<lparr>Timestamp = 40, Root = [2], NextValidatorsHash = [7]\<rparr>)], consensusMetadata = [(NewHeight 1 12, 120, NewHeight 0 9), (NewHeight 1 10, 50, NewHeight 0 9)]\<rparr>))"
proof -
  have a: "GetConsensusState (\<lparr>consensusStates = [(NewHeight 1 10, Marshalled \<lparr>Timestamp = 40, Root = [2], NextValidatorsHash = [7]\<rparr>), (NewHeight 1 5, Marshalled \<lparr>Timestamp = 0, Root = [1], NextValidatorsHash = [7]\<rparr>)], consensusMetadata = [(NewHeight 1 10, 50, NewHeight 0 9), (NewHeight 1 5, 0, NewHeight 0 1)]\<rparr>) (GetHeight (\<lparr>GetHeight = NewHeight 1 12, GetTime = 60, AppHash = [4], HeaderNextValidatorsHash = [7], SignedHeader = [], ValidatorSet = [7], TrustedHeight = NewHeight 1 10, TrustedValidators = [7]\<rparr>)) = Inl ErrConsensusStateNotFound"
    by (simp add: store_defs)
  have b: "UpdateState (\<lparr>ChainId = ''chain'', TrustLevel = \<lparr>Numerator = 1, Denominator = 3\<rparr>, TrustingPeriod = 100, UnbondingPeriod = 200, MaxClockDrift = 10, FrozenHeight = NewHeight 0 0, LatestHeight = NewHeight 1 10\<rparr>) (\<lparr>BlockTime = 120, BlockHeight = NewHeight 0 9\<rparr>) (\<lparr>consensusStates = [(NewHeight 1 10, Marshalled \<lparr>Timestamp = 40, Root = [2], NextValidatorsHash = [7]\<rparr>), (NewHeight 1 5, Marshalled \<lparr>Timestamp = 0, Root = [1], NextValidatorsHash = [7]\<rparr>)], consensusMetadata = [(NewHeight 1 10, 50, NewHeight 0 9), (NewHeight 1 5, 0, NewHeight 0 1)]\<rparr>) (HeaderMsg (\<lparr>GetHeight = NewHeight 1 12, GetTime = 60, AppHash = [4], HeaderNextValidatorsHash = [7], SignedHeader = [], ValidatorSet = [7], TrustedHeight = NewHeight 1 10, TrustedValidators = [7]\<rparr>)) = (Ok ((\<lparr>ChainId = ''chain'', TrustLevel = \<lparr>Numerator = 1, Denominator = 3\<rparr>, TrustingPeriod = 100, UnbondingPeriod = 200, MaxClockDrift = 10, FrozenHeight = NewHeight 0 0, LatestHeight = NewHeight 1 12\<rparr>), (\<lparr>Timestamp = 60, Root = [4], NextValidatorsHash = [7]\<rparr>)), (\<lparr>consensusStates = [(NewHeight 1 10, Marshalled \<lparr>Timestamp = 40, Root = [2], NextValidatorsHash = [7]\<rparr>)], consensusMetadata = [(NewHeight 1 12, 120, NewHeight 0 9), (NewHeight 1 10, 50, NewHeight 0 9)]\<rparr>))"
    by (simp add: update_defs store_defs)
  have c: "ascendingHeights (storedHeights (\<lparr>consensusStates = [(NewHeight 1 10, Marshalled \<lparr>Timestamp = 40, Root = [2], NextValidatorsHash = [7]\<rparr>), (NewHeight 1 5, Marshalled \<lparr>Timestamp = 0, Root = [1], NextValidatorsHash = [7]\<rparr>)], consensusMetadata = [(NewHeight 1 10, 50, NewHeight 0 9), (NewHeight 1 5, 0, NewHeight 0 1)]\<rparr>)) = [(NewHeight 1 5), (NewHeight 1 10)]"
    by (simp add: store_defs)
  have d: "GetConsensusState (\<lparr>consensusStates = [(NewHeight 1 10, Marshalled \<lparr>Timestamp = 40, Root = [2], NextValidatorsHash = [7]\<rparr>), (NewHeight 1 5, Marshalled \<lparr>Timestamp = 0, Root = [1], NextValidatorsHash = [7]\<rparr>)], consensusMetadata = [(NewHeight 1 10, 50, NewHeight 0 9), (NewHeight 1 5, 0, NewHeight 0 1)]\<rparr>) (NewHeight 1 5) = Inr (\<lparr>Timestamp = 0, Root = [1], NextValidatorsHash = [7]\<rparr>)"
    by (simp add: store_defs)
  have e: "GetConsensusState (\<lparr>consensusStates = [(NewHeight 1 10, Marshalled \<lparr>Timestamp = 40, Root = [2], NextValidatorsHash = [7]\<rparr>)], consensusMetadata = [(NewHeight 1 12, 120, NewHeight 0 9), (NewHeight 1 10, 50, NewHeight 0 9)]\<rparr>) (NewHeight 1 10) = Inr (\<lparr>Timestamp = 40, Root = [2], NextValidatorsHash = [7]\<rparr>)"
    by (simp add: store_defs)
  show ?thesis
    using prune_deletes_only_expired_earliest [OF a b] a b c d e by simp
qed

text \<open>
  C7. On a header update that is not a duplicate and succeeds, \<open>UpdateState\<close> returns
  the client state with at most the field \<open>LatestHeight\<close> changed: every other field
  (chain id, trust level, trusting period, unbonding period, max clock drift, frozen
  height) is as before, and \<open>LatestHeight\<close> changes exactly when the header's height is
  strictly greater than it, to that height.
\<close>

theorem UpdateState_changes_only_LatestHeight:
  assumes "GetConsensusState store (GetHeight header) = Inl e"
      and "UpdateState cs ctx store (HeaderMsg header) = (Ok (cs', consState), store')"
  shows "cs' = cs\<lparr>LatestHeight := LatestHeight cs'\<rparr>
       \<and> (LatestHeight cs' \<noteq> LatestHeight cs \<longleftrightarrow> GT (GetHeight header) (LatestHeight cs))
       \<and> (GT (GetHeight header) (LatestHeight cs) \<longrightarrow> LatestHeight cs' = GetHeight header)"
  using assms
  by (auto simp: UpdateState_def Let_def GT_def LT_def split: sum.splits if_splits)

theorem UpdateState_changes_only_LatestHeight_witness:
  "GetConsensusState (\<lparr>consensusStates = [(NewHeight 1 5, Marshalled \<lparr>Timestamp = 0, Root = [1], NextValidatorsHash = [7]\<rparr>)], consensusMetadata = [(NewHeight 1 5, 0, NewHeight 0 1)]\<rparr>) (GetHeight (\<lparr>GetHeight = NewHeight 1 10, GetTime = 40, AppHash = [2], HeaderNextValidatorsHash = [7], SignedHeader = [], ValidatorSet = [7], TrustedHeight = NewHeight 1 5, TrustedValidators = [7]\<rparr>)) = Inl ErrConsensusStateNotFound
   \<and> UpdateState (\<lparr>ChainId = ''chain'', TrustLevel = \<lparr>Numerator = 1, Denominator = 3\<rparr>, TrustingPeriod = 100, UnbondingPeriod = 200, MaxClockDrift = 10, FrozenHeight = NewHeight 0 0, LatestHeight = NewHeight 1 5\<rparr>) (\<lparr>BlockTime = 50, BlockHeight = NewHeight 0 9\<rparr>) (\<lparr>consensusStates = [(NewHeight 1 5, Marshalled \<lparr>Timestamp = 0, Root = [1], NextValidatorsHash = [7]\<rparr>)], consensusMetadata = [(NewHeight 1 5, 0, NewHeight 0 1)]\<rparr>) (HeaderMsg (\<lparr>GetHeight = NewHeight 1 10, GetTime = 40, AppHash = [2], HeaderNextValidatorsHash = [7], SignedHeader = [], ValidatorSet = [7], TrustedHeight = NewHeight 1 5, TrustedValidators = [7]\<rparr>)) = (Ok ((\<lparr>ChainId = ''chain'', TrustLevel = \<lparr>Numerator = 1, Denominator = 3\<rparr>, TrustingPeriod = 100, UnbondingPeriod = 200, MaxClockDrift = 10, FrozenHeight = NewHeight 0 0, LatestHeight = NewHeight 1 10\<rparr>), (\<lparr>Timestamp = 40, Root = [2], NextValidatorsHash = [7]\<rparr>)), (\<lparr>consensusStates = [(NewHeight 1 5, Marshalled \<lparr>Timestamp = 0, Root = [1], NextValidatorsHash = [7]\<rparr>)], consensusMetadata = [(NewHeight 1 10, 50, NewHeight 0 9), (NewHeight 1 5, 0, NewHeight 0 1)]\<rparr>))
   \<and> GT (GetHeight (\<lparr>GetHeight = NewHeight 1 10, GetTime = 40, AppHash = [2], HeaderNextValidatorsHash = [7], SignedHeader = [], ValidatorSet = [7], TrustedHeight = NewHeight 1 5, TrustedValidators = [7]\<rparr>)) (LatestHeight (\<lparr>ChainId = ''chain'', TrustLevel = \<lparr>Numerator = 1, Denominator = 3\<rparr>, TrustingPeriod = 100, UnbondingPeriod = 200, MaxClockDrift = 10, FrozenHeight = NewHeight 0 0, LatestHeight = NewHeight 1 5\<rparr>))
   \<and> LatestHeight (\<lparr>ChainId = ''chain'', TrustLevel = \<lparr>Numerator = 1, Denominator = 3\<rparr>, TrustingPeriod = 100, UnbondingPeriod = 200, MaxClockDrift = 10, FrozenHeight = NewHeight 0 0, LatestHeight = NewHeight 1 10\<rparr>) = GetHeight (\<lparr>GetHeight = NewHeight 1 10, GetTime = 40, AppHash = [2], HeaderNextValidatorsHash = [7], SignedHeader = [], ValidatorSet = [7], TrustedHeight = NewHeight 1 5, TrustedValidators = [7]\<rparr>)"
proof -
  have a: "GetConsensusState (\<lparr>consensusStates = [(NewHeight 1 5, Marshalled \<lparr>Timestamp = 0, Root = [1], NextValidatorsHash = [7]\<rparr>)], consensusMetadata = [(NewHeight 1 5, 0, NewHeight 0 1)]\<rparr>) (GetHeight (\<lparr>GetHeight = NewHeight 1 10, GetTime = 40, AppHash = [2], HeaderNextValidatorsHash = [7], SignedHeader = [], ValidatorSet = [7], TrustedHeight = NewHeight 1 5, TrustedValidators = [7]\<rparr>)) = Inl ErrConsensusStateNotFound"
    by (simp add: store_defs)
  have b: "UpdateState (\<lparr>ChainId = ''chain'', TrustLevel = \<lparr>Numerator = 1, Denominator = 3\<rparr>, TrustingPeriod = 100, UnbondingPeriod = 200, MaxClockDrift = 10, FrozenHeight = NewHeight 0 0, LatestHeight = NewHeight 1 5\<rparr>) (\<lparr>BlockTime = 50, BlockHeight = NewHeight 0 9\<rparr>) (\<lparr>consensusStates = [(NewHeight 1 5, Marshalled \<lparr>Timestamp = 0, Root = [1], NextValidatorsHash = [7]\<rparr>)], consensusMetadata = [(NewHeight 1 5, 0, NewHeight 0 1)]\<rparr>) (HeaderMsg (\<lparr>GetHeight = NewHeight 1 10, GetTime = 40, AppHash = [2], HeaderNextValidatorsHash = [7], SignedHeader = [], ValidatorSet = [7], TrustedHeight = NewHeight 1 5, TrustedValidators = [7]\<rparr>)) = (Ok ((\<lparr>ChainId = ''chain'', TrustLevel = \<lparr>Numerator = 1, Denominator = 3\<rparr>, TrustingPeriod = 100, UnbondingPeriod = 200, MaxClockDrift = 10, FrozenHeight = NewHeight 0 0, LatestHeight = NewHeight 1 10\<rparr>), (\<lparr>Timestamp = 40, Root = [2], NextValidatorsHash = [7]\<rparr>)), (\<lparr>consensusStates = [(NewHeight 1 5, Marshalled \<lparr>Timestamp = 0, Root = [1], NextValidatorsHash = [7]\<rparr>)], consensusMetadata = [(NewHeight 1 10, 50, NewHeight 0 9), (NewHeight 1 5, 0, NewHeight 0 1)]\<rparr>))"
    by (simp add: update_defs store_defs)
  show ?thesis
    using UpdateState_changes_only_LatestHeight [OF a b] a b by simp
qed

text \<open>
  C2. The invariant: every stored consensus state unmarshals, and stored consensus states
  have timestamps strictly increasing with the height. On a store that satisfies it, take
  a header that is valid against the consensus state at its trusted height and has no
  consensus state stored at its own height. Then \<open>CheckHeaderAndUpdateState\<close> returns,
  and: (1) if some consensus state at a smaller height has a timestamp not strictly
  before the header's, or some at a larger height has one not strictly after it, the
  returned client state has the frozen height set to the sentinel and the store is the
  one given, nothing recorded; (2) the store after the call satisfies the invariant, and
  if the returned client state is not frozen, the invariant still holds once the
  returned consensus state is recorded at the header's height.
\<close>

theorem timestamps_stay_monotonic:
  assumes "allDecodable store" and "timestampsMonotonic store"
      and "GetConsensusState store (GetHeight h) = Inl e"
      and "GetConsensusState store (TrustedHeight h) = Inr trusted"
      and "checkValidity lib cs trusted h (BlockTime ctx) = None"
  shows "((\<exists>k c. GetConsensusState store k = Inr c
              \<and> ((LT k (GetHeight h) \<and> \<not> Timestamp c < GetTime h)
                 \<or> (GT k (GetHeight h) \<and> \<not> GetTime h < Timestamp c))) \<longrightarrow>
           CheckHeaderAndUpdateState lib cs ctx store (HeaderMsg h)
             = (Ok (cs\<lparr>FrozenHeight := FrozenHeightConst\<rparr>, HeaderConsensusState h), store))
       \<and> (\<exists>cs' store'. CheckHeaderAndUpdateState lib cs ctx store (HeaderMsg h)
               = (Ok (cs', HeaderConsensusState h), store')
             \<and> allDecodable store' \<and> timestampsMonotonic store'
             \<and> (IsZero (FrozenHeight cs') \<longrightarrow>
                  allDecodable (setConsensusState store' (GetHeight h) (HeaderConsensusState h))
                \<and> timestampsMonotonic
                    (setConsensusState store' (GetHeight h) (HeaderConsensusState h))))"
proof -
  let ?H = "GetHeight h" and ?t = "GetTime h" and ?c = "HeaderConsensusState h"
  let ?frozen = "(Ok (cs\<lparr>FrozenHeight := FrozenHeightConst\<rparr>, ?c), store)"
  let ?nbr = "(\<exists>p. GetPreviousConsensusState store ?H = Some p \<and> \<not> Timestamp p < ?t)
            \<or> (\<exists>n. GetNextConsensusState store ?H = Some n \<and> \<not> ?t < Timestamp n)"
  let ?viol = "\<exists>k c. GetConsensusState store k = Inr c
              \<and> ((LT k ?H \<and> \<not> Timestamp c < ?t) \<or> (GT k ?H \<and> \<not> ?t < Timestamp c))"
  have tc: "Timestamp ?c = ?t" by (simp add: HeaderConsensusState_def)
  have run: "CheckHeaderAndUpdateState lib cs ctx store (HeaderMsg h) =
      (if ?nbr then ?frozen else UpdateState cs ctx store (HeaderMsg h))"
    using assms(3,4,5)
    by (auto simp: CheckHeaderAndUpdateState_def validateAndUpdate_def Let_def tc
        split: option.splits)
  have nbr: "?nbr" if "?viol"
    using that GetPreviousConsensusState_violation [OF assms(1,2)]
      GetNextConsensusState_violation [OF assms(1,2)]
    by blast
  have one: "CheckHeaderAndUpdateState lib cs ctx store (HeaderMsg h) = ?frozen" if "?viol"
    unfolding run by (rule if_P [OF nbr [OF that]])
  have two: "\<exists>cs' store'. CheckHeaderAndUpdateState lib cs ctx store (HeaderMsg h)
               = (Ok (cs', ?c), store')
             \<and> allDecodable store' \<and> timestampsMonotonic store'
             \<and> (IsZero (FrozenHeight cs') \<longrightarrow>
                  allDecodable (setConsensusState store' ?H ?c)
                \<and> timestampsMonotonic (setConsensusState store' ?H ?c))"
  proof (cases "?nbr")
    case True
    have "CheckHeaderAndUpdateState lib cs ctx store (HeaderMsg h) = ?frozen"
      unfolding run by (rule if_P [OF True])
    moreover have "\<not> IsZero (FrozenHeight (cs\<lparr>FrozenHeight := FrozenHeightConst\<rparr>))"
      by (simp add: IsZero_def FrozenHeightConst_def)
    ultimately show ?thesis using assms(1,2) by blast
  next
    case False
    obtain pruned where pr: "pruneOldestConsensusState cs ctx store = Inr pruned"
      using pruneOldestConsensusState_decodable [OF assms(1)] by blast
    note cases = pruneOldestConsensusState_cases [OF pr]
    let ?cs' = "if GT ?H (LatestHeight cs) then cs\<lparr>LatestHeight := ?H\<rparr> else cs"
    let ?store' = "setConsensusMetadata ctx pruned ?H"
    have "CheckHeaderAndUpdateState lib cs ctx store (HeaderMsg h)
        = UpdateState cs ctx store (HeaderMsg h)"
      unfolding run by (rule if_not_P [OF False])
    then have res: "CheckHeaderAndUpdateState lib cs ctx store (HeaderMsg h)
        = (Ok (?cs', ?c), ?store')"
      using pr UpdateState_fresh [OF assms(3), of cs ctx] by simp
    have inv: "allDecodable ?store' \<and> timestampsMonotonic ?store'"
      using pruned_store_invariant [OF assms(1,2) cases] .
    have dec: "allDecodable (setConsensusState ?store' ?H ?c)"
      using recorded_store_decodable [OF assms(1) cases] .
    have mono: "timestampsMonotonic (setConsensusState ?store' ?H ?c)"
      if nv: "\<not> ?viol"
      unfolding timestampsMonotonic_iff
    proof (intro allI impI)
      fix k1 c1 k2 c2
      assume r1: "GetConsensusState (setConsensusState ?store' ?H ?c) k1 = Inr c1"
        and r2: "GetConsensusState (setConsensusState ?store' ?H ?c) k2 = Inr c2"
        and lt: "LT k1 k2"
      from recorded_store_reads [OF cases r1]
      have a1: "(k1 = ?H \<and> c1 = ?c) \<or> (k1 \<noteq> ?H \<and> GetConsensusState store k1 = Inr c1)" .
      from recorded_store_reads [OF cases r2]
      have a2: "(k2 = ?H \<and> c2 = ?c) \<or> (k2 \<noteq> ?H \<and> GetConsensusState store k2 = Inr c2)" .
      from a1 a2 show "Timestamp c1 < Timestamp c2"
      proof (elim disjE conjE)
        assume "k1 = ?H" "k2 = ?H"
        with lt show ?thesis by (simp add: LT_irrefl)
      next
        assume "k1 = ?H" "c1 = ?c" "GetConsensusState store k2 = Inr c2"
        with lt nv tc show ?thesis by (auto simp: GT_def)
      next
        assume "GetConsensusState store k1 = Inr c1" "k2 = ?H" "c2 = ?c"
        with lt nv tc show ?thesis by auto
      next
        assume "GetConsensusState store k1 = Inr c1" "GetConsensusState store k2 = Inr c2"
        with lt assms(2) show ?thesis unfolding timestampsMonotonic_iff by blast
      qed
    qed
    have "\<not> ?viol" using False nbr by blast
    with res inv dec mono show ?thesis by blast
  qed
  from one two show ?thesis by blast
qed

theorem timestamps_stay_monotonic_witness:
  "allDecodable (\<lparr>consensusStates = [(NewHeight 1 10, Marshalled \<lparr>Timestamp = 40, Root = [2], NextValidatorsHash = [7]\<rparr>), (NewHeight 1 5, Marshalled \<lparr>Timestamp = 0, Root = [1], NextValidatorsHash = [7]\<rparr>)], consensusMetadata = [(NewHeight 1 10, 50, NewHeight 0 9), (NewHeight 1 5, 0, NewHeight 0 1)]\<rparr>) \<and> timestampsMonotonic (\<lparr>consensusStates = [(NewHeight 1 10, Marshalled \<lparr>Timestamp = 40, Root = [2], NextValidatorsHash = [7]\<rparr>), (NewHeight 1 5, Marshalled \<lparr>Timestamp = 0, Root = [1], NextValidatorsHash = [7]\<rparr>)], consensusMetadata = [(NewHeight 1 10, 50, NewHeight 0 9), (NewHeight 1 5, 0, NewHeight 0 1)]\<rparr>)
   \<and> GetConsensusState (\<lparr>consensusStates = [(NewHeight 1 10, Marshalled \<lparr>Timestamp = 40, Root = [2], NextValidatorsHash = [7]\<rparr>), (NewHeight 1 5, Marshalled \<lparr>Timestamp = 0, Root = [1], NextValidatorsHash = [7]\<rparr>)], consensusMetadata = [(NewHeight 1 10, 50, NewHeight 0 9), (NewHeight 1 5, 0, NewHeight 0 1)]\<rparr>) (GetHeight (\<lparr>GetHeight = NewHeight 1 12, GetTime = 30, AppHash = [5], HeaderNextValidatorsHash = [7], SignedHeader = [], ValidatorSet = [7], TrustedHeight = NewHeight 1 5, TrustedValidators = [7]\<rparr>)) = Inl ErrConsensusStateNotFound
   \<and> GetConsensusState (\<lparr>consensusStates = [(NewHeight 1 10, Marshalled \<lparr>Timestamp = 40, Root = [2], NextValidatorsHash = [7]\<rparr>), (NewHeight 1 5, Marshalled \<lparr>Timestamp = 0, Root = [1], NextValidatorsHash = [7]\<rparr>)], consensusMetadata = [(NewHeight 1 10, 50, NewHeight 0 9), (NewHeight 1 5, 0, NewHeight 0 1)]\<rparr>) (TrustedHeight (\<lparr>GetHeight = NewHeight 1 12, GetTime = 30, AppHash = [5], HeaderNextValidatorsHash = [7], SignedHeader = [], ValidatorSet = [7], TrustedHeight = NewHeight 1 5, TrustedValidators = [7]\<rparr>)) = Inr (\<lparr>Timestamp = 0, Root = [1], NextValidatorsHash = [7]\<rparr>)
   \<and> checkValidity (\<lparr>ValidatorSetFromProto = Some, ValidatorSetHash = (\<lambda>v. v), SignedHeaderFromProto = Some, IsRevisionFormat = (\<lambda>c. False), SetRevisionNumber = (\<lambda>c n. c), VerifyCommit = (\<lambda>t a b c d. True)\<rparr>) (\<lparr>ChainId = ''chain'', TrustLevel = \<lparr>Numerator = 1, Denominator = 3\<rparr>, TrustingPeriod = 100, UnbondingPeriod = 200, MaxClockDrift = 10, FrozenHeight = NewHeight 0 0, LatestHeight = NewHeight 1 10\<rparr>) (\<lparr>Timestamp = 0, Root = [1], NextValidatorsHash = [7]\<rparr>) (\<lparr>GetHeight = NewHeight 1 12, GetTime = 30, AppHash = [5], HeaderNextValidatorsHash = [7], SignedHeader = [], ValidatorSet = [7], TrustedHeight = NewHeight 1 5, TrustedValidators = [7]\<rparr>) (BlockTime (\<lparr>BlockTime = 50, BlockHeight = NewHeight 0 9\<rparr>)) = None
   \<and> GetConsensusState (\<lparr>consensusStates = [(NewHeight 1 10, Marshalled \<lparr>Timestamp = 40, Root = [2], NextValidatorsHash = [7]\<rparr>), (NewHeight 1 5, Marshalled \<lparr>Timestamp = 0, Root = [1], NextValidatorsHash = [7]\<rparr>)], consensusMetadata = [(NewHeight 1 10, 50, NewHeight 0 9), (NewHeight 1 5, 0, NewHeight 0 1)]\<rparr>) (NewHeight 1 10) = Inr (\<lparr>Timestamp = 40, Root = [2], NextValidatorsHash = [7]\<rparr>)
   \<and> LT (NewHeight 1 10) (GetHeight (\<lparr>GetHeight = NewHeight 1 12, GetTime = 30, AppHash = [5], HeaderNextValidatorsHash = [7], SignedHeader = [], ValidatorSet = [7], TrustedHeight = NewHeight 1 5, TrustedValidators = [7]\<rparr>))
   \<and> \<not> Timestamp (\<lparr>Timestamp = 40, Root = [2], NextValidatorsHash = [7]\<rparr>) < GetTime (\<lparr>GetHeight = NewHeight 1 12, GetTime = 30, AppHash = [5], HeaderNextValidatorsHash = [7], SignedHeader = [], ValidatorSet = [7], TrustedHeight = NewHeight 1 5, TrustedValidators = [7]\<rparr>)
   \<and> CheckHeaderAndUpdateState (\<lparr>ValidatorSetFromProto = Some, ValidatorSetHash = (\<lambda>v. v), SignedHeaderFromProto = Some, IsRevisionFormat = (\<lambda>c. False), SetRevisionNumber = (\<lambda>c n. c), VerifyCommit = (\<lambda>t a b c d. True)\<rparr>) (\<lparr>ChainId = ''chain'', TrustLevel = \<lparr>Numerator = 1, Denominator = 3\<rparr>, TrustingPeriod = 100, UnbondingPeriod = 200, MaxClockDrift = 10, FrozenHeight = NewHeight 0 0, LatestHeight = NewHeight 1 10\<rparr>) (\<lparr>BlockTime = 50, BlockHeight = NewHeight 0 9\<rparr>) (\<lparr>consensusStates = [(NewHeight 1 10, Marshalled \<lparr>Timestamp = 40, Root = [2], NextValidatorsHash = [7]\<rparr>), (NewHeight 1 5, Marshalled \<lparr>Timestamp = 0, Root = [1], NextValidatorsHash = [7]\<rparr>)], consensusMetadata = [(NewHeight 1 10, 50, NewHeight 0 9), (NewHeight 1 5, 0, NewHeight 0 1)]\<rparr>) (HeaderMsg (\<lparr>GetHeight = NewHeight 1 12, GetTime = 30, AppHash = [5], HeaderNextValidatorsHash = [7], SignedHeader = [], ValidatorSet = [7], TrustedHeight = NewHeight 1 5, TrustedValidators = [7]\<rparr>))
       = (Ok ((\<lparr>ChainId = ''chain'', TrustLevel = \<lparr>Numerator = 1, Denominator = 3\<rparr>, TrustingPeriod = 100, UnbondingPeriod = 200, MaxClockDrift = 10, FrozenHeight = NewHeight 0 0, LatestHeight = NewHeight 1 10\<rparr>)\<lparr>FrozenHeight := NewHeight 0 1\<rparr>, (\<lparr>Timestamp = 30, Root = [5], NextValidatorsHash = [7]\<rparr>)), (\<lparr>consensusStates = [(NewHeight 1 10, Marshalled \<lparr>Timestamp = 40, Root = [2], NextValidatorsHash = [7]\<rparr>), (NewHeight 1 5, Marshalled \<lparr>Timestamp = 0, Root = [1], NextValidatorsHash = [7]\<rparr>)], consensusMetadata = [(NewHeight 1 10, 50, NewHeight 0 9), (NewHeight 1 5, 0, NewHeight 0 1)]\<rparr>))
   \<and> CheckHeaderAndUpdateState (\<lparr>ValidatorSetFromProto = Some, ValidatorSetHash = (\<lambda>v. v), SignedHeaderFromProto = Some, IsRevisionFormat = (\<lambda>c. False), SetRevisionNumber = (\<lambda>c n. c), VerifyCommit = (\<lambda>t a b c d. True)\<rparr>) (\<lparr>ChainId = ''chain'', TrustLevel = \<lparr>Numerator = 1, Denominator = 3\<rparr>, TrustingPeriod = 100, UnbondingPeriod = 200, MaxClockDrift = 10, FrozenHeight = NewHeight 0 0, LatestHeight = NewHeight 1 10\<rparr>) (\<lparr>BlockTime = 50, BlockHeight = NewHeight 0 9\<rparr>) (\<lparr>consensusStates = [(NewHeight 1 10, Marshalled \<lparr>Timestamp = 40, Root = [2], NextValidatorsHash = [7]\<rparr>), (NewHeight 1 5, Marshalled \<lparr>Timestamp = 0, Root = [1], NextValidatorsHash = [7]\<rparr>)], consensusMetadata = [(NewHeight 1 10, 50, NewHeight 0 9), (NewHeight 1 5, 0, NewHeight 0 1)]\<rparr>) (HeaderMsg (\<lparr>GetHeight = NewHeight 1 12, GetTime = 60, AppHash = [4], HeaderNextValidatorsHash = [7], SignedHeader = [], ValidatorSet = [7], TrustedHeight = NewHeight 1 10, TrustedValidators = [7]\<rparr>))
       = (Ok ((\<lparr>ChainId = ''chain'', TrustLevel = \<lparr>Numerator = 1, Denominator = 3\<rparr>, TrustingPeriod = 100, UnbondingPeriod = 200, MaxClockDrift = 10, FrozenHeight = NewHeight 0 0, LatestHeight = NewHeight 1 12\<rparr>), (\<lparr>Timestamp = 60, Root = [4], NextValidatorsHash = [7]\<rparr>)), (\<lparr>consensusStates = [(NewHeight 1 10, Marshalled \<lparr>Timestamp = 40, Root = [2], NextValidatorsHash = [7]\<rparr>), (NewHeight 1 5, Marshalled \<lparr>Timestamp = 0, Root = [1], NextValidatorsHash = [7]\<rparr>)], consensusMetadata = [(NewHeight 1 12, 50, NewHeight 0 9), (NewHeight 1 10, 50, NewHeight 0 9), (NewHeight 1 5, 0, NewHeight 0 1)]\<rparr>))
   \<and> IsZero (FrozenHeight (\<lparr>ChainId = ''chain'', TrustLevel = \<lparr>Numerator = 1, Denominator = 3\<rparr>, TrustingPeriod = 100, UnbondingPeriod = 200, MaxClockDrift = 10, FrozenHeight = NewHeight 0 0, LatestHeight = NewHeight 1 12\<rparr>))
   \<and> timestampsMonotonic (setConsensusState (\<lparr>consensusStates = [(NewHeight 1 10, Marshalled \<lparr>Timestamp = 40, Root = [2], NextValidatorsHash = [7]\<rparr>), (NewHeight 1 5, Marshalled \<lparr>Timestamp = 0, Root = [1], NextValidatorsHash = [7]\<rparr>)], consensusMetadata = [(NewHeight 1 12, 50, NewHeight 0 9), (NewHeight 1 10, 50, NewHeight 0 9), (NewHeight 1 5, 0, NewHeight 0 1)]\<rparr>) (GetHeight (\<lparr>GetHeight = NewHeight 1 12, GetTime = 60, AppHash = [4], HeaderNextValidatorsHash = [7], SignedHeader = [], ValidatorSet = [7], TrustedHeight = NewHeight 1 10, TrustedValidators = [7]\<rparr>)) (\<lparr>Timestamp = 60, Root = [4], NextValidatorsHash = [7]\<rparr>))"
proof -
  have a: "allDecodable (\<lparr>consensusStates = [(NewHeight 1 10, Marshalled \<lparr>Timestamp = 40, Root = [2], NextValidatorsHash = [7]\<rparr>), (NewHeight 1 5, Marshalled \<lparr>Timestamp = 0, Root = [1], NextValidatorsHash = [7]\<rparr>)], consensusMetadata = [(NewHeight 1 10, 50, NewHeight 0 9), (NewHeight 1 5, 0, NewHeight 0 1)]\<rparr>)"
    by (simp add: allDecodable_def)
  have b: "timestampsMonotonic (\<lparr>consensusStates = [(NewHeight 1 10, Marshalled \<lparr>Timestamp = 40, Root = [2], NextValidatorsHash = [7]\<rparr>), (NewHeight 1 5, Marshalled \<lparr>Timestamp = 0, Root = [1], NextValidatorsHash = [7]\<rparr>)], consensusMetadata = [(NewHeight 1 10, 50, NewHeight 0 9), (NewHeight 1 5, 0, NewHeight 0 1)]\<rparr>)"
    by (simp add: timestampsMonotonic_def store_defs)
  have c: "GetConsensusState (\<lparr>consensusStates = [(NewHeight 1 10, Marshalled \<lparr>Timestamp = 40, Root = [2], NextValidatorsHash = [7]\<rparr>), (NewHeight 1 5, Marshalled \<lparr>Timestamp = 0, Root = [1], NextValidatorsHash = [7]\<rparr>)], consensusMetadata = [(NewHeight 1 10, 50, NewHeight 0 9), (NewHeight 1 5, 0, NewHeight 0 1)]\<rparr>) (GetHeight (\<lparr>GetHeight = NewHeight 1 12, GetTime = 30, AppHash = [5], HeaderNextValidatorsHash = [7], SignedHeader = [], ValidatorSet = [7], TrustedHeight = NewHeight 1 5, TrustedValidators = [7]\<rparr>)) = Inl ErrConsensusStateNotFound"
    by (simp add: store_defs)
  have d: "GetConsensusState (\<lparr>consensusStates = [(NewHeight 1 10, Marshalled \<lparr>Timestamp = 40, Root = [2], NextValidatorsHash = [7]\<rparr>), (NewHeight 1 5, Marshalled \<lparr>Timestamp = 0, Root = [1], NextValidatorsHash = [7]\<rparr>)], consensusMetadata = [(NewHeight 1 10, 50, NewHeight 0 9), (NewHeight 1 5, 0, NewHeight 0 1)]\<rparr>) (TrustedHeight (\<lparr>GetHeight = NewHeight 1 12, GetTime = 30, AppHash = [5], HeaderNextValidatorsHash = [7], SignedHeader = [], ValidatorSet = [7], TrustedHeight = NewHeight 1 5, TrustedValidators = [7]\<rparr>)) = Inr (\<lparr>Timestamp = 0, Root = [1], NextValidatorsHash = [7]\<rparr>)"
    by (simp add: store_defs)
  have e: "checkValidity (\<lparr>ValidatorSetFromProto = Some, ValidatorSetHash = (\<lambda>v. v), SignedHeaderFromProto = Some, IsRevisionFormat = (\<lambda>c. False), SetRevisionNumber = (\<lambda>c n. c), VerifyCommit = (\<lambda>t a b c d. True)\<rparr>) (\<lparr>ChainId = ''chain'', TrustLevel = \<lparr>Numerator = 1, Denominator = 3\<rparr>, TrustingPeriod = 100, UnbondingPeriod = 200, MaxClockDrift = 10, FrozenHeight = NewHeight 0 0, LatestHeight = NewHeight 1 10\<rparr>) (\<lparr>Timestamp = 0, Root = [1], NextValidatorsHash = [7]\<rparr>) (\<lparr>GetHeight = NewHeight 1 12, GetTime = 30, AppHash = [5], HeaderNextValidatorsHash = [7], SignedHeader = [], ValidatorSet = [7], TrustedHeight = NewHeight 1 5, TrustedValidators = [7]\<rparr>) (BlockTime (\<lparr>BlockTime = 50, BlockHeight = NewHeight 0 9\<rparr>)) = None"
    by (simp add: update_defs store_defs)
  have f: "GetConsensusState (\<lparr>consensusStates = [(NewHeight 1 10, Marshalled \<lparr>Timestamp = 40, Root = [2], NextValidatorsHash = [7]\<rparr>), (NewHeight 1 5, Marshalled \<lparr>Timestamp = 0, Root = [1], NextValidatorsHash = [7]\<rparr>)], consensusMetadata = [(NewHeight 1 10, 50, NewHeight 0 9), (NewHeight 1 5, 0, NewHeight 0 1)]\<rparr>) (NewHeight 1 10) = Inr (\<lparr>Timestamp = 40, Root = [2], NextValidatorsHash = [7]\<rparr>)"
    by (simp add: store_defs)
  have g: "LT (NewHeight 1 10) (GetHeight (\<lparr>GetHeight = NewHeight 1 12, GetTime = 30, AppHash = [5], HeaderNextValidatorsHash = [7], SignedHeader = [], ValidatorSet = [7], TrustedHeight = NewHeight 1 5, TrustedValidators = [7]\<rparr>))"
    by (simp add: store_defs)
  have v: "\<exists>k c. GetConsensusState (\<lparr>consensusStates = [(NewHeight 1 10, Marshalled \<lparr>Timestamp = 40, Root = [2], NextValidatorsHash = [7]\<rparr>), (NewHeight 1 5, Marshalled \<lparr>Timestamp = 0, Root = [1], NextValidatorsHash = [7]\<rparr>)], consensusMetadata = [(NewHeight 1 10, 50, NewHeight 0 9), (NewHeight 1 5, 0, NewHeight 0 1)]\<rparr>) k = Inr c
      \<and> ((LT k (GetHeight (\<lparr>GetHeight = NewHeight 1 12, GetTime = 30, AppHash = [5], HeaderNextValidatorsHash = [7], SignedHeader = [], ValidatorSet = [7], TrustedHeight = NewHeight 1 5, TrustedValidators = [7]\<rparr>)) \<and> \<not> Timestamp c < GetTime (\<lparr>GetHeight = NewHeight 1 12, GetTime = 30, AppHash = [5], HeaderNextValidatorsHash = [7], SignedHeader = [], ValidatorSet = [7], TrustedHeight = NewHeight 1 5, TrustedValidators = [7]\<rparr>))
         \<or> (GT k (GetHeight (\<lparr>GetHeight = NewHeight 1 12, GetTime = 30, AppHash = [5], HeaderNextValidatorsHash = [7], SignedHeader = [], ValidatorSet = [7], TrustedHeight = NewHeight 1 5, TrustedValidators = [7]\<rparr>)) \<and> \<not> GetTime (\<lparr>GetHeight = NewHeight 1 12, GetTime = 30, AppHash = [5], HeaderNextValidatorsHash = [7], SignedHeader = [], ValidatorSet = [7], TrustedHeight = NewHeight 1 5, TrustedValidators = [7]\<rparr>) < Timestamp c))"
    using f g by (intro exI [of _ "NewHeight 1 10"] exI [of _ "\<lparr>Timestamp = 40, Root = [2], NextValidatorsHash = [7]\<rparr>"]) simp
  have c2: "GetConsensusState (\<lparr>consensusStates = [(NewHeight 1 10, Marshalled \<lparr>Timestamp = 40, Root = [2], NextValidatorsHash = [7]\<rparr>), (NewHeight 1 5, Marshalled \<lparr>Timestamp = 0, Root = [1], NextValidatorsHash = [7]\<rparr>)], consensusMetadata = [(NewHeight 1 10, 50, NewHeight 0 9), (NewHeight 1 5, 0, NewHeight 0 1)]\<rparr>) (GetHeight (\<lparr>GetHeight = NewHeight 1 12, GetTime = 60, AppHash = [4], HeaderNextValidatorsHash = [7], SignedHeader = [], ValidatorSet = [7], TrustedHeight = NewHeight 1 10, TrustedValidators = [7]\<rparr>)) = Inl ErrConsensusStateNotFound"
    by (simp add: store_defs)
  have d2: "GetConsensusState (\<lparr>consensusStates = [(NewHeight 1 10, Marshalled \<lparr>Timestamp = 40, Root = [2], NextValidatorsHash = [7]\<rparr>), (NewHeight 1 5, Marshalled \<lparr>Timestamp = 0, Root = [1], NextValidatorsHash = [7]\<rparr>)], consensusMetadata = [(NewHeight 1 10, 50, NewHeight 0 9), (NewHeight 1 5, 0, NewHeight 0 1)]\<rparr>) (TrustedHeight (\<lparr>GetHeight = NewHeight 1 12, GetTime = 60, AppHash = [4], HeaderNextValidatorsHash = [7], SignedHeader = [], ValidatorSet = [7], TrustedHeight = NewHeight 1 10, TrustedValidators = [7]\<rparr>)) = Inr (\<lparr>Timestamp = 40, Root = [2], NextValidatorsHash = [7]\<rparr>)"
    by (simp add: store_defs)
  have e2: "checkValidity (\<lparr>ValidatorSetFromProto = Some, ValidatorSetHash = (\<lambda>v. v), SignedHeaderFromProto = Some, IsRevisionFormat = (\<lambda>c. False), SetRevisionNumber = (\<lambda>c n. c), VerifyCommit = (\<lambda>t a b c d. True)\<rparr>) (\<lparr>ChainId = ''chain'', TrustLevel = \<lparr>Numerator = 1, Denominator = 3\<rparr>, TrustingPeriod = 100, UnbondingPeriod = 200, MaxClockDrift = 10, FrozenHeight = NewHeight 0 0, LatestHeight = NewHeight 1 10\<rparr>) (\<lparr>Timestamp = 40, Root = [2], NextValidatorsHash = [7]\<rparr>) (\<lparr>GetHeight = NewHeight 1 12, GetTime = 60, AppHash = [4], HeaderNextValidatorsHash = [7], SignedHeader = [], ValidatorSet = [7], TrustedHeight = NewHeight 1 10, TrustedValidators = [7]\<rparr>) (BlockTime (\<lparr>BlockTime = 50, BlockHeight = NewHeight 0 9\<rparr>)) = None"
    by (simp add: update_defs store_defs)
  have r2: "CheckHeaderAndUpdateState (\<lparr>ValidatorSetFromProto = Some, ValidatorSetHash = (\<lambda>v. v), SignedHeaderFromProto = Some, IsRevisionFormat = (\<lambda>c. False), SetRevisionNumber = (\<lambda>c n. c), VerifyCommit = (\<lambda>t a b c d. True)\<rparr>) (\<lparr>ChainId = ''chain'', TrustLevel = \<lparr>Numerator = 1, Denominator = 3\<rparr>, TrustingPeriod = 100, UnbondingPeriod = 200, MaxClockDrift = 10, FrozenHeight = NewHeight 0 0, LatestHeight = NewHeight 1 10\<rparr>) (\<lparr>BlockTime = 50, BlockHeight = NewHeight 0 9\<rparr>) (\<lparr>consensusStates = [(NewHeight 1 10, Marshalled \<lparr>Timestamp = 40, Root = [2], NextValidatorsHash = [7]\<rparr>), (NewHeight 1 5, Marshalled \<lparr>Timestamp = 0, Root = [1], NextValidatorsHash = [7]\<rparr>)], consensusMetadata = [(NewHeight 1 10, 50, NewHeight 0 9), (NewHeight 1 5, 0, NewHeight 0 1)]\<rparr>) (HeaderMsg (\<lparr>GetHeight = NewHeight 1 12, GetTime = 60, AppHash = [4], HeaderNextValidatorsHash = [7], SignedHeader = [], ValidatorSet = [7], TrustedHeight = NewHeight 1 10, TrustedValidators = [7]\<rparr>))
       = (Ok ((\<lparr>ChainId = ''chain'', TrustLevel = \<lparr>Numerator = 1, Denominator = 3\<rparr>, TrustingPeriod = 100, UnbondingPeriod = 200, MaxClockDrift = 10, FrozenHeight = NewHeight 0 0, LatestHeight = NewHeight 1 12\<rparr>), (\<lparr>Timestamp = 60, Root = [4], NextValidatorsHash = [7]\<rparr>)), (\<lparr>consensusStates = [(NewHeight 1 10, Marshalled \<lparr>Timestamp = 40, Root = [2], NextValidatorsHash = [7]\<rparr>), (NewHeight 1 5, Marshalled \<lparr>Timestamp = 0, Root = [1], NextValidatorsHash = [7]\<rparr>)], consensusMetadata = [(NewHeight 1 12, 50, NewHeight 0 9), (NewHeight 1 10, 50, NewHeight 0 9), (NewHeight 1 5, 0, NewHeight 0 1)]\<rparr>))"
    by (simp add: update_defs store_defs)
  have z2: "IsZero (FrozenHeight (\<lparr>ChainId = ''chain'', TrustLevel = \<lparr>Numerator = 1, Denominator = 3\<rparr>, TrustingPeriod = 100, UnbondingPeriod = 200, MaxClockDrift = 10, FrozenHeight = NewHeight 0 0, LatestHeight = NewHeight 1 12\<rparr>))"
    by (simp add: IsZero_def)
  have h2: "HeaderConsensusState (\<lparr>GetHeight = NewHeight 1 12, GetTime = 60, AppHash = [4], HeaderNextValidatorsHash = [7], SignedHeader = [], ValidatorSet = [7], TrustedHeight = NewHeight 1 10, TrustedValidators = [7]\<rparr>) = (\<lparr>Timestamp = 60, Root = [4], NextValidatorsHash = [7]\<rparr>)"
    by (simp add: HeaderConsensusState_def)
  have m2: "timestampsMonotonic (setConsensusState (\<lparr>consensusStates = [(NewHeight 1 10, Marshalled \<lparr>Timestamp = 40, Root = [2], NextValidatorsHash = [7]\<rparr>), (NewHeight 1 5, Marshalled \<lparr>Timestamp = 0, Root = [1], NextValidatorsHash = [7]\<rparr>)], consensusMetadata = [(NewHeight 1 12, 50, NewHeight 0 9), (NewHeight 1 10, 50, NewHeight 0 9), (NewHeight 1 5, 0, NewHeight 0 1)]\<rparr>) (GetHeight (\<lparr>GetHeight = NewHeight 1 12, GetTime = 60, AppHash = [4], HeaderNextValidatorsHash = [7], SignedHeader = [], ValidatorSet = [7], TrustedHeight = NewHeight 1 10, TrustedValidators = [7]\<rparr>)) (\<lparr>Timestamp = 60, Root = [4], NextValidatorsHash = [7]\<rparr>))"
    using timestamps_stay_monotonic [OF a b c2 d2 e2] r2 z2 h2 by auto
  have r1: "CheckHeaderAndUpdateState (\<lparr>ValidatorSetFromProto = Some, ValidatorSetHash = (\<lambda>v. v), SignedHeaderFromProto = Some, IsRevisionFormat = (\<lambda>c. False), SetRevisionNumber = (\<lambda>c n. c), VerifyCommit = (\<lambda>t a b c d. True)\<rparr>) (\<lparr>ChainId = ''chain'', TrustLevel = \<lparr>Numerator = 1, Denominator = 3\<rparr>, TrustingPeriod = 100, UnbondingPeriod = 200, MaxClockDrift = 10, FrozenHeight = NewHeight 0 0, LatestHeight = NewHeight 1 10\<rparr>) (\<lparr>BlockTime = 50, BlockHeight = NewHeight 0 9\<rparr>) (\<lparr>consensusStates = [(NewHeight 1 10, Marshalled \<lparr>Timestamp = 40, Root = [2], NextValidatorsHash = [7]\<rparr>), (NewHeight 1 5, Marshalled \<lparr>Timestamp = 0, Root = [1], NextValidatorsHash = [7]\<rparr>)], consensusMetadata = [(NewHeight 1 10, 50, NewHeight 0 9), (NewHeight 1 5, 0, NewHeight 0 1)]\<rparr>) (HeaderMsg (\<lparr>GetHeight = NewHeight 1 12, GetTime = 30, AppHash = [5], HeaderNextValidatorsHash = [7], SignedHeader = [], ValidatorSet = [7], TrustedHeight = NewHeight 1 5, TrustedValidators = [7]\<rparr>))
       = (Ok ((\<lparr>ChainId = ''chain'', TrustLevel = \<lparr>Numerator = 1, Denominator = 3\<rparr>, TrustingPeriod = 100, UnbondingPeriod = 200, MaxClockDrift = 10, FrozenHeight = NewHeight 0 0, LatestHeight = NewHeight 1 10\<rparr>)\<lparr>FrozenHeight := NewHeight 0 1\<rparr>, (\<lparr>Timestamp = 30, Root = [5], NextValidatorsHash = [7]\<rparr>)), (\<lparr>consensusStates = [(NewHeight 1 10, Marshalled \<lparr>Timestamp = 40, Root = [2], NextValidatorsHash = [7]\<rparr>), (NewHeight 1 5, Marshalled \<lparr>Timestamp = 0, Root = [1], NextValidatorsHash = [7]\<rparr>)], consensusMetadata = [(NewHeight 1 10, 50, NewHeight 0 9), (NewHeight 1 5, 0, NewHeight 0 1)]\<rparr>))"
    using timestamps_stay_monotonic [OF a b c d e] v
    by (simp add: HeaderConsensusState_def FrozenHeightConst_def)
  show ?thesis
    using a b c d e f g r1 r2 z2 m2 by simp
qed

text \<open>
  C10. \<open>MergedClientStore.Set\<close> and \<open>Delete\<close> never change the substitute store. For
  a key that begins with \<open>subject/\<close> they write to, or delete from, the subject store
  at the key with that prefix removed; for every other key (one that begins with
  \<open>substitute/\<close>, or with neither prefix) they change nothing.
\<close>

theorem merged_store_writes_only_subject:
  "substituteStore (MergedClientStore_Set ws key val) = substituteStore ws
   \<and> substituteStore (MergedClientStore_Delete ws key) = substituteStore ws
   \<and> (HasPrefix key ''subject/'' \<longrightarrow>
        MergedClientStore_Set ws key val
          = ws\<lparr>subjectStore := (subjectStore ws)(drop 8 key \<mapsto> val)\<rparr>
      \<and> MergedClientStore_Delete ws key
          = ws\<lparr>subjectStore := (subjectStore ws)(drop 8 key := None)\<rparr>)
   \<and> (\<not> HasPrefix key ''subject/'' \<longrightarrow>
        MergedClientStore_Set ws key val = ws \<and> MergedClientStore_Delete ws key = ws)"
  by (auto simp: MergedClientStore_Set_def MergedClientStore_Delete_def SplitPrefix_def
      TrimPrefix_def SubjectPrefix_def SubstitutePrefix_def eval_nat_numeral)

theorem merged_store_writes_only_subject_witness:
  "HasPrefix ''subject/clientState'' ''subject/''
   \<and> MergedClientStore_Set
         \<lparr>subjectStore = Map.empty, substituteStore = [''clientState'' \<mapsto> ''b'']\<rparr>
         ''subject/clientState'' ''a''
       = \<lparr>subjectStore = [''clientState'' \<mapsto> ''a''],
          substituteStore = [''clientState'' \<mapsto> ''b'']\<rparr>
   \<and> \<not> HasPrefix ''substitute/clientState'' ''subject/''
   \<and> MergedClientStore_Set
         \<lparr>subjectStore = Map.empty, substituteStore = [''clientState'' \<mapsto> ''b'']\<rparr>
         ''substitute/clientState'' ''a''
       = \<lparr>subjectStore = Map.empty, substituteStore = [''clientState'' \<mapsto> ''b'']\<rparr>
   \<and> MergedClientStore_Delete
         \<lparr>subjectStore = Map.empty, substituteStore = [''clientState'' \<mapsto> ''b'']\<rparr>
         ''substitute/clientState''
       = \<lparr>subjectStore = Map.empty, substituteStore = [''clientState'' \<mapsto> ''b'']\<rparr>
   \<and> MergedClientStore_Delete
         \<lparr>subjectStore = [''clientState'' \<mapsto> ''a''], substituteStore = Map.empty\<rparr>
         ''subject/clientState''
       = \<lparr>subjectStore = Map.empty, substituteStore = Map.empty\<rparr>"
proof -
  have a: "HasPrefix ''subject/clientState'' ''subject/''"
    by (simp add: HasPrefix_def)
  have b: "\<not> HasPrefix ''substitute/clientState'' ''subject/''"
    by (simp add: HasPrefix_def)
  note t1 = merged_store_writes_only_subject [where key="''subject/clientState''"
      and val="''a''"
      and ws="\<lparr>subjectStore = Map.empty, substituteStore = [''clientState'' \<mapsto> ''b'']\<rparr>"]
  note t2 = merged_store_writes_only_subject [where key="''substitute/clientState''"
      and val="''a''"
      and ws="\<lparr>subjectStore = Map.empty, substituteStore = [''clientState'' \<mapsto> ''b'']\<rparr>"]
  note t3 = merged_store_writes_only_subject [where key="''subject/clientState''"
      and val="''a''"
      and ws="\<lparr>subjectStore = [''clientState'' \<mapsto> ''a''], substituteStore = Map.empty\<rparr>"]
  show ?thesis
    using t1 t2 t3 a b by simp
qed

text \<open>
  C8. On an UNORDERED channel, \<open>recvPacket\<close> for a packet whose receipt exists returns
  success and the channel store it was given: the log of callback invocations, the
  events, the receipts, the acknowledgements and the counters are all as before. In
  particular, after a first \<open>recvPacket\<close> on an UNORDERED channel in which the callback
  succeeded, a second one for the same packet is such a no-op.
\<close>

theorem recvPacket_replay_is_noop:
  "(channels st (destPort packet, destChannel packet) = Some channel \<longrightarrow>
    ordering channel = UNORDERED \<longrightarrow>
    (destPort packet, destChannel packet, sequence packet) \<in> packetReceipts st \<longrightarrow>
      recvPacket onRecvPacket verifyMembership st packet proofBytes proofHeight selfHeight selfTime
        = (Inr (), st))
   \<and> (channels stA (destPort packet, destChannel packet) = Some channel \<longrightarrow>
      ordering channel = UNORDERED \<longrightarrow>
      snd (onRecvPacket packet) \<longrightarrow>
      recvPacket onRecvPacket verifyMembership stA packet proofBytes proofHeight selfHeight selfTime
        = (Inr (), stB) \<longrightarrow>
      recvPacket onRecvPacket verifyMembership stB packet proofBytesB proofHeightB selfHeightB
          selfTimeB
        = (Inr (), stB))"
proof (intro conjI impI)
  assume "channels st (destPort packet, destChannel packet) = Some channel"
    and "ordering channel = UNORDERED"
    and "(destPort packet, destChannel packet, sequence packet) \<in> packetReceipts st"
  then show "recvPacket onRecvPacket verifyMembership st packet proofBytes proofHeight selfHeight
      selfTime = (Inr (), st)"
    by (simp add: recvPacket_def Let_def)
next
  assume c: "channels stA (destPort packet, destChannel packet) = Some channel"
    and u: "ordering channel = UNORDERED"
    and s: "snd (onRecvPacket packet)"
    and r: "recvPacket onRecvPacket verifyMembership stA packet proofBytes proofHeight selfHeight
      selfTime = (Inr (), stB)"
  have "channels stB (destPort packet, destChannel packet) = Some channel
      \<and> (destPort packet, destChannel packet, sequence packet) \<in> packetReceipts stB"
    using c u s r
    by (auto simp: recvPacket_def Let_def split: if_splits prod.splits option.splits)
  with u show "recvPacket onRecvPacket verifyMembership stB packet proofBytesB proofHeightB
      selfHeightB selfTimeB = (Inr (), stB)"
    by (simp add: recvPacket_def Let_def)
qed

theorem recvPacket_replay_is_noop_witness:
  "recvPacket (\<lambda>p. (Some [1], True)) (\<lambda>p q h. True) (\<lparr>channels = [(''transfer'', ''channel-1'') \<mapsto> \<lparr>ordering = UNORDERED, phase = OPEN\<rparr>], nextSequenceRecv = [(''transfer'', ''channel-1'') \<mapsto> 1], packetReceipts = {}, acknowledgements = Map.empty, callbackLog = [], events = []\<rparr>) (\<lparr>sequence = 1, sourcePort = ''transfer'', sourceChannel = ''channel-0'', destPort = ''transfer'', destChannel = ''channel-1'', payload = [9], timeoutHeight = NewHeight 1 10000, timeoutTimestamp = 0\<rparr>) [] (NewHeight 1 5) (NewHeight 1 5) 10
     = (Inr (), (\<lparr>channels = [(''transfer'', ''channel-1'') \<mapsto> \<lparr>ordering = UNORDERED, phase = OPEN\<rparr>], nextSequenceRecv = [(''transfer'', ''channel-1'') \<mapsto> 1], packetReceipts = {(''transfer'', ''channel-1'', 1)}, acknowledgements = [(''transfer'', ''channel-1'', 1) \<mapsto> [1]], callbackLog = [(\<lparr>sequence = 1, sourcePort = ''transfer'', sourceChannel = ''channel-0'', destPort = ''transfer'', destChannel = ''channel-1'', payload = [9], timeoutHeight = NewHeight 1 10000, timeoutTimestamp = 0\<rparr>)], events = [RecvPacketEvent (\<lparr>sequence = 1, sourcePort = ''transfer'', sourceChannel = ''channel-0'', destPort = ''transfer'', destChannel = ''channel-1'', payload = [9], timeoutHeight = NewHeight 1 10000, timeoutTimestamp = 0\<rparr>)]\<rparr>))
   \<and> (destPort (\<lparr>sequence = 1, sourcePort = ''transfer'', sourceChannel = ''channel-0'', destPort = ''transfer'', destChannel = ''channel-1'', payload = [9], timeoutHeight = NewHeight 1 10000, timeoutTimestamp = 0\<rparr>), destChannel (\<lparr>sequence = 1, sourcePort = ''transfer'', sourceChannel = ''channel-0'', destPort = ''transfer'', destChannel = ''channel-1'', payload = [9], timeoutHeight = NewHeight 1 10000, timeoutTimestamp = 0\<rparr>), sequence (\<lparr>sequence = 1, sourcePort = ''transfer'', sourceChannel = ''channel-0'', destPort = ''transfer'', destChannel = ''channel-1'', payload = [9], timeoutHeight = NewHeight 1 10000, timeoutTimestamp = 0\<rparr>)) \<in> packetReceipts (\<lparr>channels = [(''transfer'', ''channel-1'') \<mapsto> \<lparr>ordering = UNORDERED, phase = OPEN\<rparr>], nextSequenceRecv = [(''transfer'', ''channel-1'') \<mapsto> 1], packetReceipts = {(''transfer'', ''channel-1'', 1)}, acknowledgements = [(''transfer'', ''channel-1'', 1) \<mapsto> [1]], callbackLog = [(\<lparr>sequence = 1, sourcePort = ''transfer'', sourceChannel = ''channel-0'', destPort = ''transfer'', destChannel = ''channel-1'', payload = [9], timeoutHeight = NewHeight 1 10000, timeoutTimestamp = 0\<rparr>)], events = [RecvPacketEvent (\<lparr>sequence = 1, sourcePort = ''transfer'', sourceChannel = ''channel-0'', destPort = ''transfer'', destChannel = ''channel-1'', payload = [9], timeoutHeight = NewHeight 1 10000, timeoutTimestamp = 0\<rparr>)]\<rparr>)
   \<and> recvPacket (\<lambda>p. (Some [1], True)) (\<lambda>p q h. True) (\<lparr>channels = [(''transfer'', ''channel-1'') \<mapsto> \<lparr>ordering = UNORDERED, phase = OPEN\<rparr>], nextSequenceRecv = [(''transfer'', ''channel-1'') \<mapsto> 1], packetReceipts = {(''transfer'', ''channel-1'', 1)}, acknowledgements = [(''transfer'', ''channel-1'', 1) \<mapsto> [1]], callbackLog = [(\<lparr>sequence = 1, sourcePort = ''transfer'', sourceChannel = ''channel-0'', destPort = ''transfer'', destChannel = ''channel-1'', payload = [9], timeoutHeight = NewHeight 1 10000, timeoutTimestamp = 0\<rparr>)], events = [RecvPacketEvent (\<lparr>sequence = 1, sourcePort = ''transfer'', sourceChannel = ''channel-0'', destPort = ''transfer'', destChannel = ''channel-1'', payload = [9], timeoutHeight = NewHeight 1 10000, timeoutTimestamp = 0\<rparr>)]\<rparr>) (\<lparr>sequence = 1, sourcePort = ''transfer'', sourceChannel = ''channel-0'', destPort = ''transfer'', destChannel = ''channel-1'', payload = [9], timeoutHeight = NewHeight 1 10000, timeoutTimestamp = 0\<rparr>) [] (NewHeight 1 5) (NewHeight 1 10) 20
     = (Inr (), (\<lparr>channels = [(''transfer'', ''channel-1'') \<mapsto> \<lparr>ordering = UNORDERED, phase = OPEN\<rparr>], nextSequenceRecv = [(''transfer'', ''channel-1'') \<mapsto> 1], packetReceipts = {(''transfer'', ''channel-1'', 1)}, acknowledgements = [(''transfer'', ''channel-1'', 1) \<mapsto> [1]], callbackLog = [(\<lparr>sequence = 1, sourcePort = ''transfer'', sourceChannel = ''channel-0'', destPort = ''transfer'', destChannel = ''channel-1'', payload = [9], timeoutHeight = NewHeight 1 10000, timeoutTimestamp = 0\<rparr>)], events = [RecvPacketEvent (\<lparr>sequence = 1, sourcePort = ''transfer'', sourceChannel = ''channel-0'', destPort = ''transfer'', destChannel = ''channel-1'', payload = [9], timeoutHeight = NewHeight 1 10000, timeoutTimestamp = 0\<rparr>)]\<rparr>))"
proof -
  have a: "channels (\<lparr>channels = [(''transfer'', ''channel-1'') \<mapsto> \<lparr>ordering = UNORDERED, phase = OPEN\<rparr>], nextSequenceRecv = [(''transfer'', ''channel-1'') \<mapsto> 1], packetReceipts = {}, acknowledgements = Map.empty, callbackLog = [], events = []\<rparr>) (destPort (\<lparr>sequence = 1, sourcePort = ''transfer'', sourceChannel = ''channel-0'', destPort = ''transfer'', destChannel = ''channel-1'', payload = [9], timeoutHeight = NewHeight 1 10000, timeoutTimestamp = 0\<rparr>), destChannel (\<lparr>sequence = 1, sourcePort = ''transfer'', sourceChannel = ''channel-0'', destPort = ''transfer'', destChannel = ''channel-1'', payload = [9], timeoutHeight = NewHeight 1 10000, timeoutTimestamp = 0\<rparr>))
      = Some \<lparr>ordering = UNORDERED, phase = OPEN\<rparr>"
    by simp
  have b: "recvPacket (\<lambda>p. (Some [1], True)) (\<lambda>p q h. True) (\<lparr>channels = [(''transfer'', ''channel-1'') \<mapsto> \<lparr>ordering = UNORDERED, phase = OPEN\<rparr>], nextSequenceRecv = [(''transfer'', ''channel-1'') \<mapsto> 1], packetReceipts = {}, acknowledgements = Map.empty, callbackLog = [], events = []\<rparr>) (\<lparr>sequence = 1, sourcePort = ''transfer'', sourceChannel = ''channel-0'', destPort = ''transfer'', destChannel = ''channel-1'', payload = [9], timeoutHeight = NewHeight 1 10000, timeoutTimestamp = 0\<rparr>) [] (NewHeight 1 5) (NewHeight 1 5) 10
     = (Inr (), (\<lparr>channels = [(''transfer'', ''channel-1'') \<mapsto> \<lparr>ordering = UNORDERED, phase = OPEN\<rparr>], nextSequenceRecv = [(''transfer'', ''channel-1'') \<mapsto> 1], packetReceipts = {(''transfer'', ''channel-1'', 1)}, acknowledgements = [(''transfer'', ''channel-1'', 1) \<mapsto> [1]], callbackLog = [(\<lparr>sequence = 1, sourcePort = ''transfer'', sourceChannel = ''channel-0'', destPort = ''transfer'', destChannel = ''channel-1'', payload = [9], timeoutHeight = NewHeight 1 10000, timeoutTimestamp = 0\<rparr>)], events = [RecvPacketEvent (\<lparr>sequence = 1, sourcePort = ''transfer'', sourceChannel = ''channel-0'', destPort = ''transfer'', destChannel = ''channel-1'', payload = [9], timeoutHeight = NewHeight 1 10000, timeoutTimestamp = 0\<rparr>)]\<rparr>))"
    by (simp add: recvPacket_def timeoutElapsed_def store_defs Let_def)
  have c: "(destPort (\<lparr>sequence = 1, sourcePort = ''transfer'', sourceChannel = ''channel-0'', destPort = ''transfer'', destChannel = ''channel-1'', payload = [9], timeoutHeight = NewHeight 1 10000, timeoutTimestamp = 0\<rparr>), destChannel (\<lparr>sequence = 1, sourcePort = ''transfer'', sourceChannel = ''channel-0'', destPort = ''transfer'', destChannel = ''channel-1'', payload = [9], timeoutHeight = NewHeight 1 10000, timeoutTimestamp = 0\<rparr>), sequence (\<lparr>sequence = 1, sourcePort = ''transfer'', sourceChannel = ''channel-0'', destPort = ''transfer'', destChannel = ''channel-1'', payload = [9], timeoutHeight = NewHeight 1 10000, timeoutTimestamp = 0\<rparr>)) \<in> packetReceipts (\<lparr>channels = [(''transfer'', ''channel-1'') \<mapsto> \<lparr>ordering = UNORDERED, phase = OPEN\<rparr>], nextSequenceRecv = [(''transfer'', ''channel-1'') \<mapsto> 1], packetReceipts = {(''transfer'', ''channel-1'', 1)}, acknowledgements = [(''transfer'', ''channel-1'', 1) \<mapsto> [1]], callbackLog = [(\<lparr>sequence = 1, sourcePort = ''transfer'', sourceChannel = ''channel-0'', destPort = ''transfer'', destChannel = ''channel-1'', payload = [9], timeoutHeight = NewHeight 1 10000, timeoutTimestamp = 0\<rparr>)], events = [RecvPacketEvent (\<lparr>sequence = 1, sourcePort = ''transfer'', sourceChannel = ''channel-0'', destPort = ''transfer'', destChannel = ''channel-1'', payload = [9], timeoutHeight = NewHeight 1 10000, timeoutTimestamp = 0\<rparr>)]\<rparr>)"
    by simp
  note t = recvPacket_replay_is_noop [where stA="\<lparr>channels = [(''transfer'', ''channel-1'') \<mapsto> \<lparr>ordering = UNORDERED, phase = OPEN\<rparr>], nextSequenceRecv = [(''transfer'', ''channel-1'') \<mapsto> 1], packetReceipts = {}, acknowledgements = Map.empty, callbackLog = [], events = []\<rparr>" and stB="\<lparr>channels = [(''transfer'', ''channel-1'') \<mapsto> \<lparr>ordering = UNORDERED, phase = OPEN\<rparr>], nextSequenceRecv = [(''transfer'', ''channel-1'') \<mapsto> 1], packetReceipts = {(''transfer'', ''channel-1'', 1)}, acknowledgements = [(''transfer'', ''channel-1'', 1) \<mapsto> [1]], callbackLog = [(\<lparr>sequence = 1, sourcePort = ''transfer'', sourceChannel = ''channel-0'', destPort = ''transfer'', destChannel = ''channel-1'', payload = [9], timeoutHeight = NewHeight 1 10000, timeoutTimestamp = 0\<rparr>)], events = [RecvPacketEvent (\<lparr>sequence = 1, sourcePort = ''transfer'', sourceChannel = ''channel-0'', destPort = ''transfer'', destChannel = ''channel-1'', payload = [9], timeoutHeight = NewHeight 1 10000, timeoutTimestamp = 0\<rparr>)]\<rparr>" and packet="\<lparr>sequence = 1, sourcePort = ''transfer'', sourceChannel = ''channel-0'', destPort = ''transfer'', destChannel = ''channel-1'', payload = [9], timeoutHeight = NewHeight 1 10000, timeoutTimestamp = 0\<rparr>"
      and channel="\<lparr>ordering = UNORDERED, phase = OPEN\<rparr>"
      and onRecvPacket="\<lambda>p. (Some [1], True)" and verifyMembership="\<lambda>p q h. True"
      and proofBytes="[]" and proofHeight="NewHeight 1 5" and selfHeight="NewHeight 1 5" and selfTime=10
      and proofBytesB="[]" and proofHeightB="NewHeight 1 5" and selfHeightB="NewHeight 1 10" and selfTimeB=20]
  show ?thesis
    using t a b c by simp
qed

end
